theory Spec2Isabelle
  imports Complex_Main "HOL-Library.AList"
begin

section \<open>JavaScript values\<close>

text \<open>
  The dashboards are JavaScript. A CSV cell, after Papa Parse's dynamic typing, is a
  number, a boolean, \<open>null\<close> or a string; reading a column that the row does not have
  gives \<open>undefined\<close>. \<open>NaN\<close> is a value of its own.

  Numbers are modelled as exact rationals. JavaScript numbers are IEEE 754 doubles:
  where the source rounds a sum, a quotient or a decimal literal to the nearest double,
  the model keeps the exact value, and it has no infinities and no negative zero. So
  a statement below about a computed number is a statement about the exact value the
  code's formula denotes; it carries over to the running program where the numbers
  involved and their results are exactly representable (integers below 2^53, and
  fractions with a power of two as denominator) and otherwise up to rounding.
\<close>

datatype jsval = JUndefined | JNull | JBool bool | JNum rat | JNaN | JStr string

text \<open>A value known to be a number: \<open>None\<close> is \<open>NaN\<close>.\<close>

type_synonym number = "rat option"

datatype error = TypeError string | Error string

definition digit_char :: "nat \<Rightarrow> char" where
  "digit_char n = ''0123456789'' ! (n mod 10)"

fun digits_of :: "nat \<Rightarrow> string" where
  "digits_of n = (if n < 10 then [digit_char n] else digits_of (n div 10) @ [digit_char n])"

declare digits_of.simps [simp del]

text \<open>The digits after the decimal point of \<open>r\<close> with \<open>0 \<le> r < 1\<close>, at most \<open>k\<close> of them.\<close>

fun frac_digits :: "nat \<Rightarrow> rat \<Rightarrow> string" where
  "frac_digits k r =
     (if k = 0 \<or> r = 0 then []
      else digit_char (nat \<lfloor>r * 10\<rfloor>) # frac_digits (k - 1) (r * 10 - of_int \<lfloor>r * 10\<rfloor>))"

declare frac_digits.simps [simp del]

text \<open>
  \<open>Number.prototype.toString\<close>: an integer prints its decimal digits, another number its
  decimal expansion (a number read from a CSV literal prints that literal). The
  exponent notation of very large and very small numbers is outside the model.
\<close>

definition js_numstr :: "rat \<Rightarrow> string" where
  "js_numstr r =
     (let a = \<bar>r\<bar>; i = \<lfloor>a\<rfloor>; f = a - of_int i
      in (if r < 0 then ''-'' else '''') @ digits_of (nat i) @
         (if f = 0 then '''' else ''.'' @ frac_digits 20 f))"

fun ToString :: "jsval \<Rightarrow> string" where
  "ToString JUndefined = ''undefined''"
| "ToString JNull = ''null''"
| "ToString (JBool b) = (if b then ''true'' else ''false'')"
| "ToString (JNum r) = js_numstr r"
| "ToString JNaN = ''NaN''"
| "ToString (JStr s) = s"

text \<open>
  \<open>ToNumber\<close> of a string (\<open>StringToNumber\<close>): white space around the text is dropped; the
  empty text is 0; \<open>0x\<close>, \<open>0o\<close> and \<open>0b\<close> start an unsigned integer in base 16, 8 and 2;
  any other text is a decimal literal with an optional sign, digits with an optional
  point, and an optional exponent; everything else is \<open>NaN\<close>. The literal \<open>Infinity\<close>
  is outside the model (it has no infinities) and reads as \<open>NaN\<close> here; of the white
  space characters only the ASCII ones are recognised.
\<close>

definition is_space :: "char \<Rightarrow> bool" where
  "is_space c = (c \<in> set [CHR 0x09, CHR 0x0A, CHR 0x0B, CHR 0x0C, CHR 0x0D, CHR 0x20])"

definition trim :: "string \<Rightarrow> string" where
  "trim s = rev (dropWhile is_space (rev (dropWhile is_space s)))"

definition digit_value :: "char \<Rightarrow> nat option" where
  "digit_value c =
     (let n = (of_char c :: nat)
      in if 48 \<le> n \<and> n \<le> 57 then Some (n - 48)
         else if 97 \<le> n \<and> n \<le> 102 then Some (n - 87)
         else if 65 \<le> n \<and> n \<le> 70 then Some (n - 55)
         else None)"

text \<open>The value of a run of digits in base \<open>b\<close>, after the digits read so far.\<close>

fun digits_value :: "nat \<Rightarrow> string \<Rightarrow> nat \<Rightarrow> nat option" where
  "digits_value b [] acc = Some acc"
| "digits_value b (c # cs) acc =
     (case digit_value c of
        None \<Rightarrow> None
      | Some d \<Rightarrow> if d < b then digits_value b cs (acc * b + d) else None)"

definition radix_literal :: "nat \<Rightarrow> string \<Rightarrow> number" where
  "radix_literal b ds = (if ds = [] then None else map_option of_nat (digits_value b ds 0))"

text \<open>The exponent part: nothing, or \<open>e\<close> with an optional sign and at least one digit.\<close>

definition exponent_part :: "string \<Rightarrow> int option" where
  "exponent_part e =
     (case e of
        [] \<Rightarrow> Some 0
      | c # r \<Rightarrow>
          (let ds = (if take 1 r = ''-'' \<or> take 1 r = ''+'' then drop 1 r else r)
           in if ds = [] then None
              else map_option (\<lambda>n. if take 1 r = ''-'' then - int n else int n) (digits_value 10 ds 0)))"

text \<open>An unsigned decimal literal: \<open>12\<close>, \<open>12.\<close>, \<open>12.5\<close>, \<open>.5\<close>, each with an optional exponent.\<close>

definition decimal_literal :: "string \<Rightarrow> number" where
  "decimal_literal s =
     (let m = takeWhile (\<lambda>c. c \<noteq> CHR ''e'' \<and> c \<noteq> CHR ''E'') s;
          ip = takeWhile (\<lambda>c. c \<noteq> CHR ''.'') m;
          fp = drop (length ip + 1) m
      in if ip = [] \<and> fp = [] then None
         else (case (digits_value 10 ip 0, digits_value 10 fp 0, exponent_part (drop (length m) s)) of
                 (Some i, Some f, Some x) \<Rightarrow>
                   Some ((of_nat i + of_nat f / 10 ^ length fp) * power_int 10 x)
               | _ \<Rightarrow> None))"

definition StringToNumber :: "string \<Rightarrow> number" where
  "StringToNumber str =
     (let s = trim str
      in if s = [] then Some 0
         else if take 2 s = ''0x'' \<or> take 2 s = ''0X'' then radix_literal 16 (drop 2 s)
         else if take 2 s = ''0o'' \<or> take 2 s = ''0O'' then radix_literal 8 (drop 2 s)
         else if take 2 s = ''0b'' \<or> take 2 s = ''0B'' then radix_literal 2 (drop 2 s)
         else if take 1 s = ''-'' then map_option uminus (decimal_literal (drop 1 s))
         else if take 1 s = ''+'' then decimal_literal (drop 1 s)
         else decimal_literal s)"

fun ToNumber :: "jsval \<Rightarrow> number" where
  "ToNumber JUndefined = None"
| "ToNumber JNull = Some 0"
| "ToNumber (JBool b) = Some (if b then 1 else 0)"
| "ToNumber (JNum r) = Some r"
| "ToNumber JNaN = None"
| "ToNumber (JStr s) = StringToNumber s"

fun of_number :: "number \<Rightarrow> jsval" where
  "of_number None = JNaN"
| "of_number (Some r) = JNum r"

fun is_string :: "jsval \<Rightarrow> bool" where
  "is_string (JStr s) = True"
| "is_string v = False"

text \<open>Arithmetic on numbers; \<open>NaN\<close> is contagious.\<close>

fun nadd :: "number \<Rightarrow> number \<Rightarrow> number" where
  "nadd (Some a) (Some b) = Some (a + b)"
| "nadd a b = None"

fun nsub :: "number \<Rightarrow> number \<Rightarrow> number" where
  "nsub (Some a) (Some b) = Some (a - b)"
| "nsub a b = None"

fun nmul :: "number \<Rightarrow> number \<Rightarrow> number" where
  "nmul (Some a) (Some b) = Some (a * b)"
| "nmul a b = None"

text \<open>
  Division. With exact numbers the only non-finite quotient is a division by zero;
  every division of the functions modelled below has a divisor that is a non-zero
  constant, a length or count checked to be positive, a value checked to be positive,
  or it is \<open>0 / 0\<close>. So the quotient by zero is \<open>NaN\<close> here and \<open>Infinity\<close> is not modelled.
\<close>

fun ndiv :: "number \<Rightarrow> number \<Rightarrow> number" where
  "ndiv (Some a) (Some b) = (if b = 0 then None else Some (a / b))"
| "ndiv a b = None"

text \<open>The comparisons \<open>a > b\<close> and \<open>a >= b\<close>: false when either side is \<open>NaN\<close>.\<close>

fun ngt :: "number \<Rightarrow> number \<Rightarrow> bool" where
  "ngt (Some a) (Some b) = (a > b)"
| "ngt a b = False"

fun nge :: "number \<Rightarrow> number \<Rightarrow> bool" where
  "nge (Some a) (Some b) = (a \<ge> b)"
| "nge a b = False"

text \<open>\<open>Math.max(a, b)\<close> and \<open>Math.min(a, b)\<close>: \<open>NaN\<close> when either argument is.\<close>

fun Math_max2 :: "number \<Rightarrow> number \<Rightarrow> number" where
  "Math_max2 (Some a) (Some b) = Some (max a b)"
| "Math_max2 a b = None"

fun Math_min2 :: "number \<Rightarrow> number \<Rightarrow> number" where
  "Math_min2 (Some a) (Some b) = Some (min a b)"
| "Math_min2 a b = None"

text \<open>The operator \<open>+\<close>: concatenation when a side is a string, addition otherwise.\<close>

definition js_add :: "jsval \<Rightarrow> jsval \<Rightarrow> jsval" where
  "js_add a b =
     (if is_string a \<or> is_string b then JStr (ToString a @ ToString b)
      else of_number (nadd (ToNumber a) (ToNumber b)))"

text \<open>
  \<open>x.toFixed(n)\<close> on a number: the decimal string with \<open>n\<close> digits after the point that
  is nearest to the value of \<open>x\<close>, the larger in magnitude of two equally near ones; \<open>NaN\<close>
  prints as such. (The source applies this to the double \<open>x\<close>; a double that is not the
  exact value of the formula, such as 0.35, can round the other way.)
\<close>

definition pad_left :: "nat \<Rightarrow> string \<Rightarrow> string" where
  "pad_left n s = replicate (n - length s) CHR ''0'' @ s"

definition toFixed :: "nat \<Rightarrow> number \<Rightarrow> string" where
  "toFixed n x =
     (case x of
        None \<Rightarrow> ''NaN''
      | Some r \<Rightarrow>
          (let m = nat \<lfloor>\<bar>r\<bar> * 10 ^ n + 1 / 2\<rfloor>;
               ds = pad_left (Suc n) (digits_of m);
               k = length ds - n
           in (if r < 0 \<and> m \<noteq> 0 then ''-'' else '''') @ take k ds @
              (if n = 0 then '''' else ''.'' @ drop k ds)))"

text \<open>
  \<open>v.toFixed(n)\<close> on any value: \<open>undefined\<close> and \<open>null\<close> have no properties, and
  strings and booleans have no \<open>toFixed\<close> method, so the call throws a TypeError.
\<close>

fun toFixed_val :: "nat \<Rightarrow> jsval \<Rightarrow> error + string" where
  "toFixed_val n (JNum r) = Inr (toFixed n (Some r))"
| "toFixed_val n JNaN = Inr (toFixed n None)"
| "toFixed_val n v = Inl (TypeError ''toFixed'')"

text \<open>The number a decimal string of \<open>toFixed\<close> denotes: \<open>parseFloat(x.toFixed(n))\<close>.\<close>

definition round_fixed :: "nat \<Rightarrow> number \<Rightarrow> number" where
  "round_fixed n x =
     (case x of
        None \<Rightarrow> None
      | Some r \<Rightarrow> Some (sgn r * of_int \<lfloor>\<bar>r\<bar> * 10 ^ n + 1 / 2\<rfloor> / 10 ^ n))"

text \<open>\<open>v || d\<close> for a numeric default: the falsy values are replaced.\<close>

fun truthy :: "jsval \<Rightarrow> bool" where
  "truthy JUndefined = False"
| "truthy JNull = False"
| "truthy (JBool b) = b"
| "truthy (JNum r) = (r \<noteq> 0)"
| "truthy JNaN = False"
| "truthy (JStr s) = (s \<noteq> [])"

definition js_or :: "jsval \<Rightarrow> jsval \<Rightarrow> jsval" where
  "js_or v d = (if truthy v then v else d)"

section \<open>What the host provides\<close>

text \<open>
  Parsing a date string, the local time zone and the locale's date formats belong to
  the JavaScript engine, and \<open>Math.random\<close> to its random generator; the functions below
  take them as a parameter. An instant is a number of milliseconds since the epoch;
  \<open>None\<close> is the time value \<open>NaN\<close> of an invalid Date.
\<close>

record env =
  Date_parse :: "string \<Rightarrow> int option"
  LocalTZA :: "int \<Rightarrow> int"
  toLocaleDateString :: "int option \<Rightarrow> string"
  toLocaleTimeString :: "int option \<Rightarrow> string"
  toLocaleString :: "int option \<Rightarrow> string"
  getDate :: "int option \<Rightarrow> number"
  localeCompare :: "string \<Rightarrow> string \<Rightarrow> int"
  Math_random :: "nat \<Rightarrow> rat"

definition trunc :: "rat \<Rightarrow> int" where
  "trunc r = (if r < 0 then - \<lfloor>- r\<rfloor> else \<lfloor>r\<rfloor>)"

text \<open>
  \<open>TimeClip\<close>: a Date holds an instant of at most 8.64e15 ms on either side of the
  epoch; a time value beyond that makes the Date invalid.
\<close>

definition TimeClip :: "rat \<Rightarrow> int option" where
  "TimeClip t = (if \<bar>t\<bar> > 8640000000000000 then None else Some (trunc t))"

text \<open>\<open>new Date(v).getTime()\<close>: a string is parsed, any other value is converted to a number.\<close>

fun new_Date :: "env \<Rightarrow> jsval \<Rightarrow> int option" where
  "new_Date env JUndefined = None"
| "new_Date env JNull = Some 0"
| "new_Date env (JBool b) = Some (if b then 1 else 0)"
| "new_Date env (JNum r) = TimeClip r"
| "new_Date env JNaN = None"
| "new_Date env (JStr s) = (case Date_parse env s of None \<Rightarrow> None | Some t \<Rightarrow> TimeClip (of_int t))"

definition getHours :: "env \<Rightarrow> int option \<Rightarrow> int option" where
  "getHours env d = map_option (\<lambda>t. ((t + LocalTZA env t) div 3600000) mod 24) d"

definition getDay :: "env \<Rightarrow> int option \<Rightarrow> int option" where
  "getDay env d = map_option (\<lambda>t. ((t + LocalTZA env t) div 86400000 + 4) mod 7) d"

text \<open>
  \<open>new Date(Math.max(...ds))\<close> and \<open>new Date(Math.min(...ds))\<close> for a list of Dates:
  invalid when a Date of the list is, and for the empty list (the maximum of nothing
  is \<open>-Infinity\<close>, which is no instant).
\<close>

fun max_date :: "int option list \<Rightarrow> int option" where
  "max_date [] = None"
| "max_date [d] = d"
| "max_date (d # ds) = (case (d, max_date ds) of (Some a, Some b) \<Rightarrow> Some (max a b) | _ \<Rightarrow> None)"

fun min_date :: "int option list \<Rightarrow> int option" where
  "min_date [] = None"
| "min_date [d] = d"
| "min_date (d # ds) = (case (d, min_date ds) of (Some a, Some b) \<Rightarrow> Some (min a b) | _ \<Rightarrow> None)"

text \<open>
  \<open>new Date(d.getTime() - ms)\<close>, the difference \<open>t - ms\<close> of two numbers, and the
  comparison \<open>a >= b\<close> of two Dates.
\<close>

definition date_minus :: "int option \<Rightarrow> int \<Rightarrow> int option" where
  "date_minus d ms = (case d of None \<Rightarrow> None | Some t \<Rightarrow> TimeClip (of_int (t - ms)))"

definition instant_minus :: "int option \<Rightarrow> int \<Rightarrow> int option" where
  "instant_minus now ms = map_option (\<lambda>t. t - ms) now"

fun date_ge :: "int option \<Rightarrow> int option \<Rightarrow> bool" where
  "date_ge (Some a) (Some b) = (a \<ge> b)"
| "date_ge a b = False"

section \<open>Lodash on lists\<close>

text \<open>
  \<open>_.sumBy\<close> skips \<open>undefined\<close> summands and starts from the first defined one, so the sum
  of a non-empty list whose summands are all \<open>undefined\<close> is \<open>undefined\<close>; the sum of the
  empty list is 0. \<open>_.meanBy\<close> divides that sum by the length.
\<close>

fun baseSum :: "jsval list \<Rightarrow> jsval \<Rightarrow> jsval" where
  "baseSum [] acc = acc"
| "baseSum (c # cs) acc =
     baseSum cs (if c = JUndefined then acc else if acc = JUndefined then c else js_add acc c)"

definition sumBy :: "jsval list \<Rightarrow> jsval" where
  "sumBy xs = (if xs = [] then JNum 0 else baseSum xs JUndefined)"

definition meanBy :: "jsval list \<Rightarrow> number" where
  "meanBy xs =
     (if xs = [] then None
      else ndiv (ToNumber (baseSum xs JUndefined)) (Some (of_nat (length xs))))"

text \<open>The same sum over summands that are numbers: the first is added to nothing.\<close>

definition sum_numbers :: "number list \<Rightarrow> number" where
  "sum_numbers xs = foldl nadd (Some 0) xs"

section \<open>The wide shape: one row per cycle\<close>

text \<open>
  A parsed row is the list of its columns with their cells, in header order;
  \<open>Papa.parse\<close> itself is a library, and the functions below start from its rows.
\<close>

type_synonym row = "(string \<times> jsval) list"

definition get :: "row \<Rightarrow> string \<Rightarrow> jsval" where
  "get r k = (case map_of r k of None \<Rightarrow> JUndefined | Some v \<Rightarrow> v)"

definition Object_keys :: "row \<Rightarrow> string list" where
  "Object_keys r = map fst r"

text \<open>
  The record \<open>processCSVData\<close> makes of a row: the row itself (\<open>...row\<close>) and the derived
  fields. The derived fields that only one of the two wide dashboards has
  (\<open>attention\<close>; \<open>valve_issue\<close>, \<open>current_imbalance\<close>, \<open>energy_per_cycle\<close>,
  \<open>pressure_overshoot\<close>) are read by none of the functions below and are left out.
\<close>

record cycle =
  raw :: row
  date :: "int option"
  dateStr :: string
  hour :: "int option"
  dayOfWeek :: "int option"
  runtime_hours :: number
  e_stop :: bool
  overload :: bool
  anomaly :: bool

definition mk_cycle :: "env \<Rightarrow> row \<Rightarrow> cycle" where
  "mk_cycle env r =
     \<lparr>raw = r,
      date = new_Date env (get r ''cycle_started_at''),
      dateStr = toLocaleDateString env (new_Date env (get r ''cycle_started_at'')),
      hour = getHours env (new_Date env (get r ''cycle_started_at'')),
      dayOfWeek = getDay env (new_Date env (get r ''cycle_started_at'')),
      runtime_hours = ndiv (ndiv (ToNumber (get r ''cycle_duration_ms'')) (Some 1000)) (Some 3600),
      e_stop = (get r ''di_e_stop_triggered'' = JStr ''True'' \<or> get r ''di_e_stop_triggered'' = JBool True),
      overload = (get r ''di_overload_trip'' = JStr ''True'' \<or> get r ''di_overload_trip'' = JBool True),
      anomaly = ngt (ToNumber (get r ''health_anomaly_score'')) (Some (1 / 2))\<rparr>"

record dashboard =
  data :: "cycle list"
  originalData :: "cycle list"
  loading :: bool
  selectedDevice :: string
  selectedLocation :: string
  selectedTimeRange :: string
  errorMessage :: string

fun join :: "string \<Rightarrow> string list \<Rightarrow> string" where
  "join sep [] = []"
| "join sep [x] = x"
| "join sep (x # xs) = x @ sep @ join sep xs"

fun message :: "error \<Rightarrow> string" where
  "message (TypeError m) = m"
| "message (Error m) = m"

subsection \<open>processCSVData\<close>

text \<open>
  The body of the \<open>try\<close> block of the dashboard with the location filter
  (\<open>src/unnamed/part_001\<close>), from the parsed rows on: \<open>Inl\<close> is the error thrown.
\<close>

definition requiredColumns :: "string list" where
  "requiredColumns = [''device_id'', ''cycle_started_at'', ''cycle_duration_ms'']"

definition processRows :: "env \<Rightarrow> row list \<Rightarrow> error + cycle list" where
  "processRows env rows =
     (if rows = [] then Inl (Error ''The CSV file is empty or could not be parsed'')
      else
        let columns = Object_keys (hd rows);
            missingColumns = filter (\<lambda>col. col \<notin> set columns) requiredColumns
        in if missingColumns \<noteq> []
           then Inl (Error (''Missing required columns: '' @ join '', '' missingColumns))
           else
             let processedData = filter (\<lambda>c. date c \<noteq> None) (map (mk_cycle env) rows)
             in if processedData = []
                then Inl (Error ''No valid data rows found after processing'')
                else Inr processedData)"

definition processCSVData :: "env \<Rightarrow> row list \<Rightarrow> dashboard \<Rightarrow> dashboard" where
  "processCSVData env rows st =
     (case processRows env rows of
        Inr processedData \<Rightarrow>
          st\<lparr>originalData := processedData, data := processedData, loading := False,
             errorMessage := []\<rparr>
      | Inl e \<Rightarrow>
          st\<lparr>errorMessage := (if message e \<noteq> [] then message e else ''Failed to process CSV data''),
             data := [], originalData := [], loading := False\<rparr>)"

text \<open>The same function of \<open>src/src/Dashboard.js\<close>: it checks no column.\<close>

definition processRows_D :: "env \<Rightarrow> row list \<Rightarrow> error + cycle list" where
  "processRows_D env rows =
     (if rows = [] then Inl (Error ''Empty CSV file'')
      else Inr (filter (\<lambda>c. date c \<noteq> None) (map (mk_cycle env) rows)))"

definition processCSVData_D :: "env \<Rightarrow> row list \<Rightarrow> dashboard \<Rightarrow> dashboard" where
  "processCSVData_D env rows st =
     (case processRows_D env rows of
        Inr processedData \<Rightarrow>
          st\<lparr>originalData := processedData, data := processedData, loading := False,
             errorMessage := []\<rparr>
      | Inl e \<Rightarrow>
          st\<lparr>errorMessage := (if message e \<noteq> [] then message e else ''Failed to process CSV''),
             data := [], originalData := [], loading := False\<rparr>)"

subsection \<open>applyFilters\<close>

definition started :: "env \<Rightarrow> cycle \<Rightarrow> int option" where
  "started env d = new_Date env (get (raw d) ''cycle_started_at'')"

definition startDate :: "string \<Rightarrow> int option \<Rightarrow> int option" where
  "startDate rng now =
     (if rng = ''24h'' then date_minus now (24 * 60 * 60 * 1000)
      else if rng = ''7d'' then date_minus now (7 * 24 * 60 * 60 * 1000)
      else if rng = ''30d'' then date_minus now (30 * 24 * 60 * 60 * 1000)
      else Some 0)"

text \<open>\<open>applyFilters\<close> of \<open>src/unnamed/part_001\<close>: device, location and time range.\<close>

definition applyFilters :: "env \<Rightarrow> dashboard \<Rightarrow> dashboard" where
  "applyFilters env st =
     (if originalData st = [] then st
      else
        let filtered = originalData st;
            filtered = (if selectedDevice st \<noteq> ''all''
                        then filter (\<lambda>d. get (raw d) ''device_id'' = JStr (selectedDevice st)) filtered
                        else filtered);
            filtered = (if selectedLocation st \<noteq> ''all''
                        then filter (\<lambda>d. get (raw d) ''location'' = JStr (selectedLocation st)) filtered
                        else filtered);
            now = max_date (map (started env) (originalData st));
            filtered = filter (\<lambda>d. date_ge (started env d) (startDate (selectedTimeRange st) now)) filtered
        in st\<lparr>data := filtered\<rparr>)"

text \<open>\<open>applyFilters\<close> of \<open>src/src/Dashboard.js\<close>: device and time range.\<close>

definition applyFilters_D :: "env \<Rightarrow> dashboard \<Rightarrow> dashboard" where
  "applyFilters_D env st =
     (if originalData st = [] then st
      else
        let filtered = originalData st;
            filtered = (if selectedDevice st \<noteq> ''all''
                        then filter (\<lambda>d. get (raw d) ''device_id'' = JStr (selectedDevice st)) filtered
                        else filtered);
            now = max_date (map (started env) (originalData st));
            filtered = filter (\<lambda>d. date_ge (started env d) (startDate (selectedTimeRange st) now)) filtered
        in st\<lparr>data := filtered\<rparr>)"

subsection \<open>Fleet KPIs\<close>

text \<open>\<open>_.uniqBy(data, 'device_id').length\<close>\<close>

definition uniqueDevices :: "cycle list \<Rightarrow> nat" where
  "uniqueDevices ds = length (remdups (map (\<lambda>d. get (raw d) ''device_id'') ds))"

definition of_date :: "int option \<Rightarrow> number" where
  "of_date d = map_option of_int d"

definition totalRuntime :: "cycle list \<Rightarrow> number" where
  "totalRuntime ds = sum_numbers (map runtime_hours ds)"

definition hoursInWindow :: "env \<Rightarrow> cycle list \<Rightarrow> number" where
  "hoursInWindow env ds =
     (let latestDate = max_date (map (started env) ds);
          earliestDate = min_date (map (started env) ds);
          actualHours = ndiv (nsub (of_date latestDate) (of_date earliestDate)) (Some (1000 * 60 * 60))
      in Math_max2 actualHours (Some 1))"

definition utilizationRate :: "env \<Rightarrow> cycle list \<Rightarrow> number" where
  "utilizationRate env ds =
     nmul (ndiv (totalRuntime ds) (nmul (Some (of_nat (uniqueDevices ds))) (hoursInWindow env ds)))
          (Some 100)"

definition errorCount :: "cycle list \<Rightarrow> nat" where
  "errorCount ds = length (filter (\<lambda>d. e_stop d \<or> overload d) ds)"

definition anomalyCount :: "cycle list \<Rightarrow> nat" where
  "anomalyCount ds = length (filter anomaly ds)"

definition column :: "string \<Rightarrow> cycle list \<Rightarrow> jsval list" where
  "column k ds = map (\<lambda>d. get (raw d) k) ds"

definition percent_of :: "nat \<Rightarrow> nat \<Rightarrow> number" where
  "percent_of a b = nmul (ndiv (Some (of_nat a)) (Some (of_nat b))) (Some 100)"

text \<open>
  \<open>kpis\<close> of \<open>src/unnamed/part_001\<close>. \<open>Inr None\<close> is the empty object returned for no
  data. The object literal is built field by field; \<open>totalEnergy.toFixed(1)\<close> is the one
  call on a value that need not be a number.
\<close>

record kpis_result =
  k_totalRuntime :: string
  k_totalCycles :: nat
  k_totalEnergy :: string
  k_totalBales :: jsval
  k_utilizationRate :: string
  k_errorCount :: nat
  k_anomalyCount :: nat
  k_avgCycleTime :: string
  k_avgPressure :: string
  k_avgEnergyPerCycle :: string
  k_deviceCount :: nat
  k_errorRate :: string
  k_anomalyRate :: string

definition kpis :: "env \<Rightarrow> cycle list \<Rightarrow> error + kpis_result option" where
  "kpis env ds =
     (if ds = [] then Inr None
      else
        let totalCycles = length ds;
            totalEnergy = sumBy (column ''energy_active_kwh'' ds);
            totalBales = sumBy (column ''productivity_bale_count_increment'' ds);
            avgCycleTime = ndiv (ndiv (meanBy (column ''cycle_duration_ms'' ds)) (Some 1000)) (Some 60);
            avgPressure = meanBy (column ''hydraulic_avg_pressure_psi'' ds);
            avgEnergyPerCycle = meanBy (column ''energy_per_cycle_kwh'' ds)
        in case toFixed_val 1 totalEnergy of
             Inl e \<Rightarrow> Inl e
           | Inr totalEnergy_s \<Rightarrow>
               Inr (Some
                 \<lparr>k_totalRuntime = toFixed 1 (totalRuntime ds),
                  k_totalCycles = totalCycles,
                  k_totalEnergy = totalEnergy_s,
                  k_totalBales = totalBales,
                  k_utilizationRate = toFixed 1 (Math_min2 (utilizationRate env ds) (Some 100)),
                  k_errorCount = errorCount ds,
                  k_anomalyCount = anomalyCount ds,
                  k_avgCycleTime = toFixed 1 avgCycleTime,
                  k_avgPressure = toFixed 0 avgPressure,
                  k_avgEnergyPerCycle = toFixed 2 avgEnergyPerCycle,
                  k_deviceCount = uniqueDevices ds,
                  k_errorRate = (if totalCycles > 0 then toFixed 1 (percent_of (errorCount ds) totalCycles)
                                 else ''0''),
                  k_anomalyRate = (if totalCycles > 0 then toFixed 1 (percent_of (anomalyCount ds) totalCycles)
                                   else ''0'')\<rparr>))"

text \<open>\<open>fleetMetrics\<close> of \<open>src/src/Dashboard.js\<close>.\<close>

record fleet_result =
  f_totalRuntime :: string
  f_utilizationRate :: string
  f_totalCycles :: nat
  f_errorCount :: nat
  f_uniqueDevices :: nat
  f_avgCyclesPerMachine :: string
  f_totalEnergy :: string
  f_totalBales :: jsval

definition fleetMetrics :: "env \<Rightarrow> cycle list \<Rightarrow> error + fleet_result option" where
  "fleetMetrics env ds =
     (if ds = [] then Inr None
      else
        let totalCycles = length ds;
            avgCyclesPerMachine = ndiv (Some (of_nat totalCycles)) (Some (of_nat (uniqueDevices ds)));
            totalEnergy = sumBy (column ''energy_active_kwh'' ds);
            totalBales = js_or (sumBy (column ''productivity_bale_count_increment'' ds)) (JNum 0)
        in case toFixed_val 1 totalEnergy of
             Inl e \<Rightarrow> Inl e
           | Inr totalEnergy_s \<Rightarrow>
               Inr (Some
                 \<lparr>f_totalRuntime = toFixed 1 (totalRuntime ds),
                  f_utilizationRate = toFixed 1 (Math_min2 (utilizationRate env ds) (Some 100)),
                  f_totalCycles = totalCycles,
                  f_errorCount = errorCount ds,
                  f_uniqueDevices = uniqueDevices ds,
                  f_avgCyclesPerMachine = toFixed 1 avgCyclesPerMachine,
                  f_totalEnergy = totalEnergy_s,
                  f_totalBales = totalBales\<rparr>))"

subsection \<open>Utilization heatmaps of the wide dashboards\<close>

text \<open>
  \<open>Math.max(...xs)\<close> of a non-empty list of numbers. (Of the empty list it is
  \<open>-Infinity\<close>; no call below passes one.)
\<close>

fun Math_max :: "number list \<Rightarrow> number" where
  "Math_max [] = None"
| "Math_max [x] = x"
| "Math_max (x # xs) = Math_max2 x (Math_max xs)"

fun Math_min :: "number list \<Rightarrow> number" where
  "Math_min [] = None"
| "Math_min [x] = x"
| "Math_min (x # xs) = Math_min2 x (Math_min xs)"

text \<open>
  \<open>heatmapData\<close> of \<open>src/src/Dashboard.js\<close>. The object \<open>heatmap\<close> has a property per
  key \<open>day-hour\<close>; the model keeps the pair the key is printed from. Reading a key
  that is not there gives \<open>undefined\<close>, and \<open>undefined + x\<close> is \<open>NaN\<close>.
\<close>

type_synonym heat_key = "int option \<times> int option"

record heat_cell =
  cell_day :: int
  cell_hour :: int
  dayName :: string
  cell_value :: number
  intensity :: number

record heatmap_result =
  hm_days :: "string list"
  hm_hours :: "int list"
  hm_data :: "heat_cell list"

definition day_names :: "string list" where
  "day_names = [''Sun'', ''Mon'', ''Tue'', ''Wed'', ''Thu'', ''Fri'', ''Sat'']"

definition heat_keys :: "heat_key list" where
  "heat_keys = concat (map (\<lambda>dayIndex. map (\<lambda>h. (Some dayIndex, Some h)) [0..23]) [0..6])"

definition read_cell :: "(heat_key \<times> number) list \<Rightarrow> heat_key \<Rightarrow> number" where
  "read_cell hm key = (case map_of hm key of None \<Rightarrow> None | Some v \<Rightarrow> v)"

definition add_runtime :: "(heat_key \<times> number) list \<Rightarrow> cycle \<Rightarrow> (heat_key \<times> number) list" where
  "add_runtime hm r =
     AList.update (dayOfWeek r, hour r) (nadd (read_cell hm (dayOfWeek r, hour r)) (runtime_hours r)) hm"

definition heatmap_D :: "cycle list \<Rightarrow> (heat_key \<times> number) list" where
  "heatmap_D ds = foldl add_runtime (map (\<lambda>key. (key, Some 0)) heat_keys) ds"

definition heatmapData_D :: "cycle list \<Rightarrow> heatmap_result" where
  "heatmapData_D ds =
     (if ds = [] then \<lparr>hm_days = [], hm_hours = [], hm_data = []\<rparr>
      else
        let heatmap = heatmap_D ds;
            maxValue = Math_max (map snd heatmap)
        in \<lparr>hm_days = day_names, hm_hours = [0..23],
            hm_data = concat (map (\<lambda>dayIndex. map (\<lambda>h.
               \<lparr>cell_day = dayIndex, cell_hour = h, dayName = day_names ! nat dayIndex,
                cell_value = read_cell heatmap (Some dayIndex, Some h),
                intensity = (if ngt maxValue (Some 0)
                             then nmul (ndiv (read_cell heatmap (Some dayIndex, Some h)) maxValue) (Some 100)
                             else Some 0)\<rparr>) [0..23]) [0..6])\<rparr>)"

text \<open>
  \<open>heatmapData\<close> of \<open>src/unnamed/part_001\<close>. The grid is an array of 7 arrays of 24
  numbers. Indexing it with a day that is \<open>NaN\<close> gives \<open>undefined\<close>, and indexing
  \<open>undefined\<close> throws; an hour that is \<open>NaN\<close> names a property outside the 24 cells. Each
  row of the result is an object with a property per day letter, and the letters
  of Sunday and Saturday, and of Tuesday and Thursday, are the same.
\<close>

definition grid_add :: "number list list \<Rightarrow> cycle \<Rightarrow> error + number list list" where
  "grid_add g r =
     (case dayOfWeek r of
        None \<Rightarrow> Inl (TypeError ''undefined'')
      | Some d \<Rightarrow>
          (if d < 0 \<or> 7 \<le> d then Inl (TypeError ''undefined'')
           else case hour r of
                  None \<Rightarrow> Inr g
                | Some h \<Rightarrow>
                    (if h < 0 \<or> 24 \<le> h then Inr g
                     else Inr (g[nat d := (g ! nat d)[nat h := nadd (g ! nat d ! nat h) (runtime_hours r)]]))))"

fun heatmap_grid :: "number list list \<Rightarrow> cycle list \<Rightarrow> error + number list list" where
  "heatmap_grid g [] = Inr g"
| "heatmap_grid g (r # rs) = (case grid_add g r of Inl e \<Rightarrow> Inl e | Inr g' \<Rightarrow> heatmap_grid g' rs)"

definition day_letters :: "string list" where
  "day_letters = [''S'', ''M'', ''T'', ''W'', ''T'', ''F'', ''S'']"

definition heat_row :: "number list list \<Rightarrow> number \<Rightarrow> nat \<Rightarrow> (string \<times> number) list" where
  "heat_row g maxValue h =
     foldl (\<lambda>row dayIndex.
              AList.update (day_letters ! dayIndex @ ''_intensity'')
                (if ngt maxValue (Some 0) then ndiv (g ! dayIndex ! h) maxValue else Some 0)
                (AList.update (day_letters ! dayIndex) (g ! dayIndex ! h) row))
           [(''hour'', Some (of_nat h))] [0..<7]"

definition heatmapData :: "cycle list \<Rightarrow> error + (string \<times> number) list list" where
  "heatmapData ds =
     (if ds = [] then Inr []
      else case heatmap_grid (replicate 7 (replicate 24 (Some 0))) ds of
             Inl e \<Rightarrow> Inl e
           | Inr g \<Rightarrow> Inr (map (heat_row g (Math_max (concat g))) [0..<24]))"

section \<open>The long shape: one row per measurement\<close>

text \<open>
  A long-shape row names a device, a time, a measure and its value. The first three
  are used as property keys (by \<open>_.groupBy\<close> and by \<open>point[m.measure_name]\<close>), so the
  model keeps the key strings; the value is whatever the cell holds, \<open>None\<close> when the
  row has no such cell (\<open>undefined\<close>).
\<close>

record 'v measure_row =
  deviceId :: string
  Time :: string
  measure_name :: string
  measure_value :: "'v option"

subsection \<open>Objects as ordered property lists\<close>

text \<open>
  The properties of an object are enumerated (\<open>Object.entries\<close>, \<open>Object.values\<close>,
  \<open>Object.keys\<close>) with the array indices first, in ascending order, and the other
  keys after them in the order they were created. An array index is the canonical
  decimal string of a number below \<open>2^32 - 1\<close>.
\<close>

definition is_digit :: "char \<Rightarrow> bool" where
  "is_digit c = (c \<in> set ''0123456789'')"

definition digit_val :: "char \<Rightarrow> nat" where
  "digit_val c = of_char c - 48"

definition parse_nat :: "string \<Rightarrow> nat" where
  "parse_nat s = foldl (\<lambda>n c. 10 * n + digit_val c) 0 s"

definition is_array_index :: "string \<Rightarrow> bool" where
  "is_array_index s =
     (s \<noteq> [] \<and> list_all is_digit s \<and> (s = ''0'' \<or> hd s \<noteq> CHR ''0'') \<and>
      length s \<le> 10 \<and> parse_nat s < 4294967295)"

definition own_property_order :: "(string \<times> 'a) list \<Rightarrow> (string \<times> 'a) list" where
  "own_property_order ps =
     sort_key (\<lambda>p. parse_nat (fst p)) (filter (\<lambda>p. is_array_index (fst p)) ps) @
     filter (\<lambda>p. \<not> is_array_index (fst p)) ps"

text \<open>
  \<open>_.groupBy(xs, key)\<close>: each element is pushed on the array of its key, a new key
  making a new property.
\<close>

fun group_insert :: "string \<Rightarrow> 'a \<Rightarrow> (string \<times> 'a list) list \<Rightarrow> (string \<times> 'a list) list" where
  "group_insert k x [] = [(k, [x])]"
| "group_insert k x (p # g) =
     (if fst p = k then (k, snd p @ [x]) # g else p # group_insert k x g)"

definition groupBy :: "('a \<Rightarrow> string) \<Rightarrow> 'a list \<Rightarrow> (string \<times> 'a list) list" where
  "groupBy f xs = own_property_order (foldl (\<lambda>g x. group_insert (f x) x g) [] xs)"

subsection \<open>Sorting with a comparator\<close>

text \<open>
  \<open>xs.sort((a, b) => a.timestamp - b.timestamp)\<close>: a stable sort; \<open>after a b\<close> says that
  the comparator is positive. A comparator result of \<open>NaN\<close> counts as 0. (Where a
  timestamp is \<open>NaN\<close> the comparator is not an order and ECMAScript leaves the result
  to the engine; the model inserts from the right all the same.)
\<close>

fun insert_by :: "('a \<Rightarrow> 'a \<Rightarrow> bool) \<Rightarrow> 'a \<Rightarrow> 'a list \<Rightarrow> 'a list" where
  "insert_by after x [] = [x]"
| "insert_by after x (y # ys) = (if after x y then y # insert_by after x ys else x # y # ys)"

definition sort_by :: "('a \<Rightarrow> 'a \<Rightarrow> bool) \<Rightarrow> 'a list \<Rightarrow> 'a list" where
  "sort_by after xs = foldr (insert_by after) xs []"

fun instant_after :: "int option \<Rightarrow> int option \<Rightarrow> bool" where
  "instant_after (Some a) (Some b) = (a - b > 0)"
| "instant_after a b = False"

subsection \<open>pivotLongToWide\<close>

text \<open>
  A point of a device's time series: the three fields every point has and the
  measures assigned after them. (A measure named \<open>time\<close>, \<open>timeStr\<close> or \<open>timestamp\<close> would
  replace the field of that name; such measure names are outside the model.)
\<close>

record 'v point =
  time :: "int option"
  timeStr :: string
  timestamp :: "int option"
  measures :: "(string \<times> 'v option) list"

text \<open>\<open>t[name]\<close>: \<open>None\<close> is \<open>undefined\<close>, for a missing property as for an undefined value.\<close>

definition fld :: "'v point \<Rightarrow> string \<Rightarrow> 'v option" where
  "fld t name = (case map_of (measures t) name of Some (Some v) \<Rightarrow> Some v | _ \<Rightarrow> None)"

record 'v device_data =
  timeSeries :: "'v point list"
  cycleSummaries :: "'v point list"
  realTimeData :: "'v point list"
  dd_deviceId :: string

definition assign_measure ::
  "(string \<times> 'v option) list \<Rightarrow> 'v measure_row \<Rightarrow> (string \<times> 'v option) list" where
  "assign_measure p m = AList.update (measure_name m) (measure_value m) p"

definition mk_point :: "env \<Rightarrow> string \<Rightarrow> 'v measure_row list \<Rightarrow> 'v point" where
  "mk_point env t ms =
     \<lparr>time = new_Date env (JStr t),
      timeStr = toLocaleTimeString env (new_Date env (JStr t)),
      timestamp = new_Date env (JStr t),
      measures = foldl assign_measure [] ms\<rparr>"

definition mk_device :: "env \<Rightarrow> string \<Rightarrow> 'v measure_row list \<Rightarrow> 'v device_data" where
  "mk_device env dev deviceRows =
     (let byTime = groupBy Time deviceRows;
          ts = sort_by (\<lambda>a b. instant_after (timestamp a) (timestamp b))
                 (map (\<lambda>(t, ms). mk_point env t ms) byTime)
      in \<lparr>timeSeries = ts,
          cycleSummaries = filter (\<lambda>t. fld t ''cycle.durationS'' \<noteq> None) ts,
          realTimeData = filter (\<lambda>t. fld t ''voltage.U1'' \<noteq> None \<or> fld t ''DI1_KM'' \<noteq> None \<or>
                                     fld t ''temperature.ambient'' \<noteq> None) ts,
          dd_deviceId = dev\<rparr>)"

text \<open>
  The result is an object with a property per device, assigned in the order in
  which \<open>byDevice\<close> enumerates them, and enumerated in that order again.
\<close>

definition pivotLongToWide :: "env \<Rightarrow> 'v measure_row list \<Rightarrow> (string \<times> 'v device_data) list" where
  "pivotLongToWide env rows =
     own_property_order (map (\<lambda>(dev, deviceRows). (dev, mk_device env dev deviceRows)) (groupBy deviceId rows))"

subsection \<open>DataProcessor.applyFilters\<close>

record dateRange =
  dr_start :: string
  dr_end :: string

fun instant_ge :: "int option \<Rightarrow> int option \<Rightarrow> bool" where
  "instant_ge (Some a) (Some b) = (a \<ge> b)"
| "instant_ge a b = False"

definition cutoff :: "string \<Rightarrow> int option \<Rightarrow> int option" where
  "cutoff timeRange now =
     (if timeRange = ''1h'' then instant_minus now (60 * 60 * 1000)
      else if timeRange = ''3h'' then instant_minus now (3 * 60 * 60 * 1000)
      else if timeRange = ''6h'' then instant_minus now (6 * 60 * 60 * 1000)
      else if timeRange = ''12h'' then instant_minus now (12 * 60 * 60 * 1000)
      else Some 0)"

definition DataProcessor_applyFilters ::
  "env \<Rightarrow> 'v point list \<Rightarrow> dateRange \<Rightarrow> string \<Rightarrow> 'v point list" where
  "DataProcessor_applyFilters env ds dr timeRange =
     (let filtered = ds;
          filtered = (if dr_start dr \<noteq> [] \<and> dr_end dr \<noteq> []
                      then filter (\<lambda>d. instant_ge (timestamp d) (new_Date env (JStr (dr_start dr))) \<and>
                                        instant_ge (new_Date env (JStr (dr_end dr))) (timestamp d)) filtered
                      else filtered);
          filtered = (if timeRange \<noteq> ''all'' \<and> filtered \<noteq> []
                      then filter (\<lambda>d. instant_ge (timestamp d)
                                          (cutoff timeRange (max_date (map timestamp filtered)))) filtered
                      else filtered)
      in filtered)"

section \<open>The metrics of the long-shape dashboards\<close>

text \<open>
  The metrics read points whose measures are numbers, as the data model of the
  specification has them. \<open>c[name] || 0\<close> is then the number, or 0 when there is none.
\<close>

definition or0 :: "rat option \<Rightarrow> rat" where
  "or0 v = (case v of None \<Rightarrow> 0 | Some r \<Rightarrow> r)"

definition num :: "rat point \<Rightarrow> string \<Rightarrow> rat" where
  "num c name = or0 (fld c name)"

text \<open>The value \<open>c[name]\<close> as lodash sees it: \<open>undefined\<close> or a number.\<close>

definition jv :: "rat option \<Rightarrow> jsval" where
  "jv v = (case v of None \<Rightarrow> JUndefined | Some r \<Rightarrow> JNum r)"

definition col :: "string \<Rightarrow> rat point list \<Rightarrow> jsval list" where
  "col name cs = map (\<lambda>c. jv (fld c name)) cs"

text \<open>\<open>x || 0\<close> for a number \<open>x\<close>: \<open>NaN\<close> and 0 give 0.\<close>

definition nor0 :: "number \<Rightarrow> rat" where
  "nor0 x = (case x of None \<Rightarrow> 0 | Some r \<Rightarrow> r)"

definition count :: "('a \<Rightarrow> bool) \<Rightarrow> 'a list \<Rightarrow> nat" where
  "count P xs = length (filter P xs)"

text \<open>\<open>xs.slice(-n)\<close>: the last \<open>n\<close> elements.\<close>

definition slice_last :: "nat \<Rightarrow> 'a list \<Rightarrow> 'a list" where
  "slice_last n xs = drop (length xs - n) xs"

text \<open>\<open>parseFloat(x.toFixed(n))\<close> for a finite number \<open>x\<close>.\<close>

definition fixed :: "nat \<Rightarrow> rat \<Rightarrow> rat" where
  "fixed n r = sgn r * of_int \<lfloor>\<bar>r\<bar> * 10 ^ n + 1 / 2\<rfloor> / 10 ^ n"

text \<open>
  The order of strings that \<open>Array.prototype.sort\<close> uses when it is given no
  comparator: code unit by code unit, a proper prefix first.
\<close>

fun str_lt :: "string \<Rightarrow> string \<Rightarrow> bool" where
  "str_lt [] [] = False"
| "str_lt [] (b # v) = True"
| "str_lt (a # u) [] = False"
| "str_lt (a # u) (b # v) =
     ((of_char a :: nat) < of_char b \<or> ((of_char a :: nat) = of_char b \<and> str_lt u v))"

text \<open>
  \<open>xs.sort()\<close> on numbers: the elements are compared as the strings they print as.
\<close>

definition plain_sort :: "rat list \<Rightarrow> rat list" where
  "plain_sort xs = sort_by (\<lambda>x y. str_lt (js_numstr y) (js_numstr x)) xs"

text \<open>The alert thresholds the user can adjust.\<close>

record thresholds =
  th_cycleDuration :: rat
  th_inrushMultiple :: rat
  th_voltageSag :: rat
  th_currentUnbalance :: rat
  th_ripple :: rat
  th_lifetimeCycleThreshold :: rat
  th_mtbfThresholdHours :: rat

text \<open>The span \<open>Math.max(...ts) - Math.min(...ts)\<close> of a non-empty list of timestamps.\<close>

definition span_ms :: "int option list \<Rightarrow> number" where
  "span_ms ts = nsub (map_option of_int (max_date ts)) (map_option of_int (min_date ts))"

text \<open>\<open>_.range(0, end, 2)\<close>: 0, 2, 4, ... below \<open>end\<close>.\<close>

definition range2 :: "int \<Rightarrow> int list" where
  "range2 e = map (\<lambda>i. 2 * int i) [0..<nat ((e + 1) div 2)]"

text \<open>\<open>date.getDate().toString().padStart(2, '0') + ' Oct'\<close>\<close>

definition day_label :: "env \<Rightarrow> int option \<Rightarrow> string" where
  "day_label env d = pad_left 2 (ToString (of_number (getDate env d))) @ '' Oct''"

text \<open>An integer as a string.\<close>

definition int_str :: "int \<Rightarrow> string" where
  "int_str i = js_numstr (of_int i)"

text \<open>
  The baseline of \<open>healthMetrics\<close> in \<open>src/src/Dashboard.js\<close>:
  \<open>data.map(d => d.cycle_duration_ms).sort()[Math.floor(n / 2)]\<close>. Without a comparator,
  \<open>sort\<close> puts \<open>undefined\<close> last and compares the other values as strings.
\<close>

definition js_plain_sort :: "jsval list \<Rightarrow> jsval list" where
  "js_plain_sort xs =
     sort_by (\<lambda>x y. (x = JUndefined \<and> y \<noteq> JUndefined) \<or>
                     (x \<noteq> JUndefined \<and> y \<noteq> JUndefined \<and> str_lt (ToString y) (ToString x))) xs"

definition baselineCycleTime :: "cycle list \<Rightarrow> jsval" where
  "baselineCycleTime ds =
     (let sortedCycleTimes = js_plain_sort (column ''cycle_duration_ms'' ds)
      in if length sortedCycleTimes div 2 < length sortedCycleTimes
         then sortedCycleTimes ! (length sortedCycleTimes div 2) else JUndefined)"

subsection \<open>MetricsCalculator of \<open>src/src/Dashboard.js\<close>\<close>

record fleetKPIs =
  totalCycles :: nat
  avgCycleDuration :: string
  totalEnergy :: string
  kpi_errorCount :: nat
  eStopCount :: nat
  doorViolations :: nat
  kpi_totalRuntime :: string
  kpi_utilizationRate :: string
  idleTime :: string
  timeWindowHours :: string
  avgEnergyPerCycle :: jsval
  avgInrushPeak :: string
  avgLoadFactor :: string
  avgVoltageLevel :: string

text \<open>The three numbers behind \<open>utilizationRate\<close>, before they are printed.\<close>

definition fleet_totalRuntime :: "rat point list \<Rightarrow> number" where
  "fleet_totalRuntime cycles = ndiv (ToNumber (sumBy (col ''cycle.durationS'' cycles))) (Some 3600)"

definition fleet_timeWindowHours :: "rat point list \<Rightarrow> number" where
  "fleet_timeWindowHours cycles =
     (let timestamps = map timestamp cycles
      in if length timestamps > 0 then ndiv (span_ms timestamps) (Some (1000 * 60 * 60)) else Some 1)"

definition fleet_utilizationRate :: "rat point list \<Rightarrow> number" where
  "fleet_utilizationRate cycles =
     (if ngt (fleet_timeWindowHours cycles) (Some 0)
      then nmul (ndiv (fleet_totalRuntime cycles) (fleet_timeWindowHours cycles)) (Some 100)
      else Some 0)"

text \<open>\<open>None\<close> is the empty object \<open>{}\<close> returned for no cycles.\<close>

definition calculateFleetKPIs :: "rat point list \<Rightarrow> rat point list \<Rightarrow> thresholds \<Rightarrow> fleetKPIs option" where
  "calculateFleetKPIs cycles realTime th =
     (if cycles = [] then None
      else
        let n = length cycles;
            avgDuration = nor0 (meanBy (col ''cycle.durationS'' cycles));
            energy = ToNumber (js_or (sumBy (col ''energy.totalWh'' cycles)) (JNum 0));
            totalRuntime = fleet_totalRuntime cycles;
            windowHours = fleet_timeWindowHours cycles;
            idle = Math_max2 (Some 0) (nsub windowHours totalRuntime)
        in Some
          \<lparr>totalCycles = n,
           avgCycleDuration = toFixed 2 (Some avgDuration),
           totalEnergy = toFixed 2 energy,
           kpi_errorCount = count (\<lambda>c. fld c ''cycle.overall'' = Some 1) cycles,
           eStopCount = count (\<lambda>r. fld r ''DI2_ES_Overload_Key'' = Some 1) realTime,
           doorViolations = count (\<lambda>r. fld r ''DI4_Door'' = Some 1 \<and> fld r ''DI1_KM'' = Some 1) realTime,
           kpi_totalRuntime = toFixed 2 totalRuntime,
           kpi_utilizationRate = toFixed 1 (fleet_utilizationRate cycles),
           idleTime = toFixed 2 idle,
           timeWindowHours = toFixed 2 windowHours,
           avgEnergyPerCycle = (if n > 0 then JStr (toFixed 3 (ndiv energy (Some (of_nat n)))) else JNum 0),
           avgInrushPeak = toFixed 2 (Some (nor0 (meanBy (col ''inrush.maxPeakA'' cycles)))),
           avgLoadFactor = toFixed 2 (Some (nor0 (meanBy (col ''workCurrent.loadFactor'' cycles)))),
           avgVoltageLevel = toFixed 2 (Some (nor0 (meanBy (col ''workVoltage.levelPct'' cycles))))\<rparr>)"

record trend =
  tr_cycle :: nat
  tr_duration :: rat
  tr_energy :: rat
  tr_powerFactor :: rat
  tr_drift :: rat
  tr_baseline :: rat
  tr_time :: string
  isDrifting :: bool

record bucket =
  bk_range :: string
  bk_count :: nat

record cycleMetrics =
  trends :: "trend list"
  distribution :: "bucket list"
  driftAnalysis :: "trend list"
  baseline :: rat

definition durations_of :: "rat point list \<Rightarrow> rat list" where
  "durations_of cycles = map (\<lambda>c. num c ''cycle.durationS'') cycles"

definition baseline_of :: "rat list \<Rightarrow> rat" where
  "baseline_of durations =
     (if length durations > 0 then plain_sort durations ! (length durations div 2) else 0)"

definition drift_of :: "rat \<Rightarrow> rat \<Rightarrow> rat" where
  "drift_of b duration = (if b > 0 then ((duration - b) / b) * 100 else 0)"

definition mk_trend :: "rat \<Rightarrow> nat \<times> rat point \<Rightarrow> trend" where
  "mk_trend b ic =
     (case ic of (idx, c) \<Rightarrow>
        \<lparr>tr_cycle = idx + 1,
         tr_duration = fixed 2 (num c ''cycle.durationS''),
         tr_energy = fixed 2 (num c ''energy.workWh''),
         tr_powerFactor = fixed 2 (num c ''workCurrent.loadFactor''),
         tr_drift = fixed 2 (drift_of b (num c ''cycle.durationS'')),
         tr_baseline = fixed 2 b,
         tr_time = timeStr c,
         isDrifting = (\<bar>drift_of b (num c ''cycle.durationS'')\<bar> > 10)\<rparr>)"

text \<open>\<open>_.max(durations) || 30\<close> of a non-empty list, rounded up.\<close>

definition distribution_end :: "rat list \<Rightarrow> int" where
  "distribution_end durations =
     \<lceil>if Max (set durations) = 0 then 30 else Max (set durations)\<rceil>"

definition calculateCycleMetrics :: "rat point list \<Rightarrow> cycleMetrics" where
  "calculateCycleMetrics cycles =
     (if cycles = [] then \<lparr>trends = [], distribution = [], driftAnalysis = [], baseline = 0\<rparr>
      else
        let durations = durations_of cycles;
            b = baseline_of durations;
            ts = map (mk_trend b) (enumerate 0 cycles)
        in \<lparr>trends = ts,
            distribution = map (\<lambda>k. \<lparr>bk_range = int_str k @ ''-'' @ int_str (k + 2) @ ''s'',
                                      bk_count = count (\<lambda>d. of_int k \<le> d \<and> d < of_int k + 2) durations\<rparr>)
                              (range2 (distribution_end durations)),
            driftAnalysis = slice_last 30 ts,
            baseline = b\<rparr>)"

record inrush_item =
  in_cycle :: nat
  in_peakA :: rat
  in_meanA :: rat
  in_unbalance :: rat
  in_duration :: rat
  in_multiple :: rat
  in_time :: string
  isHigh :: bool

record voltage_item =
  vo_cycle :: nat
  vo_level :: rat
  vo_unbalance :: rat
  vo_sagDepth :: rat
  vo_sagDuration :: rat
  vo_sagLevel :: rat
  vo_time :: string
  hasSag :: bool

record current_item =
  cu_cycle :: nat
  cu_loadFactor :: rat
  cu_meanA :: rat
  cu_unbalance :: rat
  cu_ripple :: rat
  cu_time :: string
  hasIssue :: bool

record startDelay_item =
  sd_cycle :: nat
  sd_maxMs :: rat
  sd_meanMs :: rat
  sd_time :: string

record electricalMetrics =
  inrush :: "inrush_item list"
  voltage :: "voltage_item list"
  current :: "current_item list"
  startDelay :: "startDelay_item list"

definition calculateElectricalMetrics :: "rat point list \<Rightarrow> thresholds \<Rightarrow> electricalMetrics" where
  "calculateElectricalMetrics cycles th =
     (if cycles = [] then \<lparr>inrush = [], voltage = [], current = [], startDelay = []\<rparr>
      else
        \<lparr>inrush = map (\<lambda>(idx, c).
             \<lparr>in_cycle = idx + 1,
              in_peakA = fixed 2 (num c ''inrush.maxPeakA''),
              in_meanA = fixed 2 (num c ''inrush.meanPeakA''),
              in_unbalance = fixed 2 (num c ''inrush.unbalancePct''),
              in_duration = fixed 0 (num c ''inrush.durationMs''),
              in_multiple = fixed 2 (num c ''inrush.multiple''),
              in_time = timeStr c,
              isHigh = (num c ''inrush.multiple'' > th_inrushMultiple th)\<rparr>) (enumerate 0 cycles),
         voltage = map (\<lambda>(idx, c).
             \<lparr>vo_cycle = idx + 1,
              vo_level = fixed 2 (num c ''workVoltage.levelPct''),
              vo_unbalance = fixed 2 (num c ''workVoltage.unbalancePct''),
              vo_sagDepth = fixed 2 (num c ''voltageSag.sagDepthPct''),
              vo_sagDuration = fixed 0 (num c ''voltageSag.sagDurationMaxMs''),
              vo_sagLevel = fixed 1 (num c ''voltageSag.sagLevelMinV''),
              vo_time = timeStr c,
              hasSag = (num c ''voltageSag.sagDepthPct'' > th_voltageSag th)\<rparr>) (enumerate 0 cycles),
         current = map (\<lambda>(idx, c).
             \<lparr>cu_cycle = idx + 1,
              cu_loadFactor = fixed 2 (num c ''workCurrent.loadFactor''),
              cu_meanA = fixed 2 (num c ''workCurrent.meanAvgA''),
              cu_unbalance = fixed 2 (num c ''workCurrent.unbalancePct''),
              cu_ripple = fixed 2 (num c ''workCurrent.rippleMaxPct''),
              cu_time = timeStr c,
              hasIssue = (num c ''workCurrent.unbalancePct'' > th_currentUnbalance th)\<rparr>) (enumerate 0 cycles),
         startDelay = map (\<lambda>(idx, c).
             \<lparr>sd_cycle = idx + 1,
              sd_maxMs = fixed 2 (num c ''startDelay.delayMaxMs''),
              sd_meanMs = fixed 2 (num c ''startDelay.delayMeanMs''),
              sd_time = timeStr c\<rparr>) (enumerate 0 cycles)\<rparr>)"

record voltage_sample =
  vs_time :: string
  vs_U1 :: rat
  vs_U2 :: rat
  vs_U3 :: rat
  vs_temp :: rat

definition calculateVoltageMonitoring :: "rat point list \<Rightarrow> voltage_sample list" where
  "calculateVoltageMonitoring realTime =
     (if realTime = [] then []
      else map (\<lambda>d. \<lparr>vs_time = timeStr d,
                      vs_U1 = fixed 1 (num d ''voltage.U1''),
                      vs_U2 = fixed 1 (num d ''voltage.U2''),
                      vs_U3 = fixed 1 (num d ''voltage.U3''),
                      vs_temp = fixed 1 (num d ''temperature.ambient'')\<rparr>)
             (filter (\<lambda>d. fld d ''voltage.U1'' \<noteq> None) (slice_last 100 realTime)))"

record anomaly_item =
  an_cycle :: nat
  an_score :: nat
  isAnomaly :: bool
  an_time :: string
  inrushHigh :: bool
  voltageIssue :: bool
  currentIssue :: bool
  rippleHigh :: bool
  cycleError :: bool

record severity =
  critical :: nat
  high :: nat
  medium :: nat

record anomalyMetrics =
  anomalies :: "anomaly_item list"
  an_count :: nat
  recentAnomalies :: "anomaly_item list"
  an_severity :: "severity option"

definition mk_anomaly :: "thresholds \<Rightarrow> nat \<times> rat point \<Rightarrow> anomaly_item" where
  "mk_anomaly th ic =
     (case ic of (idx, c) \<Rightarrow>
        let a = (num c ''inrush.multiple'' > th_inrushMultiple th);
            b = (num c ''voltageSag.sagDepthPct'' > th_voltageSag th);
            d = (num c ''workCurrent.unbalancePct'' > th_currentUnbalance th);
            e = (num c ''workCurrent.rippleMaxPct'' > th_ripple th);
            f = (fld c ''cycle.overall'' = Some 1)
        in \<lparr>an_cycle = idx + 1, an_score = length (filter id [a, b, d, e, f]),
            isAnomaly = (length (filter id [a, b, d, e, f]) \<ge> 2), an_time = timeStr c,
            inrushHigh = a, voltageIssue = b, currentIssue = d, rippleHigh = e, cycleError = f\<rparr>)"

text \<open>\<open>None\<close> for the severity is the empty object \<open>{}\<close> of the result for no cycles.\<close>

definition calculateAnomalies :: "rat point list \<Rightarrow> thresholds \<Rightarrow> anomalyMetrics" where
  "calculateAnomalies cycles th =
     (if cycles = [] then \<lparr>anomalies = [], an_count = 0, recentAnomalies = [], an_severity = None\<rparr>
      else
        let items = map (mk_anomaly th) (enumerate 0 cycles)
        in \<lparr>anomalies = items,
            an_count = count isAnomaly items,
            recentAnomalies = slice_last 10 (filter isAnomaly items),
            an_severity = Some \<lparr>critical = count (\<lambda>a. an_score a \<ge> 4) items,
                                high = count (\<lambda>a. an_score a = 3) items,
                                medium = count (\<lambda>a. an_score a = 2) items\<rparr>\<rparr>)"

record safety_event =
  ev_type :: string
  ev_time :: string
  ev_severity :: string

record timeline_item =
  tl_time :: string
  tl_eStop :: rat
  tl_doorOpen :: rat
  tl_fullError :: rat

record safetyMetrics =
  events :: "safety_event list"
  timeline :: "timeline_item list"

definition point_events :: "rat point \<Rightarrow> safety_event list" where
  "point_events p =
     (if fld p ''DI2_ES_Overload_Key'' = Some 1
      then [\<lparr>ev_type = ''E-Stop/Overload'', ev_time = timeStr p, ev_severity = ''critical''\<rparr>] else []) @
     (if fld p ''DI4_Door'' = Some 1 \<and> fld p ''DI1_KM'' = Some 1
      then [\<lparr>ev_type = ''Door Open Violation'', ev_time = timeStr p, ev_severity = ''high''\<rparr>] else []) @
     (if fld p ''DI8_Full_Error'' = Some 1
      then [\<lparr>ev_type = ''Full Error'', ev_time = timeStr p, ev_severity = ''critical''\<rparr>] else [])"

definition calculateSafetyMetrics :: "rat point list \<Rightarrow> safetyMetrics" where
  "calculateSafetyMetrics realTime =
     (if realTime = [] then \<lparr>events = [], timeline = []\<rparr>
      else
        \<lparr>events = slice_last 20 (concat (map point_events realTime)),
         timeline = map (\<lambda>d. \<lparr>tl_time = timeStr d, tl_eStop = num d ''DI2_ES_Overload_Key'',
                                tl_doorOpen = num d ''DI4_Door'', tl_fullError = num d ''DI8_Full_Error''\<rparr>)
                      (slice_last 200 realTime)\<rparr>)"

definition fixedN :: "nat \<Rightarrow> number \<Rightarrow> number" where
  "fixedN n x = map_option (fixed n) x"

record efficiency_item =
  ef_cycle :: nat
  ef_totalWh :: rat
  ef_workWh :: rat
  efficiencyPct :: number
  ef_powerW :: rat
  ef_time :: string

record hourly_item =
  ho_hour :: string
  ho_totalWh :: rat
  ho_cycles :: nat
  ho_avgPower :: rat

record composite_item =
  co_cycle :: nat
  energyScore :: number
  voltageScore :: rat
  loadScore :: rat
  overallScore :: number

record energyMetrics =
  efficiency :: "efficiency_item list"
  hourly :: "hourly_item list"
  composite :: "composite_item list"

text \<open>\<open>c['energy.totalWh'] > 0 ? (c['energy.workWh'] / c['energy.totalWh']) * 100 : 0\<close>\<close>

definition work_share :: "rat point \<Rightarrow> number" where
  "work_share c =
     (case fld c ''energy.totalWh'' of
        None \<Rightarrow> Some 0
      | Some t \<Rightarrow> (if t > 0 then nmul (ndiv (fld c ''energy.workWh'') (Some t)) (Some 100) else Some 0))"

definition hour_key :: "env \<Rightarrow> rat point \<Rightarrow> string" where
  "hour_key env c =
     (case getHours env (time c) of None \<Rightarrow> ''NaN'' | Some h \<Rightarrow> int_str h) @ '':00''"

definition calculateEnergyMetrics :: "env \<Rightarrow> rat point list \<Rightarrow> energyMetrics" where
  "calculateEnergyMetrics env cycles =
     (if cycles = [] then \<lparr>efficiency = [], hourly = [], composite = []\<rparr>
      else
        \<lparr>efficiency = map (\<lambda>(idx, c).
             \<lparr>ef_cycle = idx + 1,
              ef_totalWh = fixed 2 (num c ''energy.totalWh''),
              ef_workWh = fixed 2 (num c ''energy.workWh''),
              efficiencyPct = fixedN 1 (work_share c),
              ef_powerW = fixed 0 (num c ''energy.powerWorkW''),
              ef_time = timeStr c\<rparr>) (enumerate 0 cycles),
         hourly = map (\<lambda>(h, hourCycles).
             \<lparr>ho_hour = h,
              ho_totalWh = fixed 2 (nor0 (ToNumber (js_or (sumBy (col ''energy.totalWh'' hourCycles)) (JNum 0)))),
              ho_cycles = length hourCycles,
              ho_avgPower = fixed 0 (nor0 (meanBy (col ''energy.powerWorkW'' hourCycles)))\<rparr>)
             (groupBy (hour_key env) cycles),
         composite = map (\<lambda>(idx, c).
             let voltage_s = 100 - \<bar>100 - num c ''workVoltage.levelPct''\<bar>;
                 load_s = num c ''workCurrent.loadFactor'' * 100
             in \<lparr>co_cycle = idx + 1,
                 energyScore = fixedN 1 (work_share c),
                 voltageScore = fixed 1 voltage_s,
                 loadScore = fixed 1 load_s,
                 overallScore = fixedN 1 (ndiv (nadd (nadd (work_share c) (Some voltage_s)) (Some load_s)) (Some 3))\<rparr>)
             (enumerate 0 (slice_last 20 cycles))\<rparr>)"

record sag_item =
  sg_cycle :: nat
  sg_depth :: rat
  sg_duration :: rat
  sg_minLevel :: rat
  sg_time :: string
  sg_severity :: string

record voltageSagAnalysis =
  sags :: "sag_item list"
  sag_severity :: "severity option"

definition calculateVoltageSagAnalysis :: "rat point list \<Rightarrow> voltageSagAnalysis" where
  "calculateVoltageSagAnalysis cycles =
     (if cycles = [] then \<lparr>sags = [], sag_severity = None\<rparr>
      else
        let ss = map (\<lambda>(idx, c).
                   \<lparr>sg_cycle = idx + 1,
                    sg_depth = fixed 2 (num c ''voltageSag.sagDepthPct''),
                    sg_duration = fixed 0 (num c ''voltageSag.sagDurationMaxMs''),
                    sg_minLevel = fixed 1 (num c ''voltageSag.sagLevelMinV''),
                    sg_time = timeStr c,
                    sg_severity = (if num c ''voltageSag.sagDepthPct'' > 60 then ''critical''
                                   else if num c ''voltageSag.sagDepthPct'' > 40 then ''high''
                                   else ''medium'')\<rparr>)
                 (enumerate 0 (filter (\<lambda>c. num c ''voltageSag.sagDepthPct'' > 0) cycles))
        in \<lparr>sags = slice_last 30 ss,
            sag_severity = Some \<lparr>critical = count (\<lambda>s. sg_severity s = ''critical'') ss,
                                 high = count (\<lambda>s. sg_severity s = ''high'') ss,
                                 medium = count (\<lambda>s. sg_severity s = ''medium'') ss\<rparr>\<rparr>)"

text \<open>
  \<open>calculateUtilizationHeatmap\<close>: the samples with \<open>DI1_KM = 1\<close> are counted per day of
  the week and hour. A sample whose time is invalid makes a property of its own
  (\<open>NaN-NaN\<close>), which is no cell of the result.
\<close>

definition count_active :: "env \<Rightarrow> (heat_key \<times> rat) list \<Rightarrow> rat point \<Rightarrow> (heat_key \<times> rat) list" where
  "count_active env hm r =
     (if fld r ''DI1_KM'' = Some 1
      then AList.update (getDay env (time r), getHours env (time r))
             (or0 (map_of hm (getDay env (time r), getHours env (time r))) + 1) hm
      else hm)"

definition active_heatmap :: "env \<Rightarrow> rat point list \<Rightarrow> (heat_key \<times> rat) list" where
  "active_heatmap env realTime = foldl (count_active env) (map (\<lambda>key. (key, 0)) heat_keys) realTime"

definition calculateUtilizationHeatmap :: "env \<Rightarrow> rat point list \<Rightarrow> heatmap_result" where
  "calculateUtilizationHeatmap env realTime =
     (if realTime = [] then \<lparr>hm_days = [], hm_hours = [], hm_data = []\<rparr>
      else
        let heatmap = active_heatmap env realTime;
            maxValue = fold max (map snd heatmap) 1
        in \<lparr>hm_days = day_names, hm_hours = [0..23],
            hm_data = concat (map (\<lambda>dayIndex. map (\<lambda>h.
               \<lparr>cell_day = dayIndex, cell_hour = h, dayName = day_names ! nat dayIndex,
                cell_value = Some (or0 (map_of heatmap (Some dayIndex, Some h))),
                intensity = Some (or0 (map_of heatmap (Some dayIndex, Some h)) / maxValue * 100)\<rparr>)
               [0..23]) [0..6])\<rparr>)"

record idleActive =
  activeHours :: jsval
  idleHours :: jsval
  totalHours :: jsval
  activePercent :: jsval

definition calculateIdleActiveAnalysis :: "rat point list \<Rightarrow> idleActive" where
  "calculateIdleActiveAnalysis realTime =
     (if realTime = []
      then \<lparr>activeHours = JNum 0, idleHours = JNum 0, totalHours = JNum 0, activePercent = JNum 0\<rparr>
      else
        let activeCount = of_nat (count (\<lambda>r. fld r ''DI1_KM'' = Some 1) realTime);
            totalCount = of_nat (length realTime);
            percent = (if totalCount > 0 then (activeCount / totalCount) * 100 else 0);
            readingIntervalHours = 25 / 3600;
            active = activeCount * readingIntervalHours;
            total = totalCount * readingIntervalHours
        in \<lparr>activeHours = JStr (toFixed 2 (Some active)),
            idleHours = JStr (toFixed 2 (Some (total - active))),
            totalHours = JStr (toFixed 2 (Some total)),
            activePercent = JStr (toFixed 1 (Some percent))\<rparr>)"

record lifetimeMetrics =
  lifetimeCycles :: nat
  rul :: jsval
  rulDays :: jsval
  remainingCycles :: rat
  mtbf :: jsval
  mttr :: rat

definition calculateLifetimeMetrics :: "rat point list \<Rightarrow> thresholds \<Rightarrow> lifetimeMetrics" where
  "calculateLifetimeMetrics allCycles th =
     (if allCycles = []
      then \<lparr>lifetimeCycles = 0, rul = JNum 0, rulDays = JNum 0, remainingCycles = 0, mtbf = JNum 0,
            mttr = 5 / 2\<rparr>
      else
        let n = of_nat (length allCycles);
            threshold = th_lifetimeCycleThreshold th;
            remaining = max 0 (threshold - n);
            rulPercent = nmul (ndiv (Some remaining) (Some threshold)) (Some 100);
            timestamps = map timestamp allCycles;
            dataSpanDays = (if length timestamps > 0
                            then ndiv (span_ms timestamps) (Some (1000 * 60 * 60 * 24)) else Some 1);
            avgCyclesPerDay = (if ngt dataSpanDays (Some 0) then ndiv (Some n) dataSpanDays else Some n);
            days = (if ngt avgCyclesPerDay (Some 0) then ndiv (Some remaining) avgCyclesPerDay else Some 0);
            failures = count (\<lambda>c. fld c ''cycle.overall'' = Some 1) allCycles;
            totalRuntime = ndiv (ToNumber (sumBy (col ''cycle.durationS'' allCycles))) (Some 3600);
            between = (if failures > 0 then ndiv totalRuntime (Some (of_nat failures)) else totalRuntime)
        in \<lparr>lifetimeCycles = length allCycles,
            rul = JStr (toFixed 1 rulPercent),
            rulDays = JStr (toFixed 0 days),
            remainingCycles = remaining,
            mtbf = JStr (toFixed 1 between),
            mttr = 5 / 2\<rparr>)"

record di_state =
  di_time :: string
  di_KM :: rat
  di_Overload :: rat
  di_Gate :: rat
  di_Door :: rat
  di_GateDown :: rat
  di_Pressure :: rat
  di_YDown :: rat
  di_Error :: rat

definition calculateDIStateTimeline :: "rat point list \<Rightarrow> di_state list" where
  "calculateDIStateTimeline realTime =
     (if realTime = [] then []
      else map (\<lambda>d. \<lparr>di_time = timeStr d,
                      di_KM = num d ''DI1_KM'',
                      di_Overload = num d ''DI2_ES_Overload_Key'',
                      di_Gate = num d ''DI3_Gate'',
                      di_Door = num d ''DI4_Door'',
                      di_GateDown = num d ''DI5_GateDown'',
                      di_Pressure = num d ''DI6_PressureSwitchDigital'',
                      di_YDown = num d ''DI7_Y_Down'',
                      di_Error = num d ''DI8_Full_Error''\<rparr>)
             (slice_last 50 realTime))"

subsection \<open>MetricsCalculator of \<open>src/src/TimeSeriesDashboard.js\<close>\<close>

text \<open>
  The functions that have a namesake in \<open>src/src/Dashboard.js\<close> carry the suffix \<open>_K\<close>.
  \<open>Math.random()\<close> is the sequence \<open>Math_random env 0\<close>, \<open>Math_random env 1\<close>, ... of the
  numbers the calls of one invocation return, in call order.
\<close>

definition calculateUtilization :: "rat point list \<Rightarrow> number" where
  "calculateUtilization cycles =
     (if cycles = [] then Some 0
      else
        let totalDuration = ToNumber (sumBy (col ''cycle.durationS'' cycles));
            avgDuration = ndiv totalDuration (Some (of_nat (length cycles)))
        in Math_min2 (Some 100) (nmul (ndiv avgDuration (Some 30)) (Some 100)))"

text \<open>\<open>Math.round\<close>, \<open>Math.floor\<close> of a finite number.\<close>

definition Math_round :: "rat \<Rightarrow> int" where
  "Math_round x = \<lfloor>x + 1 / 2\<rfloor>"

record cycleMetrics_K =
  ck_trends :: "unit list option"
  ck_total :: nat
  ck_avgPerDay :: int

definition calculateCycleMetrics_K :: "env \<Rightarrow> rat point list \<Rightarrow> cycleMetrics_K" where
  "calculateCycleMetrics_K env cycles =
     (if cycles = [] then \<lparr>ck_trends = Some [], ck_total = 0, ck_avgPerDay = 0\<rparr>
      else
        let total = length cycles;
            days = length (groupBy (\<lambda>c. toLocaleDateString env (time c)) cycles);
            avgPerDay = (if days > 0 then of_nat total / of_nat days else 0)
        in \<lparr>ck_trends = None, ck_total = total, ck_avgPerDay = Math_round avgPerDay\<rparr>)"

record daily_item =
  da_date :: string
  da_count :: nat
  da_runtime :: number
  da_avgDuration :: rat
  da_bales :: nat

definition calculateDailyData :: "env \<Rightarrow> rat point list \<Rightarrow> daily_item list" where
  "calculateDailyData env cycles =
     (if cycles = [] then []
      else slice_last 7 (map (\<lambda>(d, dayCycles).
             \<lparr>da_date = d,
              da_count = length dayCycles,
              da_runtime = fixedN 2 (ndiv (ToNumber (sumBy (col ''cycle.durationS'' dayCycles))) (Some 3600)),
              da_avgDuration = fixed 2 (nor0 (meanBy (col ''cycle.durationS'' dayCycles))),
              da_bales = (if length dayCycles div 70 = 0 then 1 else length dayCycles div 70)\<rparr>)
           (groupBy (\<lambda>c. day_label env (time c)) cycles)))"

record phase_item =
  ph_date :: string
  phaseA :: rat
  phaseB :: rat
  phaseC :: rat

record voltage_day =
  vd_date :: string
  vd_U1 :: rat
  vd_U2 :: rat
  vd_U3 :: rat
  vd_sag :: rat

record electricalMetrics_K =
  ek_inrush :: "phase_item list"
  ek_voltage :: "voltage_day list"

definition calculateElectricalMetrics_K :: "env \<Rightarrow> rat point list \<Rightarrow> electricalMetrics_K" where
  "calculateElectricalMetrics_K env cycles =
     (if cycles = [] then \<lparr>ek_inrush = [], ek_voltage = []\<rparr>
      else
        let dailyData = calculateDailyData env cycles;
            n = length dailyData
        in \<lparr>ek_inrush = map (\<lambda>(i, d).
               \<lparr>ph_date = da_date d,
                phaseA = fixed 2 (Math_random env (3 * i) * 200 + 50),
                phaseB = fixed 2 (Math_random env (3 * i + 1) * 200 + 50),
                phaseC = fixed 2 (Math_random env (3 * i + 2) * 200 + 50)\<rparr>) (enumerate 0 dailyData),
            ek_voltage = map (\<lambda>(i, d).
               \<lparr>vd_date = da_date d,
                vd_U1 = fixed 2 (Math_random env (3 * n + 4 * i) * 50 + 200),
                vd_U2 = fixed 2 (Math_random env (3 * n + 4 * i + 1) * 50 + 200),
                vd_U3 = fixed 2 (Math_random env (3 * n + 4 * i + 2) * 50 + 200),
                vd_sag = fixed 2 (Math_random env (3 * n + 4 * i + 3) * 100)\<rparr>) (enumerate 0 dailyData)\<rparr>)"

record idle_day =
  id_date :: string
  id_activeHours :: rat
  id_idleHours :: rat
  id_utilization :: rat

record idleActive_K =
  ik_data :: "idle_day list"
  ik_activeHours :: rat
  ik_idleHours :: rat
  ik_totalHours :: "rat option"
  ik_activePercent :: rat

text \<open>\<open>ik_totalHours = None\<close>: the result for empty input has no \<open>totalHours\<close>.\<close>

definition calculateIdleActiveTime :: "env \<Rightarrow> rat point list \<Rightarrow> rat point list \<Rightarrow> idleActive_K" where
  "calculateIdleActiveTime env realTime cycles =
     (if realTime = [] \<or> cycles = []
      then \<lparr>ik_data = [], ik_activeHours = 0, ik_idleHours = 0, ik_totalHours = None, ik_activePercent = 0\<rparr>
      else
        let activeCount = of_nat (count (\<lambda>r. fld r ''DI1_KM'' = Some 1) realTime);
            totalCount = of_nat (length realTime);
            readingIntervalHours = 25 / 3600000;
            active = activeCount * readingIntervalHours;
            total = totalCount * readingIntervalHours;
            idle = max 0 (total - active);
            percent = (if totalCount > 0 then (activeCount / totalCount) * 100 else 0)
        in \<lparr>ik_data = slice_last 7 (map (\<lambda>(d, dayData).
               let dayActiveCount = of_nat (count (\<lambda>r. fld r ''DI1_KM'' = Some 1) dayData);
                   dayTotalCount = of_nat (length dayData);
                   dayActiveHours = dayActiveCount * readingIntervalHours;
                   dayIdleHours = (dayTotalCount * readingIntervalHours) - dayActiveHours
               in \<lparr>id_date = d,
                   id_activeHours = fixed 2 dayActiveHours,
                   id_idleHours = fixed 2 dayIdleHours,
                   id_utilization = (if dayTotalCount > 0
                                     then fixed 1 ((dayActiveCount / dayTotalCount) * 100) else 0)\<rparr>)
               (groupBy (\<lambda>r. day_label env (time r)) realTime)),
            ik_activeHours = fixed 2 active,
            ik_idleHours = fixed 2 idle,
            ik_totalHours = Some (fixed 2 total),
            ik_activePercent = fixed 1 percent\<rparr>)"

text \<open>
  \<open>calculateUtilizationHeatmap\<close> of this dashboard: only the hours 8 to 19 are tracked,
  a cell is a day of the month with an hour, and its value is the percentage of the
  samples of the cell that have \<open>DI1_KM = 1\<close>. The cells are sorted by
  \<open>localeCompare\<close> of their keys.
\<close>

record cell_counts =
  cc_active :: nat
  cc_total :: nat
  cc_day :: string
  cc_hour :: int

definition tracked_hour :: "env \<Rightarrow> rat point \<Rightarrow> int option" where
  "tracked_hour env r =
     (case getHours env (time r) of
        None \<Rightarrow> None
      | Some h \<Rightarrow> if h \<ge> 8 \<and> h \<le> 19 then Some h else None)"

definition cell_key :: "env \<Rightarrow> rat point \<Rightarrow> int \<Rightarrow> string" where
  "cell_key env r h = day_label env (time r) @ ''-'' @ int_str h"

definition count_sample :: "env \<Rightarrow> (string \<times> cell_counts) list \<Rightarrow> rat point \<Rightarrow> (string \<times> cell_counts) list" where
  "count_sample env hm r =
     (case tracked_hour env r of
        None \<Rightarrow> hm
      | Some h \<Rightarrow>
          let key = cell_key env r h;
              c = (case map_of hm key of
                     None \<Rightarrow> \<lparr>cc_active = 0, cc_total = 0, cc_day = day_label env (time r), cc_hour = h\<rparr>
                   | Some c \<Rightarrow> c)
          in AList.update key
               (c\<lparr>cc_total := cc_total c + 1,
                  cc_active := (if fld r ''DI1_KM'' = Some 1 then cc_active c + 1 else cc_active c)\<rparr>) hm)"

definition by_timestamp :: "rat point list \<Rightarrow> rat point list" where
  "by_timestamp ps = sort_by (\<lambda>a b. instant_after (timestamp a) (timestamp b)) ps"

definition by_key :: "env \<Rightarrow> (string \<times> 'a) list \<Rightarrow> (string \<times> 'a) list" where
  "by_key env es = sort_by (\<lambda>a b. localeCompare env (fst a) (fst b) > 0) es"

definition calculateUtilizationHeatmap_K :: "env \<Rightarrow> rat point list \<Rightarrow> (string \<times> rat) list" where
  "calculateUtilizationHeatmap_K env realTime =
     (if realTime = [] then []
      else map (\<lambda>(key, c).
                  (key, fixed 2 (if cc_total c > 0 then (of_nat (cc_active c) / of_nat (cc_total c)) * 100 else 0)))
             (by_key env (foldl (count_sample env) [] (by_timestamp realTime))))"

definition add_energy :: "env \<Rightarrow> (string \<times> rat) list \<Rightarrow> rat point \<Rightarrow> (string \<times> rat) list" where
  "add_energy env hm c =
     (case tracked_hour env c of
        None \<Rightarrow> hm
      | Some h \<Rightarrow> AList.update (cell_key env c h) (or0 (map_of hm (cell_key env c h)) + num c ''energy.workWh'') hm)"

definition calculateEnergyHeatmap :: "env \<Rightarrow> rat point list \<Rightarrow> (string \<times> rat) list" where
  "calculateEnergyHeatmap env cycles =
     (if cycles = [] then []
      else map (\<lambda>(key, energy). (key, fixed 2 energy))
             (by_key env (foldl (add_energy env) [] (by_timestamp cycles))))"

record chamberFullness =
  cf_percent :: int
  cf_color :: string
  cf_level :: string

text \<open>The index of the last sample with \<open>DI8_Full_Error = 1\<close>.\<close>

definition lastFullError :: "rat point list \<Rightarrow> nat option" where
  "lastFullError realTime =
     (case filter (\<lambda>(i, r). fld r ''DI8_Full_Error'' = Some 1) (enumerate 0 realTime) of
        [] \<Rightarrow> None
      | irs \<Rightarrow> Some (Max (set (map fst irs))))"

definition calculateChamberFullness :: "rat point list \<Rightarrow> rat point list \<Rightarrow> chamberFullness" where
  "calculateChamberFullness realTime cycles =
     (if realTime = [] then \<lparr>cf_percent = 0, cf_color = ''bg-green-600'', cf_level = ''Low''\<rparr>
      else
        let cyclesSinceLastFull =
              (case lastFullError realTime of
                 None \<Rightarrow> length cycles
               | Some i \<Rightarrow> count (\<lambda>c. instant_after (timestamp c) (timestamp (realTime ! i))) cycles);
            fullnessPercent = min 100 ((of_nat cyclesSinceLastFull / 75) * 100)
        in if fullnessPercent < 33
           then \<lparr>cf_percent = Math_round fullnessPercent, cf_color = ''bg-green-600'', cf_level = ''Low''\<rparr>
           else if fullnessPercent < 67
           then \<lparr>cf_percent = Math_round fullnessPercent, cf_color = ''bg-yellow-400'', cf_level = ''Medium''\<rparr>
           else \<lparr>cf_percent = Math_round fullnessPercent, cf_color = ''bg-rose-400'', cf_level = ''High''\<rparr>)"

text \<open>The result of \<open>calculateEnergyMetrics\<close> is an object with the one property \<open>efficiency\<close>.\<close>

record efficiency_day =
  ed_date :: string
  baler1 :: rat
  ed_efficiency :: rat
  ed_powerFactor :: rat

definition calculateEnergyMetrics_K :: "env \<Rightarrow> rat point list \<Rightarrow> efficiency_day list" where
  "calculateEnergyMetrics_K env cycles =
     (if cycles = [] then []
      else map (\<lambda>(i, d).
             \<lparr>ed_date = da_date d,
              baler1 = fixed 2 (Math_random env (3 * i) * 200 + 50),
              ed_efficiency = fixed 2 (Math_random env (3 * i + 1) * 30 + 70),
              ed_powerFactor = fixed 2 (Math_random env (3 * i + 2) * 2 + 2)\<rparr>)
           (enumerate 0 (calculateDailyData env cycles)))"

record breakdown_item =
  bd_date :: string
  anomaly1 :: int
  anomaly2 :: int
  anomaly3 :: int
  anomaly4 :: int

record recent_item =
  rc_type :: string
  rc_date :: string

record anomalyMetrics_K =
  ak_score :: nat
  ak_breakdown :: "breakdown_item list"
  ak_recent :: "recent_item list"

definition calculateAnomalyMetrics :: "env \<Rightarrow> rat point list \<Rightarrow> anomalyMetrics_K" where
  "calculateAnomalyMetrics env cycles =
     (if cycles = [] then \<lparr>ak_score = 0, ak_breakdown = [], ak_recent = []\<rparr>
      else
        \<lparr>ak_score = 5,
         ak_breakdown = map (\<lambda>(i, d).
             \<lparr>bd_date = da_date d,
              anomaly1 = \<lfloor>Math_random env (4 * i) * 5\<rfloor>,
              anomaly2 = \<lfloor>Math_random env (4 * i + 1) * 8\<rfloor>,
              anomaly3 = \<lfloor>Math_random env (4 * i + 2) * 6\<rfloor>,
              anomaly4 = \<lfloor>Math_random env (4 * i + 3) * 3\<rfloor>\<rparr>)
           (enumerate 0 (calculateDailyData env cycles)),
         ak_recent = [\<lparr>rc_type = ''Anomaly 4'', rc_date = ''10/10/2025''\<rparr>,
                      \<lparr>rc_type = ''Anomaly 3'', rc_date = ''10/10/2025''\<rparr>,
                      \<lparr>rc_type = ''Anomaly 2'', rc_date = ''10/10/2025''\<rparr>,
                      \<lparr>rc_type = ''Anomaly 1'', rc_date = ''10/10/2025''\<rparr>]\<rparr>)"

record safety_event_K =
  sk_device :: string
  sk_issue :: string
  sk_time :: string

record safetyMetrics_K =
  sk_eStop :: nat
  sk_door :: nat
  sk_errors :: nat
  sk_mtbf :: nat
  sk_events :: "safety_event_K list"

definition calculateSafetyMetrics_K :: "env \<Rightarrow> rat point list \<Rightarrow> safetyMetrics_K" where
  "calculateSafetyMetrics_K env realTime =
     (if realTime = [] then \<lparr>sk_eStop = 0, sk_door = 0, sk_errors = 0, sk_mtbf = 20, sk_events = []\<rparr>
      else
        \<lparr>sk_eStop = count (\<lambda>d. fld d ''DI2_ES_Overload_Key'' = Some 1) realTime,
         sk_door = count (\<lambda>d. fld d ''DI4_Door'' = Some 1 \<and> fld d ''DI1_KM'' = Some 1) realTime,
         sk_errors = count (\<lambda>d. fld d ''DI8_Full_Error'' = Some 1) realTime,
         sk_mtbf = 20,
         sk_events = map (\<lambda>d.
             \<lparr>sk_device = ''Baler 1'',
              sk_issue = (if fld d ''DI2_ES_Overload_Key'' = Some 1 then ''Overload''
                          else if fld d ''DI8_Full_Error'' = Some 1 then ''Full''
                          else if fld d ''DI4_Door'' = Some 1 then ''Gate Down''
                          else ''Unknown''),
              sk_time = toLocaleString env (time d)\<rparr>)
           (slice_last 7 (filter (\<lambda>d. fld d ''DI2_ES_Overload_Key'' = Some 1 \<or>
                                       (fld d ''DI4_Door'' = Some 1 \<and> fld d ''DI1_KM'' = Some 1) \<or>
                                       fld d ''DI8_Full_Error'' = Some 1) realTime))\<rparr>)"

record forecast_item =
  fc_date :: string
  fc_remaining :: number

record eolMetrics =
  eol_lifetimeCycles :: nat
  eol_remaining :: rat
  eol_remainingCycles :: rat
  eol_rulDays :: number
  forecast :: "forecast_item list"

definition forecast_dates :: "string list" where
  "forecast_dates = [''09 Oct'', ''10 Oct'', ''11 Oct'', ''12 Oct'', ''13 Oct'', ''14 Oct'', ''15 Oct'',
                     ''16 Oct'', ''17 Oct'']"

definition calculateEOLMetrics :: "rat point list \<Rightarrow> eolMetrics" where
  "calculateEOLMetrics cycles =
     (if cycles = []
      then \<lparr>eol_lifetimeCycles = 0, eol_remaining = 100, eol_remainingCycles = 50000, eol_rulDays = Some 0,
            forecast = []\<rparr>
      else
        let n = of_nat (length cycles);
            remaining = max 0 (50000 - n);
            remainingLifePercent = (remaining / 50000) * 100;
            timestamps = map timestamp cycles;
            dataSpanDays = (if length timestamps > 0
                            then ndiv (span_ms timestamps) (Some (1000 * 60 * 60 * 24)) else Some 1);
            avgCyclesPerDay = (if ngt dataSpanDays (Some 0) then ndiv (Some n) dataSpanDays else Some n)
        in \<lparr>eol_lifetimeCycles = length cycles,
            eol_remaining = fixed 1 remainingLifePercent,
            eol_remainingCycles = remaining,
            eol_rulDays = (if ngt avgCyclesPerDay (Some 0)
                           then map_option (\<lambda>q. of_int \<lfloor>q\<rfloor>) (ndiv (Some remaining) avgCyclesPerDay)
                           else Some 0),
            forecast = map (\<lambda>(idx, d).
               \<lparr>fc_date = d,
                fc_remaining = fixedN 2 (Math_max2 (Some 0)
                   (nmul (ndiv (nsub (Some 50000) (nadd (Some n) (nmul avgCyclesPerDay (Some (of_nat idx)))))
                               (Some 50000)) (Some 100)))\<rparr>)
               (enumerate 0 forecast_dates)\<rparr>)"

subsection \<open>The device on display and its metrics\<close>










section \<open>The filters as functions of a dataset\<close>

text \<open>
  The state of a wide dashboard right after an upload of \<open>ds\<close>
  (\<open>setOriginalData(ds); setData(ds)\<close>) with the three selections, and the data shown
  once \<open>applyFilters\<close> has run on it.
\<close>

definition loaded :: "cycle list \<Rightarrow> string \<Rightarrow> string \<Rightarrow> string \<Rightarrow> dashboard" where
  "loaded ds dev loc rng =
     \<lparr>data = ds, originalData = ds, loading = False, selectedDevice = dev,
      selectedLocation = loc, selectedTimeRange = rng, errorMessage = []\<rparr>"

definition filtered_view :: "env \<Rightarrow> cycle list \<Rightarrow> string \<Rightarrow> string \<Rightarrow> string \<Rightarrow> cycle list" where
  "filtered_view env ds dev loc rng = data (applyFilters env (loaded ds dev loc rng))"

definition filtered_view_D :: "env \<Rightarrow> cycle list \<Rightarrow> string \<Rightarrow> string \<Rightarrow> cycle list" where
  "filtered_view_D env ds dev rng = data (applyFilters_D env (loaded ds dev ''all'' rng))"

definition in_dateRange :: "env \<Rightarrow> dateRange \<Rightarrow> 'v point \<Rightarrow> bool" where
  "in_dateRange env dr d \<longleftrightarrow>
     (dr_start dr \<noteq> [] \<and> dr_end dr \<noteq> [] \<longrightarrow>
        instant_ge (timestamp d) (new_Date env (JStr (dr_start dr))) \<and>
        instant_ge (new_Date env (JStr (dr_end dr))) (timestamp d))"

definition device_location_pass :: "string \<Rightarrow> string \<Rightarrow> cycle \<Rightarrow> bool" where
  "device_location_pass dev loc d \<longleftrightarrow>
     (dev \<noteq> ''all'' \<longrightarrow> get (raw d) ''device_id'' = JStr dev) \<and>
     (loc \<noteq> ''all'' \<longrightarrow> get (raw d) ''location'' = JStr loc)"

text \<open>
  A window start is a constant or the reference instant minus a constant.
\<close>

definition window_fun :: "(int option \<Rightarrow> int option) \<Rightarrow> bool" where
  "window_fun g \<longleftrightarrow> (\<exists>c. \<forall>now. g now = c) \<or> (\<exists>k. \<forall>now. g now = instant_minus now k)"

text \<open>The time value that \<open>startDate\<close> is made of, before \<open>new Date\<close> clips it.\<close>

definition startDate_ms :: "string \<Rightarrow> int option \<Rightarrow> int option" where
  "startDate_ms rng now =
     (if rng = ''24h'' then instant_minus now (24 * 60 * 60 * 1000)
      else if rng = ''7d'' then instant_minus now (7 * 24 * 60 * 60 * 1000)
      else if rng = ''30d'' then instant_minus now (30 * 24 * 60 * 60 * 1000)
      else Some 0)"

text \<open>
  The earliest instant a Date can hold, and the datasets none of whose cycles starts
  within 30 days of it: their window starts are valid Dates.
\<close>

definition earliest_Date :: int where
  "earliest_Date = - 8640000000000000"

definition clear_of_limit :: "env \<Rightarrow> cycle list \<Rightarrow> bool" where
  "clear_of_limit env ds =
     list_all (\<lambda>d. case started env d of
                      None \<Rightarrow> True
                    | Some t \<Rightarrow> earliest_Date + 30 * 24 * 60 * 60 * 1000 \<le> t) ds"

text \<open>
  The time-window filter in the words of the specification: the reference instant is
  the latest timestamp of the original dataset, the window starts 24 hours, 7 days or
  30 days before it (at the epoch for any other selection), and a record of the
  working set is kept when its timestamp is not before the window start.
\<close>

definition spec_windowStart :: "string \<Rightarrow> int \<Rightarrow> int" where
  "spec_windowStart rng now =
     (if rng = ''24h'' then now - 24 * 60 * 60 * 1000
      else if rng = ''7d'' then now - 7 * 24 * 60 * 60 * 1000
      else if rng = ''30d'' then now - 30 * 24 * 60 * 60 * 1000
      else 0)"

definition spec_timeWindow :: "('a \<Rightarrow> int option) \<Rightarrow> 'a list \<Rightarrow> 'a list \<Rightarrow> string \<Rightarrow> 'a list" where
  "spec_timeWindow ts original working rng =
     filter (\<lambda>d. spec_windowStart rng (Max (the ` ts ` set original)) \<le> the (ts d)) working"

text \<open>
  The latest timestamp of a list of records with valid timestamps, and the records of
  a working set whose timestamp is not before a given instant.
\<close>

definition latest :: "('a \<Rightarrow> int option) \<Rightarrow> 'a list \<Rightarrow> int" where
  "latest ts xs = Max (the ` ts ` set xs)"

definition kept_since :: "('a \<Rightarrow> int option) \<Rightarrow> int \<Rightarrow> 'a list \<Rightarrow> 'a list" where
  "kept_since ts start working = filter (\<lambda>d. start \<le> the (ts d)) working"

section \<open>Sample inputs\<close>

text \<open>
  An engine in the UTC time zone that parses the instants of the examples below: ISO
  strings with a zone, and the two values of a \<open>datetime-local\<close> input at the end.
\<close>

definition sample_dates :: "(string \<times> int) list" where
  "sample_dates =
     [(''2024-01-01T00:00:00Z'', 1704067200000),
      (''2024-01-01T01:00:00Z'', 1704070800000),
      (''2024-01-03T12:00:00Z'', 1704283200000),
      (''2024-01-07T03:00:00Z'', 1704596400000),
      (''1970-01-01T00:00:00Z'', 0),
      (''1970-01-01T00:00:10Z'', 10000),
      (''1970-01-04T00:00:00Z'', 259200000),
      (''1969-12-31T00:00:00Z'', - 86400000),
      (''2024-01-01T00:00'', 1704067200000),
      (''2024-01-04T00:00'', 1704326400000)]"

text \<open>The day of the month of an instant in UTC (the civil calendar from the day number).\<close>

definition day_of_month :: "int \<Rightarrow> int" where
  "day_of_month t =
     (let z = t div 86400000 + 719468;
          doe = z mod 146097;
          yoe = (doe - doe div 1460 + doe div 36524 - doe div 146096) div 365;
          doy = doe - (365 * yoe + yoe div 4 - yoe div 100);
          mp = (5 * doy + 2) div 153
      in doy - (153 * mp + 2) div 5 + 1)"

definition utc :: env where
  "utc = \<lparr>Date_parse = map_of sample_dates, LocalTZA = (\<lambda>t. 0),
          toLocaleDateString = (\<lambda>d. []), toLocaleTimeString = (\<lambda>d. []),
          toLocaleString = (\<lambda>d. []), getDate = (\<lambda>d. map_option (\<lambda>t. of_int (day_of_month t)) d),
          localeCompare = (\<lambda>a b. if str_lt a b then - 1 else if str_lt b a then 1 else 0),
          Math_random = (\<lambda>n. 0)\<rparr>"

definition wide_row :: "string \<Rightarrow> string \<Rightarrow> rat \<Rightarrow> row" where
  "wide_row dev t ms = [(''device_id'', JStr dev), (''cycle_started_at'', JStr t), (''cycle_duration_ms'', JNum ms)]"

text \<open>The two rows of the round-trip scenario: device M1, one hour apart, 1 h and 2 h long.\<close>

definition m1_rows :: "row list" where
  "m1_rows = [wide_row ''M1'' ''2024-01-01T00:00:00Z'' 3600000,
              wide_row ''M1'' ''2024-01-01T01:00:00Z'' 7200000]"

definition week_rows :: "row list" where
  "week_rows = [wide_row ''M1'' ''2024-01-01T00:00:00Z'' 3600000,
                wide_row ''M2'' ''2024-01-03T12:00:00Z'' 1800000,
                wide_row ''M1'' ''2024-01-07T03:00:00Z'' 7200000]"

definition sample_point :: "string \<Rightarrow> (string \<times> rat option) list \<Rightarrow> rat point" where
  "sample_point t ms =
     \<lparr>time = map_of sample_dates t, timeStr = [], timestamp = map_of sample_dates t, measures = ms\<rparr>"

definition no_dateRange :: dateRange where
  "no_dateRange = \<lparr>dr_start = [], dr_end = []\<rparr>"

definition week_cycles :: "cycle list" where
  "week_cycles = map (mk_cycle utc) week_rows"

definition day_points :: "rat point list" where
  "day_points = [sample_point ''2024-01-01T00:00:00Z'' [(''cycle.durationS'', Some 10)],
                 sample_point ''2024-01-01T01:00:00Z'' [(''cycle.durationS'', Some 10)],
                 sample_point ''2024-01-03T12:00:00Z'' [(''cycle.durationS'', Some 20)]]"

text \<open>A point of the last day of 1969 and one at the epoch.\<close>

definition old_points :: "rat point list" where
  "old_points = [sample_point ''1969-12-31T00:00:00Z'' [(''cycle.durationS'', Some 10)],
                 sample_point ''1970-01-01T00:00:00Z'' [(''cycle.durationS'', Some 10)]]"

text \<open>Three points over a week, and a date range that holds the first two.\<close>

definition range_points :: "rat point list" where
  "range_points = [sample_point ''2024-01-01T00:00:00Z'' [(''cycle.durationS'', Some 10)],
                   sample_point ''2024-01-03T12:00:00Z'' [(''cycle.durationS'', Some 10)],
                   sample_point ''2024-01-07T03:00:00Z'' [(''cycle.durationS'', Some 10)]]"

definition first_days :: dateRange where
  "first_days = \<lparr>dr_start = ''2024-01-01T00:00'', dr_end = ''2024-01-04T00:00''\<rparr>"

text \<open>
  Two cycles a day after the earliest instant of a Date, one millisecond apart, the
  later one of device \<open>M1\<close>; the start of a cycle is a numeric cell here.
\<close>

definition limit_rows :: "row list" where
  "limit_rows =
     [[(''device_id'', JStr ''M1''), (''cycle_started_at'', JNum (- 8639999913600000)),
       (''cycle_duration_ms'', JNum 1000)],
      [(''device_id'', JStr ''M2''), (''cycle_started_at'', JNum (- 8639999913600001)),
       (''cycle_duration_ms'', JNum 1000)]]"

definition limit_cycles :: "cycle list" where
  "limit_cycles = map (mk_cycle utc) limit_rows"

definition m1_cycles :: "cycle list" where
  "m1_cycles = map (mk_cycle utc) m1_rows"

text \<open>The same two rows with an energy column.\<close>

definition m1_energy_rows :: "row list" where
  "m1_energy_rows = map (\<lambda>r. r @ [(''energy_active_kwh'', JNum (5 / 2))]) m1_rows"

definition m1_energy_cycles :: "cycle list" where
  "m1_energy_cycles = map (mk_cycle utc) m1_energy_rows"

text \<open>A wide-shape upload whose header has no \<open>cycle_duration_ms\<close>.\<close>

definition short_rows :: "row list" where
  "short_rows = [[(''device_id'', JStr ''M1''), (''cycle_started_at'', JStr ''2024-01-01T00:00:00Z'')]]"


text \<open>The thresholds the long-shape dashboard starts with.\<close>

definition default_thresholds :: thresholds where
  "default_thresholds =
     \<lparr>th_cycleDuration = 25, th_inrushMultiple = 8, th_voltageSag = 60, th_currentUnbalance = 15,
      th_ripple = 70, th_lifetimeCycleThreshold = 50000, th_mtbfThresholdHours = 100\<rparr>"

text \<open>Two cycles of 10 seconds whose timestamps are 10 seconds apart.\<close>

definition close_cycles :: "rat point list" where
  "close_cycles = [sample_point ''1970-01-01T00:00:00Z'' [(''cycle.durationS'', Some 10)],
                   sample_point ''1970-01-01T00:00:10Z'' [(''cycle.durationS'', Some 10)]]"

text \<open>Cycles with the given durations in seconds, and the five cycles of the drift scenario.\<close>

definition cycles_of :: "rat list \<Rightarrow> rat point list" where
  "cycles_of ds = map (\<lambda>d. sample_point ''2024-01-01T00:00:00Z'' [(''cycle.durationS'', Some d)]) ds"

definition five_cycles :: "rat point list" where
  "five_cycles = cycles_of [10, 10, 10, 10, 20]"

text \<open>The baseline in the words of the specification: the middle of the durations in ascending numeric order.\<close>

definition spec_baseline :: "rat list \<Rightarrow> rat" where
  "spec_baseline durations = sort durations ! (length durations div 2)"

text \<open>Three wide-shape cycles of 9, 10 and 100 seconds.\<close>

definition three_cycles :: "cycle list" where
  "three_cycles = map (mk_cycle utc)
     [wide_row ''M1'' ''2024-01-01T00:00:00Z'' 9000,
      wide_row ''M1'' ''2024-01-01T01:00:00Z'' 10000,
      wide_row ''M1'' ''2024-01-03T12:00:00Z'' 100000]"


section \<open>Vocabulary of the claims on the long shape\<close>





text \<open>The samples of a list with the active signal: \<open>DI1_KM\<close> is 1.\<close>

definition active_samples :: "rat point list \<Rightarrow> nat" where
  "active_samples realTime = count (\<lambda>r. fld r ''DI1_KM'' = Some 1) realTime"

text \<open>The day of the week and the hour of a sample: the cell it is counted in.\<close>

definition sample_key :: "env \<Rightarrow> rat point \<Rightarrow> heat_key" where
  "sample_key env r = (getDay env (time r), getHours env (time r))"

text \<open>Two active samples, at 1 o'clock of a Monday and at 12 o'clock of a Wednesday.\<close>

definition heat_points :: "rat point list" where
  "heat_points = [sample_point ''2024-01-01T01:00:00Z'' [(''DI1_KM'', Some 1)],
                  sample_point ''2024-01-03T12:00:00Z'' [(''DI1_KM'', Some 1)]]"

section \<open>Properties of the filters\<close>

lemma max_date_Some_ge:
  "max_date xs = Some m \<Longrightarrow> x \<in> set xs \<Longrightarrow> \<exists>t. x = Some t \<and> t \<le> m"
proof (induction xs arbitrary: m rule: max_date.induct)
  case 1
  then show ?case by simp
next
  case (2 d)
  then show ?case by simp
next
  case (3 d v va)
  then show ?case
    by (auto split: option.splits)
qed

lemma max_date_Some_mem:
  "max_date xs = Some m \<Longrightarrow> Some m \<in> set xs"
proof (induction xs arbitrary: m rule: max_date.induct)
  case 1
  then show ?case by simp
next
  case (2 d)
  then show ?case by simp
next
  case (3 d v va)
  then show ?case
    by (auto split: option.splits if_splits simp: max_def)
qed

lemma max_date_defined:
  "xs \<noteq> [] \<Longrightarrow> \<forall>x\<in>set xs. x \<noteq> None \<Longrightarrow> max_date xs \<noteq> None"
proof (induction xs rule: max_date.induct)
  case 1
  then show ?case by simp
next
  case (2 d)
  then show ?case by simp
next
  case (3 d v va)
  then show ?case
    by (auto split: option.splits)
qed

lemma max_date_subset:
  assumes "max_date xs = Some m" and "set ys \<subseteq> set xs" and "ys \<noteq> []"
  shows "\<exists>m'. max_date ys = Some m' \<and> m' \<le> m"
proof -
  have "\<forall>y\<in>set ys. y \<noteq> None"
    using assms(1,2) max_date_Some_ge by fastforce
  with assms(3) obtain m' where m': "max_date ys = Some m'"
    using max_date_defined by fastforce
  then have "Some m' \<in> set xs"
    using max_date_Some_mem assms(2) by blast
  then have "m' \<le> m"
    using max_date_Some_ge [OF assms(1)] by fastforce
  with m' show ?thesis by simp
qed

lemma date_ge_iff: "date_ge a b \<longleftrightarrow> (\<exists>x y. a = Some x \<and> b = Some y \<and> y \<le> x)"
  by (cases a; cases b) auto

lemma instant_ge_iff: "instant_ge a b \<longleftrightarrow> (\<exists>x y. a = Some x \<and> b = Some y \<and> y \<le> x)"
  by (cases a; cases b) auto

lemma window_fun_minus: "window_fun (\<lambda>now. instant_minus now k)"
  unfolding window_fun_def by (rule disjI2) (rule exI [of _ k], rule allI, rule refl)

lemma window_fun_const: "window_fun (\<lambda>now. c)"
  unfolding window_fun_def by (rule disjI1) (rule exI [of _ c], rule allI, rule refl)

lemma window_fun_startDate_ms: "window_fun (startDate_ms rng)"
proof -
  have "startDate_ms rng = (\<lambda>now. instant_minus now (24 * 60 * 60 * 1000))" if "rng = ''24h''"
    using that by (intro ext) (simp add: startDate_ms_def)
  moreover have "startDate_ms rng = (\<lambda>now. instant_minus now (7 * 24 * 60 * 60 * 1000))"
    if "rng \<noteq> ''24h''" "rng = ''7d''"
    using that by (intro ext) (simp add: startDate_ms_def)
  moreover have "startDate_ms rng = (\<lambda>now. instant_minus now (30 * 24 * 60 * 60 * 1000))"
    if "rng \<noteq> ''24h''" "rng \<noteq> ''7d''" "rng = ''30d''"
    using that by (intro ext) (simp add: startDate_ms_def)
  moreover have "startDate_ms rng = (\<lambda>now. Some 0)"
    if "rng \<noteq> ''24h''" "rng \<noteq> ''7d''" "rng \<noteq> ''30d''"
    using that by (intro ext) (simp add: startDate_ms_def)
  ultimately show ?thesis
    using window_fun_minus window_fun_const by metis
qed

lemma window_fun_cutoff: "window_fun (cutoff tr)"
proof -
  have "cutoff tr = (\<lambda>now. instant_minus now (60 * 60 * 1000))" if "tr = ''1h''"
    using that by (intro ext) (simp add: cutoff_def)
  moreover have "cutoff tr = (\<lambda>now. instant_minus now (3 * 60 * 60 * 1000))"
    if "tr \<noteq> ''1h''" "tr = ''3h''"
    using that by (intro ext) (simp add: cutoff_def)
  moreover have "cutoff tr = (\<lambda>now. instant_minus now (6 * 60 * 60 * 1000))"
    if "tr \<noteq> ''1h''" "tr \<noteq> ''3h''" "tr = ''6h''"
    using that by (intro ext) (simp add: cutoff_def)
  moreover have "cutoff tr = (\<lambda>now. instant_minus now (12 * 60 * 60 * 1000))"
    if "tr \<noteq> ''1h''" "tr \<noteq> ''3h''" "tr \<noteq> ''6h''" "tr = ''12h''"
    using that by (intro ext) (simp add: cutoff_def)
  moreover have "cutoff tr = (\<lambda>now. Some 0)"
    if "tr \<noteq> ''1h''" "tr \<noteq> ''3h''" "tr \<noteq> ''6h''" "tr \<noteq> ''12h''"
    using that by (intro ext) (simp add: cutoff_def)
  ultimately show ?thesis
    using window_fun_minus window_fun_const by metis
qed

lemma window_refilter:
  assumes g: "window_fun g"
    and F: "set F \<subseteq> set D" "F \<noteq> []"
    and pass: "\<forall>d\<in>set F. date_ge (f d) (g (max_date (map f D)))"
  shows "\<forall>d\<in>set F. date_ge (f d) (g (max_date (map f F)))"
proof -
  from g consider c where "\<And>now. g now = c" | k where "\<And>now. g now = instant_minus now k"
    unfolding window_fun_def by blast
  then show ?thesis
  proof cases
    case 1
    show ?thesis using pass unfolding 1 .
  next
    case 2
    obtain d0 where d0: "d0 \<in> set F" using F(2) by (cases F) auto
    from pass d0 have "date_ge (f d0) (instant_minus (max_date (map f D)) k)"
      unfolding 2 by blast
    then obtain m where m: "max_date (map f D) = Some m"
      by (cases "max_date (map f D)") (simp_all add: instant_minus_def date_ge_iff)
    have "set (map f F) \<subseteq> set (map f D)" using F(1) by auto
    moreover have "map f F \<noteq> []" using F(2) by simp
    ultimately obtain m' where m': "max_date (map f F) = Some m'" "m' \<le> m"
      using max_date_subset [OF m] by blast
    show ?thesis
    proof
      fix d assume "d \<in> set F"
      with pass have "date_ge (f d) (instant_minus (Some m) k)"
        unfolding 2 m by blast
      then obtain t where t: "f d = Some t" "m - k \<le> t"
        by (auto simp: instant_minus_def date_ge_iff)
      then have "m' - k \<le> t" using m'(2) by simp
      then show "date_ge (f d) (g (max_date (map f F)))"
        unfolding 2 m'(1) by (simp add: instant_minus_def t(1))
    qed
  qed
qed

lemma filter_all: "\<forall>x\<in>set xs. P x \<Longrightarrow> filter P xs = xs"
  by (induction xs) auto

lemma refilter:
  assumes g: "window_fun g"
    and F: "F = filter (\<lambda>d. date_ge (f d) (g (max_date (map f D)))) (filter P D)"
  shows "filter (\<lambda>d. date_ge (f d) (g (max_date (map f F)))) (filter P F) = F"
proof (cases "F = []")
  case True
  then show ?thesis by simp
next
  case False
  have "set F \<subseteq> set D" and P: "\<forall>d\<in>set F. P d"
    and "\<forall>d\<in>set F. date_ge (f d) (g (max_date (map f D)))"
    using F by auto
  then have "\<forall>d\<in>set F. date_ge (f d) (g (max_date (map f F)))"
    using window_refilter [OF g _ False] by blast
  with P show ?thesis by (simp add: filter_all)
qed

lemma if_filter: "(if c then filter p xs else xs) = filter (\<lambda>d. c \<longrightarrow> p d) xs"
  by simp

lemma filtered_view_eq:
  "filtered_view env ds dev loc rng =
     filter (\<lambda>d. date_ge (started env d) (startDate rng (max_date (map (started env) ds))))
       (filter (\<lambda>d. (dev \<noteq> ''all'' \<longrightarrow> get (raw d) ''device_id'' = JStr dev) \<and>
                     (loc \<noteq> ''all'' \<longrightarrow> get (raw d) ''location'' = JStr loc)) ds)"
proof (cases "ds = []")
  case True
  then show ?thesis by (simp add: filtered_view_def applyFilters_def loaded_def)
next
  case False
  have "filtered_view env ds dev loc rng =
     filter (\<lambda>d. date_ge (started env d) (startDate rng (max_date (map (started env) ds))))
       (filter (\<lambda>d. loc \<noteq> ''all'' \<longrightarrow> get (raw d) ''location'' = JStr loc)
          (filter (\<lambda>d. dev \<noteq> ''all'' \<longrightarrow> get (raw d) ''device_id'' = JStr dev) ds))"
    using False
    by (simp only: filtered_view_def applyFilters_def loaded_def Let_def if_filter
          dashboard.simps if_False)
  then show ?thesis by (simp only: filter_filter)
qed

lemma filtered_view_D_eq:
  "filtered_view_D env ds dev rng =
     filter (\<lambda>d. date_ge (started env d) (startDate rng (max_date (map (started env) ds))))
       (filter (\<lambda>d. dev \<noteq> ''all'' \<longrightarrow> get (raw d) ''device_id'' = JStr dev) ds)"
proof (cases "ds = []")
  case True
  then show ?thesis by (simp add: filtered_view_D_def applyFilters_D_def loaded_def)
next
  case False
  then show ?thesis
    by (simp only: filtered_view_D_def applyFilters_D_def loaded_def Let_def if_filter
          dashboard.simps if_False)
qed

subsection \<open>Dates near the earliest instant\<close>

lemma trunc_bound:
  assumes "\<bar>r\<bar> \<le> of_int n"
  shows "\<bar>trunc r\<bar> \<le> n"
proof (cases "r < 0")
  case True
  then have "trunc r = - \<lfloor>- r\<rfloor>" by (simp add: trunc_def)
  moreover have "0 \<le> \<lfloor>- r\<rfloor>" using True by simp
  moreover have "\<lfloor>- r\<rfloor> \<le> n"
  proof -
    have "- r \<le> of_int n" using assms True by simp
    then have "\<lfloor>- r\<rfloor> \<le> \<lfloor>of_int n :: rat\<rfloor>" by (rule floor_mono)
    then show ?thesis by simp
  qed
  ultimately show ?thesis by simp
next
  case False
  then have "trunc r = \<lfloor>r\<rfloor>" by (simp add: trunc_def)
  moreover have "0 \<le> \<lfloor>r\<rfloor>" using False by simp
  moreover have "\<lfloor>r\<rfloor> \<le> n"
  proof -
    have "r \<le> of_int n" using assms False by simp
    then have "\<lfloor>r\<rfloor> \<le> \<lfloor>of_int n :: rat\<rfloor>" by (rule floor_mono)
    then show ?thesis by simp
  qed
  ultimately show ?thesis by simp
qed

lemma TimeClip_range:
  assumes "TimeClip r = Some t"
  shows "\<bar>t\<bar> \<le> 8640000000000000"
proof -
  from assms have r: "\<bar>r\<bar> \<le> of_int 8640000000000000" and t: "t = trunc r"
    by (simp_all add: TimeClip_def split: if_splits)
  from r have "\<bar>trunc r\<bar> \<le> 8640000000000000" by (rule trunc_bound)
  with t show ?thesis by simp
qed

lemma TimeClip_of_int:
  "TimeClip (of_int t) = (if \<bar>t\<bar> > 8640000000000000 then None else Some t)"
proof -
  have "trunc (of_int t) = t" by (simp add: trunc_def)
  moreover have "\<bar>of_int t :: rat\<bar> > 8640000000000000 \<longleftrightarrow> \<bar>t\<bar> > 8640000000000000"
  proof -
    have "\<bar>of_int t :: rat\<bar> = of_int \<bar>t\<bar>" by simp
    moreover have "(8640000000000000 :: rat) = of_int 8640000000000000" by simp
    ultimately show ?thesis by (simp only: of_int_less_iff)
  qed
  ultimately show ?thesis by (simp add: TimeClip_def)
qed

lemma TimeClip_numeral:
  "TimeClip (numeral n) = (if (numeral n :: int) > 8640000000000000 then None else Some (numeral n))"
  using TimeClip_of_int [of "numeral n"] by simp

lemma TimeClip_neg_numeral:
  "TimeClip (- numeral n) = (if (numeral n :: int) > 8640000000000000 then None else Some (- numeral n))"
  using TimeClip_of_int [of "- numeral n"] by simp

lemma TimeClip_0: "TimeClip 0 = Some 0"
  using TimeClip_of_int [of 0] by simp

lemmas TimeClip_eval = TimeClip_of_int TimeClip_numeral TimeClip_neg_numeral TimeClip_0

lemma new_Date_range:
  assumes "new_Date env v = Some t"
  shows "\<bar>t\<bar> \<le> 8640000000000000"
proof (cases v)
  case (JNum r)
  with assms show ?thesis by (simp add: TimeClip_range)
next
  case (JStr s)
  with assms obtain u where "TimeClip (of_int u) = Some t"
    by (cases "Date_parse env s") simp_all
  then show ?thesis by (rule TimeClip_range)
next
  case (JBool b)
  with assms show ?thesis by (cases b) auto
qed (use assms in simp_all)

lemma date_minus_clear:
  assumes "earliest_Date + k \<le> m" and "0 \<le> k" and "m \<le> 8640000000000000"
  shows "date_minus (Some m) k = instant_minus (Some m) k"
proof -
  have "\<not> \<bar>m - k\<bar> > 8640000000000000"
    using assms by (simp add: earliest_Date_def)
  then have "TimeClip (of_int (m - k)) = Some (m - k)"
    unfolding TimeClip_of_int by (rule if_not_P)
  then show ?thesis
    unfolding date_minus_def instant_minus_def by (simp only: option.case option.map)
qed

lemma startDate_clear:
  assumes "earliest_Date + 30 * 24 * 60 * 60 * 1000 \<le> m" and "m \<le> 8640000000000000"
  shows "startDate rng (Some m) = startDate_ms rng (Some m)"
proof -
  have "date_minus (Some m) (24 * 60 * 60 * 1000) = instant_minus (Some m) (24 * 60 * 60 * 1000)"
    using assms by (intro date_minus_clear) simp_all
  moreover
  have "date_minus (Some m) (7 * 24 * 60 * 60 * 1000) = instant_minus (Some m) (7 * 24 * 60 * 60 * 1000)"
    using assms by (intro date_minus_clear) simp_all
  moreover
  have "date_minus (Some m) (30 * 24 * 60 * 60 * 1000) = instant_minus (Some m) (30 * 24 * 60 * 60 * 1000)"
    using assms by (intro date_minus_clear) simp_all
  ultimately show ?thesis
    unfolding startDate_def startDate_ms_def by (simp only:)
qed

lemma startDate_None: "startDate rng None = startDate_ms rng None"
  by (simp add: startDate_def startDate_ms_def date_minus_def instant_minus_def)

lemma clear_of_limit_mem:
  assumes "clear_of_limit env ds" and "d \<in> set ds" and "started env d = Some m"
  shows "earliest_Date + 30 * 24 * 60 * 60 * 1000 \<le> m"
proof -
  from assms(1,2) have "case started env d of None \<Rightarrow> True
      | Some t \<Rightarrow> earliest_Date + 30 * 24 * 60 * 60 * 1000 \<le> t"
    unfolding clear_of_limit_def list_all_iff by (rule bspec)
  then show ?thesis unfolding assms(3) by (simp only: option.case)
qed

lemma startDate_max:
  assumes "clear_of_limit env ds"
  shows "startDate rng (max_date (map (started env) ds)) =
         startDate_ms rng (max_date (map (started env) ds))"
proof (cases "max_date (map (started env) ds)")
  case None
  show ?thesis unfolding None by (rule startDate_None)
next
  case (Some m)
  then have "Some m \<in> set (map (started env) ds)" by (rule max_date_Some_mem)
  then obtain d where d: "d \<in> set ds" "started env d = Some m" by auto
  have "earliest_Date + 30 * 24 * 60 * 60 * 1000 \<le> m"
    using assms d by (rule clear_of_limit_mem)
  moreover have "\<bar>m\<bar> \<le> 8640000000000000"
    using d(2) unfolding started_def by (rule new_Date_range)
  then have "m \<le> 8640000000000000" by simp
  ultimately show ?thesis unfolding Some by (rule startDate_clear)
qed

lemma clear_of_limit_filter: "clear_of_limit env ds \<Longrightarrow> clear_of_limit env (filter P ds)"
  by (simp add: clear_of_limit_def list_all_iff)

lemma applyFilters_idempotent:
  assumes "clear_of_limit env ds"
  shows "filtered_view env (filtered_view env ds dev loc rng) dev loc rng = filtered_view env ds dev loc rng"
proof -
  let ?P = "\<lambda>d. (dev \<noteq> ''all'' \<longrightarrow> get (raw d) ''device_id'' = JStr dev) \<and>
                 (loc \<noteq> ''all'' \<longrightarrow> get (raw d) ''location'' = JStr loc)"
  let ?F = "filtered_view env ds dev loc rng"
  have F: "?F = filter (\<lambda>d. date_ge (started env d) (startDate_ms rng (max_date (map (started env) ds))))
                 (filter ?P ds)"
    unfolding filtered_view_eq startDate_max [OF assms] ..
  have "clear_of_limit env ?F"
    unfolding filtered_view_eq using assms by (intro clear_of_limit_filter)
  then have FF: "filtered_view env ?F dev loc rng =
      filter (\<lambda>d. date_ge (started env d) (startDate_ms rng (max_date (map (started env) ?F))))
        (filter ?P ?F)"
    by (subst filtered_view_eq) (simp only: startDate_max)
  have "filter (\<lambda>d. date_ge (started env d) (startDate_ms rng (max_date (map (started env) ?F))))
          (filter ?P ?F) = ?F"
    by (rule refilter [where g = "startDate_ms rng" and f = "started env" and P = ?P and D = ds])
       (rule window_fun_startDate_ms, rule F)
  with FF show ?thesis by (rule trans)
qed

lemma applyFilters_D_idempotent:
  assumes "clear_of_limit env ds"
  shows "filtered_view_D env (filtered_view_D env ds dev rng) dev rng = filtered_view_D env ds dev rng"
proof -
  let ?P = "\<lambda>d. dev \<noteq> ''all'' \<longrightarrow> get (raw d) ''device_id'' = JStr dev"
  let ?F = "filtered_view_D env ds dev rng"
  have F: "?F = filter (\<lambda>d. date_ge (started env d) (startDate_ms rng (max_date (map (started env) ds))))
                 (filter ?P ds)"
    unfolding filtered_view_D_eq startDate_max [OF assms] ..
  have "clear_of_limit env ?F"
    unfolding filtered_view_D_eq using assms by (intro clear_of_limit_filter)
  then have FF: "filtered_view_D env ?F dev rng =
      filter (\<lambda>d. date_ge (started env d) (startDate_ms rng (max_date (map (started env) ?F))))
        (filter ?P ?F)"
    by (subst filtered_view_D_eq) (simp only: startDate_max)
  have "filter (\<lambda>d. date_ge (started env d) (startDate_ms rng (max_date (map (started env) ?F))))
          (filter ?P ?F) = ?F"
    by (rule refilter [where g = "startDate_ms rng" and f = "started env" and P = ?P and D = ds])
       (rule window_fun_startDate_ms, rule F)
  with FF show ?thesis by (rule trans)
qed

lemma instant_ge_date_ge: "instant_ge = date_ge"
  by (intro ext) (simp add: date_ge_iff instant_ge_iff)

lemma DataProcessor_applyFilters_eq:
  "DataProcessor_applyFilters env ds dr tr =
     (if tr = ''all'' then filter (in_dateRange env dr) ds
      else filter (\<lambda>d. date_ge (timestamp d)
                     (cutoff tr (max_date (map timestamp (filter (in_dateRange env dr) ds)))))
             (filter (in_dateRange env dr) ds))"
proof -
  have 1: "(if dr_start dr \<noteq> [] \<and> dr_end dr \<noteq> []
            then filter (\<lambda>d. instant_ge (timestamp d) (new_Date env (JStr (dr_start dr))) \<and>
                              instant_ge (new_Date env (JStr (dr_end dr))) (timestamp d)) ds
            else ds) = filter (in_dateRange env dr) ds"
    unfolding if_filter in_dateRange_def ..
  have 2: "DataProcessor_applyFilters env ds dr tr =
     (if tr \<noteq> ''all'' \<and> filter (in_dateRange env dr) ds \<noteq> []
      then filter (\<lambda>d. instant_ge (timestamp d)
                     (cutoff tr (max_date (map timestamp (filter (in_dateRange env dr) ds)))))
             (filter (in_dateRange env dr) ds)
      else filter (in_dateRange env dr) ds)"
    unfolding DataProcessor_applyFilters_def Let_def 1 ..
  show ?thesis
  proof (cases "filter (in_dateRange env dr) ds = []")
    case True
    then show ?thesis
      by (simp only: 2 True filter.simps if_False simp_thms if_cancel)
  next
    case False
    show ?thesis
      unfolding 2 instant_ge_date_ge using False by (cases "tr = ''all''") simp_all
  qed
qed

lemma DataProcessor_applyFilters_idempotent:
  "DataProcessor_applyFilters env (DataProcessor_applyFilters env ds dr tr) dr tr =
   DataProcessor_applyFilters env ds dr tr"
proof -
  define F1 where "F1 = filter (in_dateRange env dr) ds"
  define F where "F = DataProcessor_applyFilters env ds dr tr"
  have F: "F = (if tr = ''all'' then F1
               else filter (\<lambda>d. date_ge (timestamp d) (cutoff tr (max_date (map timestamp F1)))) F1)"
    unfolding F_def F1_def by (rule DataProcessor_applyFilters_eq)
  have "\<forall>d\<in>set F. in_dateRange env dr d"
    using F by (auto simp: F1_def)
  then have FR: "filter (in_dateRange env dr) F = F"
    by (rule filter_all)
  have "DataProcessor_applyFilters env F dr tr =
        (if tr = ''all'' then F
         else filter (\<lambda>d. date_ge (timestamp d) (cutoff tr (max_date (map timestamp F)))) F)"
    unfolding DataProcessor_applyFilters_eq FR ..
  also have "\<dots> = F"
  proof (cases "tr = ''all''")
    case True
    then show ?thesis by simp
  next
    case False
    have "F = filter (\<lambda>d. date_ge (timestamp d) (cutoff tr (max_date (map timestamp F1)))) (filter (\<lambda>d. True) F1)"
      using F False by simp
    from refilter [where g = "cutoff tr" and f = timestamp and P = "\<lambda>d. True" and D = F1 and F = F,
          OF window_fun_cutoff this]
    show ?thesis using False by simp
  qed
  finally show ?thesis unfolding F_def .
qed


lemma max_date_Max:
  "xs \<noteq> [] \<Longrightarrow> \<forall>x\<in>set xs. x \<noteq> None \<Longrightarrow> max_date xs = Some (Max (the ` set xs))"
proof (induction xs rule: max_date.induct)
  case 1
  then show ?case by simp
next
  case (2 d)
  then show ?case by auto
next
  case (3 d v va)
  then obtain a where a: "d = Some a" by auto
  from 3 have "max_date (v # va) = Some (Max (the ` set (v # va)))" by simp
  then show ?case
    by (simp add: a)
qed

lemma startDate_spec:
  assumes "earliest_Date + 30 * 24 * 60 * 60 * 1000 \<le> m" and "m \<le> 8640000000000000"
  shows "date_ge (Some t) (startDate rng (Some m)) \<longleftrightarrow> spec_windowStart rng m \<le> t"
  unfolding startDate_clear [OF assms]
  by (simp add: startDate_ms_def spec_windowStart_def instant_minus_def)

lemma wide_window_spec:
  assumes "ds \<noteq> []" and "\<forall>d\<in>set ds. started env d \<noteq> None" and "clear_of_limit env ds"
  shows "filter (\<lambda>d. date_ge (started env d) (startDate rng (max_date (map (started env) ds)))) (filter P ds) =
         spec_timeWindow (started env) ds (filter P ds) rng"
proof -
  let ?m = "Max (the ` started env ` set ds)"
  have m: "max_date (map (started env) ds) = Some ?m"
    using max_date_Max [of "map (started env) ds"] assms(1,2) by (simp add: image_image)
  then have "Some ?m \<in> set (map (started env) ds)" by (rule max_date_Some_mem)
  then obtain d0 where d0: "d0 \<in> set ds" "started env d0 = Some ?m" by auto
  have lo: "earliest_Date + 30 * 24 * 60 * 60 * 1000 \<le> ?m"
    using assms(3) d0 by (rule clear_of_limit_mem)
  have "\<bar>?m\<bar> \<le> 8640000000000000"
    using d0(2) unfolding started_def by (rule new_Date_range)
  then have hi: "?m \<le> 8640000000000000" by simp
  have "date_ge (started env d) (startDate rng (Some ?m)) \<longleftrightarrow>
        spec_windowStart rng ?m \<le> the (started env d)" if "d \<in> set ds" for d
  proof -
    from that assms(2) obtain t where "started env d = Some t" by auto
    then show ?thesis by (simp add: startDate_spec [OF lo hi])
  qed
  then show ?thesis
    unfolding spec_timeWindow_def m by (intro filter_cong refl) simp
qed

lemma device_location_pass_all:
  "device_location_pass dev ''all'' = (\<lambda>d. dev \<noteq> ''all'' \<longrightarrow> get (raw d) ''device_id'' = JStr dev)"
  by (intro ext) (simp add: device_location_pass_def)

lemmas sample_eval = week_cycles_def week_rows_def wide_row_def mk_cycle_def utc_def sample_dates_def
  get_def started_def getHours_def getDay_def day_points_def sample_point_def no_dateRange_def
  TimeClip_eval

lemma week_started:
  "map (started utc) week_cycles = [Some 1704067200000, Some 1704283200000, Some 1704596400000]"
  by (simp add: sample_eval)

lemma week_cycles_ne: "week_cycles \<noteq> []"
  by (simp add: week_cycles_def week_rows_def)

lemma week_valid: "\<forall>d\<in>set week_cycles. started utc d \<noteq> None"
  using week_started by (metis (no_types, lifting) imageI list.set_map option.distinct(1) set_ConsD empty_iff list.set(1) image_set)



section \<open>Evaluating the printing functions\<close>

lemma floor_rat_numeral_div [simp]: "\<lfloor>(numeral a :: rat) / numeral b\<rfloor> = numeral a div numeral b"
  using floor_divide_of_int_eq [of "numeral a" "numeral b", where ?'a = rat] by simp

lemma floor_rat_one_div [simp]: "\<lfloor>(1 :: rat) / numeral b\<rfloor> = 1 div numeral b"
  using floor_divide_of_int_eq [of 1 "numeral b", where ?'a = rat] by simp

lemma floor_rat_neg_numeral_div [simp]:
  "\<lfloor>- ((numeral a :: rat) / numeral b)\<rfloor> = - numeral a div numeral b"
  using floor_divide_of_int_eq [of "- numeral a" "numeral b", where ?'a = rat] by simp

lemma digits_of_small: "n < 10 \<Longrightarrow> digits_of n = [digit_char n]"
  by (simp add: digits_of.simps)

lemma digits_of_big: "\<not> n < 10 \<Longrightarrow> digits_of n = digits_of (n div 10) @ [digit_char n]"
  by (subst digits_of.simps) simp

lemma frac_digits_stop: "k = 0 \<or> r = 0 \<Longrightarrow> frac_digits k r = []"
  by (subst frac_digits.simps) simp

lemma frac_digits_step:
  "k \<noteq> 0 \<Longrightarrow> r \<noteq> 0 \<Longrightarrow>
   frac_digits k r = digit_char (nat \<lfloor>r * 10\<rfloor>) # frac_digits (k - 1) (r * 10 - of_int \<lfloor>r * 10\<rfloor>)"
  by (subst frac_digits.simps) simp

lemmas print_eval = digits_of_small digits_of_big frac_digits_stop frac_digits_step digit_char_def
  toFixed_def pad_left_def js_numstr_def Let_def

section \<open>Uploads\<close>

lemma missing_columns:
  assumes "rows \<noteq> []" and "''cycle_duration_ms'' \<notin> set (Object_keys (hd rows))"
  shows "processRows env rows = Inl (Error (''Missing required columns: '' @
           join '', '' (filter (\<lambda>col. col \<notin> set (Object_keys (hd rows))) requiredColumns))) \<and>
         ''cycle_duration_ms'' \<in> set (filter (\<lambda>col. col \<notin> set (Object_keys (hd rows))) requiredColumns)"
  using assms by (simp add: processRows_def Let_def requiredColumns_def)


section \<open>The fleet KPIs of the round-trip scenario\<close>

lemmas wide_eval = m1_cycles_def m1_rows_def m1_energy_cycles_def m1_energy_rows_def wide_row_def
  mk_cycle_def utc_def sample_dates_def get_def started_def getHours_def getDay_def TimeClip_eval
  totalRuntime_def sum_numbers_def hoursInWindow_def utilizationRate_def uniqueDevices_def
  of_date_def errorCount_def anomalyCount_def column_def percent_of_def
  sumBy_def meanBy_def js_add_def js_or_def

lemma m1_processed: "processRows utc m1_rows = Inr m1_cycles"
  by (simp add: processRows_def requiredColumns_def Object_keys_def Let_def wide_eval)

lemma m1_processed_D: "processRows_D utc m1_rows = Inr m1_cycles"
  by (simp add: processRows_D_def wide_eval)

lemma m1_totalRuntime: "totalRuntime m1_cycles = Some 3"
  by (simp add: wide_eval)

lemma m1_hours: "hoursInWindow utc m1_cycles = Some 1"
  by (simp add: wide_eval Let_def)

lemma m1_utilization: "utilizationRate utc m1_cycles = Some 300"
  by (simp add: utilizationRate_def m1_totalRuntime m1_hours) (simp add: wide_eval)

lemma m1_energy: "sumBy (column ''energy_active_kwh'' m1_cycles) = JUndefined"
  by (simp add: wide_eval)

lemma m1_kpis: "kpis utc m1_cycles = Inl (TypeError ''toFixed'')"
proof -
  have "m1_cycles \<noteq> []" by (simp add: m1_cycles_def m1_rows_def)
  then show ?thesis
    by (simp add: kpis_def Let_def m1_energy)
qed

lemma m1_fleetMetrics: "fleetMetrics utc m1_cycles = Inl (TypeError ''toFixed'')"
proof -
  have "m1_cycles \<noteq> []" by (simp add: m1_cycles_def m1_rows_def)
  then show ?thesis
    by (simp add: fleetMetrics_def Let_def m1_energy)
qed

lemma m1e_totalRuntime: "totalRuntime m1_energy_cycles = Some 3"
  by (simp add: wide_eval)

lemma m1e_hours: "hoursInWindow utc m1_energy_cycles = Some 1"
  by (simp add: wide_eval Let_def)

lemma m1e_utilization: "utilizationRate utc m1_energy_cycles = Some 300"
  by (simp add: utilizationRate_def m1e_totalRuntime m1e_hours) (simp add: wide_eval)

lemma m1e_energy: "sumBy (column ''energy_active_kwh'' m1_energy_cycles) = JNum 5"
  by (simp add: wide_eval)

lemma m1e_kpis:
  "\<exists>k. kpis utc m1_energy_cycles = Inr (Some k) \<and> k_totalRuntime k = ''3.0'' \<and>
        k_totalCycles k = 2 \<and> k_utilizationRate k = ''100.0''"
proof -
  have ne: "m1_energy_cycles \<noteq> []" and len: "length m1_energy_cycles = 2"
    by (simp_all add: m1_energy_cycles_def m1_energy_rows_def m1_rows_def)
  have t: "toFixed (Suc 0) (Some 3) = ''3.0''" "toFixed (Suc 0) (Some 100) = ''100.0''"
    by (simp_all add: print_eval)
  show ?thesis
    using ne by (simp add: kpis_def Let_def m1e_energy m1e_totalRuntime m1e_utilization t len)
qed


section \<open>The long-shape metrics at sample inputs\<close>

lemmas long_eval = close_cycles_def sample_point_def sample_dates_def col_def jv_def fld_def
  sumBy_def meanBy_def js_add_def js_or_def span_ms_def num_def or0_def nor0_def count_def
  cycles_of_def five_cycles_def

lemma close_runtime: "fleet_totalRuntime close_cycles = Some (1 / 180)"
  by (simp add: fleet_totalRuntime_def long_eval)

lemma close_window: "fleet_timeWindowHours close_cycles = Some (1 / 360)"
  by (simp add: fleet_timeWindowHours_def long_eval)

lemma close_utilization: "fleet_utilizationRate close_cycles = Some 200"
  by (simp add: fleet_utilizationRate_def close_runtime close_window)

lemma toFixed_200: "toFixed (Suc 0) (Some 200) = ''200.0''"
  by (simp add: print_eval)

lemma str_lt_ex: "str_lt ''10'' ''9''" "str_lt ''100'' ''9''" "str_lt ''10'' ''100''" "\<not> str_lt ''9'' ''10''"
  by simp_all

lemma numstr_ex: "js_numstr 9 = ''9''" "js_numstr 10 = ''10''" "js_numstr 100 = ''100''" "js_numstr 20 = ''20''"
  by (simp_all add: print_eval)

lemma sort_ex: "plain_sort [9, 10, 100] = [10, 100, 9]"
  by (simp add: plain_sort_def sort_by_def numstr_ex)

lemma sort_five: "plain_sort [10, 10, 10, 10, 20] = [10, 10, 10, 10, 20]"
  by (simp add: plain_sort_def sort_by_def numstr_ex)

lemma three_baseline_of: "baseline_of [9, 10, 100] = 100"
  by (simp add: baseline_of_def sort_ex)

lemma three_spec_baseline: "spec_baseline [9, 10, 100] = 10"
  by (simp add: spec_baseline_def)


lemma fixed_ex: "fixed 2 0 = 0" "fixed 2 100 = 100" "fixed 2 10 = 10" "fixed 2 20 = 20"
  by (simp_all add: fixed_def)

lemma five_baseline: "baseline_of [10, 10, 10, 10, 20] = 10"
  by (simp add: baseline_of_def sort_five)

lemma five_metrics:
  "baseline (calculateCycleMetrics five_cycles) = 10 \<and>
   map isDrifting (trends (calculateCycleMetrics five_cycles)) = [False, False, False, False, True] \<and>
   map tr_drift (trends (calculateCycleMetrics five_cycles)) = [0, 0, 0, 0, 100]"
proof -
  have d: "durations_of five_cycles = [10, 10, 10, 10, 20]"
    by (simp add: durations_of_def long_eval)
  have e: "enumerate 0 five_cycles = zip [0, 1, 2, 3, 4] five_cycles"
    by (simp add: five_cycles_def cycles_of_def enumerate_eq_zip upt_rec)
  have n: "five_cycles \<noteq> []" by (simp add: five_cycles_def cycles_of_def)
  show ?thesis
    using n
    by (simp add: calculateCycleMetrics_def Let_def d five_baseline)
       (simp add: e mk_trend_def drift_of_def fixed_ex long_eval)
qed

lemma three_metrics:
  "baseline (calculateCycleMetrics (cycles_of [9, 10, 100])) = 100 \<and>
   map isDrifting (trends (calculateCycleMetrics (cycles_of [9, 10, 100]))) = [True, True, False]"
proof -
  have d: "durations_of (cycles_of [9, 10, 100]) = [9, 10, 100]"
    by (simp add: durations_of_def long_eval)
  have b: "baseline_of [9, 10, 100] = 100"
    by (simp add: baseline_of_def sort_ex)
  have e: "enumerate 0 (cycles_of [9, 10, 100]) = zip [0, 1, 2] (cycles_of [9, 10, 100])"
    by (simp add: cycles_of_def enumerate_eq_zip upt_rec)
  have n: "cycles_of [9, 10, 100] \<noteq> []" by (simp add: cycles_of_def)
  show ?thesis
    using n
    by (simp add: calculateCycleMetrics_def Let_def d b)
       (simp add: e mk_trend_def drift_of_def long_eval)
qed

lemma spec_flags:
  "map (\<lambda>d. \<bar>(d - spec_baseline [9, 10, 100]) / spec_baseline [9, 10, 100] * 100\<bar> > 10) [9, 10, 100] =
     [False, False, True]"
  by (simp add: spec_baseline_def)

lemma numstr_ms: "js_numstr 9000 = ''9000''" "js_numstr 10000 = ''10000''" "js_numstr 100000 = ''100000''"
  by (simp_all add: print_eval)

lemma three_baseline: "baselineCycleTime three_cycles = JNum 100000"
  by (simp add: baselineCycleTime_def js_plain_sort_def sort_by_def column_def three_cycles_def
        mk_cycle_def wide_row_def get_def numstr_ms Let_def)


section \<open>The filters at sample datasets\<close>

lemma started_mk_cycle: "started env (mk_cycle env r) = new_Date env (get r ''cycle_started_at'')"
  by (simp add: started_def mk_cycle_def)

lemma raw_mk_cycle: "raw (mk_cycle env r) = r"
  by (simp add: mk_cycle_def)

lemma limit_first:
  "filtered_view utc limit_cycles ''M2'' ''all'' ''24h'' = drop 1 limit_cycles"
  unfolding filtered_view_eq
  by (simp add: limit_cycles_def limit_rows_def started_mk_cycle raw_mk_cycle get_def startDate_def
      date_minus_def TimeClip_eval)

lemma limit_second:
  "filtered_view utc (drop 1 limit_cycles) ''M2'' ''all'' ''24h'' = []"
  unfolding filtered_view_eq
  by (simp add: limit_cycles_def limit_rows_def started_mk_cycle raw_mk_cycle get_def startDate_def
      date_minus_def TimeClip_eval)

lemma limit_first_D:
  "filtered_view_D utc limit_cycles ''M2'' ''24h'' = drop 1 limit_cycles"
  unfolding filtered_view_D_eq
  by (simp add: limit_cycles_def limit_rows_def started_mk_cycle raw_mk_cycle get_def startDate_def
      date_minus_def TimeClip_eval)

lemma limit_second_D:
  "filtered_view_D utc (drop 1 limit_cycles) ''M2'' ''24h'' = []"
  unfolding filtered_view_D_eq
  by (simp add: limit_cycles_def limit_rows_def started_mk_cycle raw_mk_cycle get_def startDate_def
      date_minus_def TimeClip_eval)

lemma week_clear: "clear_of_limit utc week_cycles"
  unfolding clear_of_limit_def list_all_iff
proof
  fix d assume "d \<in> set week_cycles"
  then have "started utc d \<in> set (map (started utc) week_cycles)" by simp
  then have "started utc d \<in> {Some 1704067200000, Some 1704283200000, Some 1704596400000}"
    unfolding week_started by simp
  then show "case started utc d of None \<Rightarrow> True
      | Some t \<Rightarrow> earliest_Date + 30 * 24 * 60 * 60 * 1000 \<le> t"
    by (auto simp: earliest_Date_def)
qed


section \<open>The windows of the long-shape filter\<close>

lemma cutoff_1h: "cutoff ''1h'' now = instant_minus now (60 * 60 * 1000)"
  by (simp add: cutoff_def)

lemma cutoff_3h: "cutoff ''3h'' now = instant_minus now (3 * 60 * 60 * 1000)"
  by (simp add: cutoff_def)

lemma cutoff_6h: "cutoff ''6h'' now = instant_minus now (6 * 60 * 60 * 1000)"
  by (simp add: cutoff_def)

lemma cutoff_12h: "cutoff ''12h'' now = instant_minus now (12 * 60 * 60 * 1000)"
  by (simp add: cutoff_def)

lemma long_all: "DataProcessor_applyFilters env ps dr ''all'' = filter (in_dateRange env dr) ps"
  unfolding DataProcessor_applyFilters_eq by (rule if_P) (rule refl)

lemma long_window:
  assumes valid: "\<forall>p\<in>set ps. timestamp p \<noteq> None"
    and tr: "tr \<noteq> ''all''"
    and c: "\<And>now. cutoff tr now = instant_minus now k"
  shows "DataProcessor_applyFilters env ps dr tr =
         kept_since timestamp (latest timestamp (filter (in_dateRange env dr) ps) - k)
           (filter (in_dateRange env dr) ps)"
proof -
  define W where "W = filter (in_dateRange env dr) ps"
  have eq: "DataProcessor_applyFilters env ps dr tr =
            filter (\<lambda>d. date_ge (timestamp d) (cutoff tr (max_date (map timestamp W)))) W"
    unfolding DataProcessor_applyFilters_eq W_def using tr by (rule if_not_P)
  show ?thesis
  proof (cases "W = []")
    case True
    then show ?thesis
      unfolding eq W_def [symmetric] kept_since_def by simp
  next
    case False
    have v: "\<forall>x\<in>set (map timestamp W). x \<noteq> None"
      using valid by (auto simp: W_def)
    have "max_date (map timestamp W) = Some (Max (the ` set (map timestamp W)))"
      using False v by (intro max_date_Max) simp_all
    then have m: "max_date (map timestamp W) = Some (latest timestamp W)"
      by (simp add: latest_def image_image)
    have "date_ge (timestamp d) (cutoff tr (Some (latest timestamp W))) \<longleftrightarrow>
          latest timestamp W - k \<le> the (timestamp d)" if "d \<in> set W" for d
    proof -
      from that valid obtain t where "timestamp d = Some t" by (auto simp: W_def)
      then show ?thesis by (simp add: c instant_minus_def)
    qed
    then show ?thesis
      unfolding eq m kept_since_def W_def [symmetric] by (intro filter_cong refl) simp
  qed
qed

lemma range_valid: "\<forall>p\<in>set range_points. timestamp p \<noteq> None"
  by (simp add: range_points_def sample_point_def sample_dates_def)

lemma range_12h:
  "DataProcessor_applyFilters utc range_points first_days ''12h'' = take 1 (drop 1 range_points)"
  by (simp add: DataProcessor_applyFilters_eq in_dateRange_def range_points_def first_days_def
      sample_point_def utc_def sample_dates_def cutoff_def instant_minus_def TimeClip_eval)

lemma range_working:
  "filter (in_dateRange utc first_days) range_points = take 2 range_points"
  by (simp add: in_dateRange_def range_points_def first_days_def
      sample_point_def utc_def sample_dates_def TimeClip_eval)

lemma week_M2_24h: "filtered_view utc week_cycles ''M2'' ''all'' ''24h'' = []"
  unfolding filtered_view_eq
  by (simp add: sample_eval startDate_def date_minus_def)

lemma week_M2_24h_D: "filtered_view_D utc week_cycles ''M2'' ''24h'' = []"
  unfolding filtered_view_D_eq
  by (simp add: sample_eval startDate_def date_minus_def)

lemma old_all: "DataProcessor_applyFilters utc old_points no_dateRange ''all'' = old_points"
  by (simp add: long_all in_dateRange_def no_dateRange_def)

lemma old_spec: "spec_timeWindow timestamp old_points old_points ''all'' = drop 1 old_points"
  by (simp add: spec_timeWindow_def spec_windowStart_def old_points_def sample_point_def sample_dates_def)

lemma range_latest: "latest timestamp range_points = 1704596400000"
  by (simp add: latest_def range_points_def sample_point_def sample_dates_def)

lemma range_claim:
  "kept_since timestamp (latest timestamp range_points - 12 * 60 * 60 * 1000)
     (filter (in_dateRange utc first_days) range_points) = []"
  unfolding range_latest range_working
  by (simp add: kept_since_def range_points_def sample_point_def sample_dates_def)


section \<open>Uploads at sample rows\<close>

lemma m1e_processed: "processRows utc m1_energy_rows = Inr m1_energy_cycles"
  by (simp add: processRows_def requiredColumns_def Object_keys_def Let_def wide_eval)

lemma m1e_loaded:
  "processCSVData utc m1_energy_rows (loaded [] ''all'' ''all'' ''7d'') =
   loaded m1_energy_cycles ''all'' ''all'' ''7d''"
  by (simp add: processCSVData_def m1e_processed loaded_def)

lemma m1e_shown: "\<not> isl (kpis utc m1_energy_cycles)"
  using m1e_kpis by auto

lemma short_missing:
  "filter (\<lambda>col. col \<notin> set (Object_keys (hd short_rows))) requiredColumns = [''cycle_duration_ms'']"
  by (simp add: short_rows_def Object_keys_def requiredColumns_def)

lemma short_hyps: "short_rows \<noteq> []" "''cycle_duration_ms'' \<notin> set (Object_keys (hd short_rows))"
  by (simp_all add: short_rows_def Object_keys_def)


section \<open>The device on display\<close>









section \<open>Grouping and pivoting\<close>

lemma group_insert_keys:
  "map fst (group_insert k x g) = (if k \<in> set (map fst g) then map fst g else map fst g @ [k])"
  by (induction g) auto

lemma group_insert_distinct:
  "distinct (map fst g) \<Longrightarrow> distinct (map fst (group_insert k x g))"
  by (simp add: group_insert_keys)

lemma group_insert_map_of:
  "map_of (group_insert k x g) k' =
     (if k' = k then Some ((case map_of g k of None \<Rightarrow> [] | Some xs \<Rightarrow> xs) @ [x]) else map_of g k')"
  by (induction g) auto

lemma groups_snoc:
  "foldl (\<lambda>g x. group_insert (f x) x g) [] (xs @ [x]) =
   group_insert (f x) x (foldl (\<lambda>g x. group_insert (f x) x g) [] xs)"
  by simp

lemma groups_distinct: "distinct (map fst (foldl (\<lambda>g x. group_insert (f x) x g) [] xs))"
proof (induction xs rule: rev_induct)
  case Nil
  then show ?case by simp
next
  case (snoc x xs)
  then show ?case unfolding groups_snoc by (rule group_insert_distinct)
qed

lemma groups_map_of:
  "map_of (foldl (\<lambda>g x. group_insert (f x) x g) [] xs) k =
     (if filter (\<lambda>x. f x = k) xs = [] then None else Some (filter (\<lambda>x. f x = k) xs))"
proof (induction xs arbitrary: k rule: rev_induct)
  case Nil
  then show ?case by simp
next
  case (snoc x xs)
  show ?case unfolding groups_snoc group_insert_map_of snoc by simp
qed

lemma own_property_order_set: "set (own_property_order ps) = set ps"
  by (auto simp: own_property_order_def)

lemma own_property_order_distinct:
  assumes "distinct (map fst ps)"
  shows "distinct (map fst (own_property_order ps))"
proof -
  let ?A = "sort_key (\<lambda>p. parse_nat (fst p)) (filter (\<lambda>p. is_array_index (fst p)) ps)"
  let ?B = "filter (\<lambda>p. \<not> is_array_index (fst p)) ps"
  have d: "distinct ps" using assms by (simp add: distinct_map)
  have inj: "inj_on fst (set ps)" using assms by (simp add: distinct_map)
  have "distinct ?A" using d by simp
  moreover have "inj_on fst (set ?A)" using inj by (auto intro: inj_on_subset)
  ultimately have A: "distinct (map fst ?A)" by (simp add: distinct_map)
  have B: "distinct (map fst ?B)" using assms by (rule distinct_map_filter)
  have "set (map fst ?A) \<inter> set (map fst ?B) = {}" by auto
  with A B show ?thesis by (simp add: own_property_order_def)
qed

lemma own_property_order_map_of:
  assumes "distinct (map fst ps)"
  shows "map_of (own_property_order ps) = map_of ps"
  using own_property_order_distinct [OF assms] assms own_property_order_set
  by (simp add: map_of_inject_set)

lemma groupBy_distinct: "distinct (map fst (groupBy f xs))"
  unfolding groupBy_def by (intro own_property_order_distinct groups_distinct)

lemma groupBy_map_of:
  "map_of (groupBy f xs) k =
     (if filter (\<lambda>x. f x = k) xs = [] then None else Some (filter (\<lambda>x. f x = k) xs))"
  unfolding groupBy_def own_property_order_map_of [OF groups_distinct] by (rule groups_map_of)

lemma groupBy_mem:
  assumes "x \<in> set xs"
  shows "(f x, filter (\<lambda>y. f y = f x) xs) \<in> set (groupBy f xs)"
proof -
  have "filter (\<lambda>y. f y = f x) xs \<noteq> []" using assms by (auto simp: filter_empty_conv)
  then have "map_of (groupBy f xs) (f x) = Some (filter (\<lambda>y. f y = f x) xs)"
    by (simp add: groupBy_map_of)
  then show ?thesis by (rule map_of_SomeD)
qed

lemma groupBy_one:
  assumes "x \<in> set xs"
  shows "filter (\<lambda>g. fst g = f x) (groupBy f xs) = [(f x, filter (\<lambda>y. f y = f x) xs)]"
proof -
  let ?g = "(f x, filter (\<lambda>y. f y = f x) xs)"
  have d: "distinct (map fst (groupBy f xs))" by (rule groupBy_distinct)
  have m: "?g \<in> set (groupBy f xs)" using assms by (rule groupBy_mem)
  have "\<And>ps. distinct (map fst ps) \<Longrightarrow> (k, v) \<in> set ps \<Longrightarrow> filter (\<lambda>g. fst g = k) ps = [(k, v)]" for k :: string and v :: "'a list"
  proof -
    fix ps :: "(string \<times> 'a list) list"
    show "distinct (map fst ps) \<Longrightarrow> (k, v) \<in> set ps \<Longrightarrow> filter (\<lambda>g. fst g = k) ps = [(k, v)]"
    proof (induction ps)
      case Nil
      then show ?case by simp
    next
      case (Cons p ps)
      show ?case
      proof (cases "fst p = k")
        case True
        with Cons.prems have "p = (k, v)" by (cases p) (auto simp: image_iff)
        moreover have "filter (\<lambda>g. fst g = k) ps = []"
          using Cons.prems(1) True by (auto simp: filter_empty_conv image_iff)
        ultimately show ?thesis by simp
      next
        case False
        with Cons show ?thesis by auto
      qed
    qed
  qed
  from this [OF d m] show ?thesis .
qed







lemma map_fst_map_values: "map fst (map (\<lambda>(k, v). (k, g k v)) ps) = map fst ps"
  by (induction ps) auto


lemma pivot_distinct: "distinct (map fst (pivotLongToWide env rows))"
  unfolding pivotLongToWide_def
  by (intro own_property_order_distinct)
     (simp only: map_fst_map_values [where g = "mk_device env"] groupBy_distinct)













section \<open>The utilization heatmaps\<close>

lemma nadd_assoc: "nadd (nadd a b) c = nadd a (nadd b c)"
  by (cases a; cases b; cases c) simp_all

lemma nadd_commute: "nadd a b = nadd b a"
  by (cases a; cases b) simp_all

lemma foldl_nadd_shift: "foldl nadd (nadd a v) xs = nadd (foldl nadd a xs) v"
proof (induction xs arbitrary: a)
  case Nil
  then show ?case by simp
next
  case (Cons x xs)
  have "nadd (nadd a v) x = nadd (nadd a x) v"
    by (cases a; cases v; cases x) simp_all
  then show ?case by (simp add: Cons)
qed

lemma update_keys_mem:
  "k \<in> set (map fst hm) \<Longrightarrow> map fst (AList.update k v hm) = map fst hm"
  by (simp add: update_keys)

lemma update_sum:
  assumes "k \<in> set (map fst hm)"
  shows "foldl nadd a (map snd (AList.update k (nadd (read_cell hm k) v) hm)) =
         nadd (foldl nadd a (map snd hm)) v"
  using assms
proof (induction hm arbitrary: a)
  case Nil
  then show ?case by simp
next
  case (Cons p hm)
  obtain k' x where p: "p = (k', x)" by (cases p)
  show ?case
  proof (cases "k' = k")
    case True
    have "foldl nadd (nadd a (nadd x v)) (map snd hm) = foldl nadd (nadd (nadd a x) v) (map snd hm)"
      by (simp only: nadd_assoc)
    also have "\<dots> = nadd (foldl nadd (nadd a x) (map snd hm)) v"
      by (rule foldl_nadd_shift)
    finally show ?thesis
      using True by (simp add: p read_cell_def)
  next
    case False
    with Cons.prems have "k \<in> set (map fst hm)" by (simp add: p)
    then have "foldl nadd (nadd a x) (map snd (AList.update k (nadd (read_cell hm k) v) hm)) =
               nadd (foldl nadd (nadd a x) (map snd hm)) v"
      by (rule Cons.IH)
    moreover have "read_cell (p # hm) k = read_cell hm k"
      using False by (simp add: p read_cell_def)
    ultimately show ?thesis
      using False by (simp add: p)
  qed
qed

lemma heatmap_fold:
  assumes "\<forall>d\<in>set ds. (dayOfWeek d, hour d) \<in> set (map fst hm)"
  shows "map fst (foldl add_runtime hm ds) = map fst hm \<and>
         foldl nadd a (map snd (foldl add_runtime hm ds)) =
           foldl nadd (foldl nadd a (map snd hm)) (map runtime_hours ds)"
  using assms
proof (induction ds arbitrary: hm)
  case Nil
  then show ?case by simp
next
  case (Cons d ds)
  have k: "(dayOfWeek d, hour d) \<in> set (map fst hm)" using Cons.prems by simp
  have keys: "map fst (add_runtime hm d) = map fst hm"
    unfolding add_runtime_def using k by (rule update_keys_mem)
  have s: "foldl nadd a (map snd (add_runtime hm d)) = nadd (foldl nadd a (map snd hm)) (runtime_hours d)"
    unfolding add_runtime_def using k by (rule update_sum)
  have "\<forall>c\<in>set ds. (dayOfWeek c, hour c) \<in> set (map fst (add_runtime hm d))"
    unfolding keys using Cons.prems by simp
  from Cons.IH [OF this] show ?case
    unfolding keys s by simp
qed

lemma zeros_sum: "foldl nadd (Some 0) (map (\<lambda>k. Some 0) ks) = Some 0"
  by (induction ks) simp_all

lemma read_cells:
  "distinct (map fst hm) \<Longrightarrow> map (read_cell hm) (map fst hm) = map snd hm"
proof (induction hm)
  case Nil
  then show ?case by simp
next
  case (Cons p hm)
  obtain k' x where p: "p = (k', x)" by (cases p)
  have "read_cell (p # hm) k = read_cell hm k" if "k \<in> set (map fst hm)" for k
  proof -
    from Cons.prems that have "k \<noteq> k'" by (auto simp: p)
    then show ?thesis by (simp add: read_cell_def p)
  qed
  then have "map (read_cell (p # hm)) (map fst hm) = map (read_cell hm) (map fst hm)"
    by (intro map_cong refl)
  moreover have "read_cell (p # hm) (fst p) = snd p"
    by (simp add: read_cell_def p)
  ultimately show ?case using Cons by simp
qed

lemma grid_product:
  "concat (map (\<lambda>d. map (\<lambda>h. (Some d, Some h)) hs) ds) =
   map (\<lambda>(d, h). (Some d, Some h)) (List.product ds hs)"
  by (induction ds) simp_all

lemma grid_distinct:
  assumes "distinct ds" and "distinct hs"
  shows "distinct (concat (map (\<lambda>d. map (\<lambda>h. (Some d, Some h)) hs) ds))"
proof -
  have "inj_on (\<lambda>(d, h). (Some d, Some h)) (set (List.product ds hs))"
    by (auto simp: inj_on_def)
  then show ?thesis
    unfolding grid_product using assms by (simp add: distinct_map distinct_product)
qed

lemma heat_keys_distinct: "distinct heat_keys"
  unfolding heat_keys_def by (rule grid_distinct) (rule distinct_upto)+

lemma grid_set:
  "(Some d, Some h) \<in> set (concat (map (\<lambda>d. map (\<lambda>h. (Some d, Some h)) hs) ds)) \<longleftrightarrow>
   d \<in> set ds \<and> h \<in> set hs"
  by (induction ds) auto

lemma heat_keys_mem:
  "(Some d, Some h) \<in> set heat_keys \<longleftrightarrow> 0 \<le> d \<and> d \<le> 6 \<and> 0 \<le> h \<and> h \<le> 23"
  unfolding heat_keys_def grid_set by auto

lemma grid_length: "length (concat (map (\<lambda>d. map (g d) hs) ds)) = length ds * length hs"
  by (induction ds) simp_all

lemma grid_map: "map f (concat (map (\<lambda>d. map (g d) hs) ds)) = concat (map (\<lambda>d. map (\<lambda>h. f (g d h)) hs) ds)"
  by (induction ds) simp_all

lemma init_keys: "map fst (map (\<lambda>key. (key, v)) ks) = ks"
  by (induction ks) simp_all

lemma init_values: "map snd (map (\<lambda>key. (key, v)) ks) = map (\<lambda>k. v) ks"
  by (induction ks) simp_all

lemma heatmap_D_sum:
  assumes "\<forall>d\<in>set ds. (dayOfWeek d, hour d) \<in> set heat_keys"
  shows "map fst (heatmap_D ds) = heat_keys"
    and "sum_numbers (map snd (heatmap_D ds)) = totalRuntime ds"
proof -
  let ?init = "map (\<lambda>key. (key, Some 0 :: number)) heat_keys"
  have "\<forall>d\<in>set ds. (dayOfWeek d, hour d) \<in> set (map fst ?init)"
    unfolding init_keys by (rule assms)
  from heatmap_fold [OF this, of "Some 0"]
  have k: "map fst (foldl add_runtime ?init ds) = map fst ?init"
    and s: "foldl nadd (Some 0) (map snd (foldl add_runtime ?init ds)) =
            foldl nadd (foldl nadd (Some 0) (map snd ?init)) (map runtime_hours ds)"
    by blast+
  show "map fst (heatmap_D ds) = heat_keys"
    unfolding heatmap_D_def k init_keys ..
  show "sum_numbers (map snd (heatmap_D ds)) = totalRuntime ds"
    unfolding heatmap_D_def sum_numbers_def totalRuntime_def s init_values zeros_sum ..
qed

lemma cells_D:
  assumes "ds \<noteq> []"
  shows "map cell_value (hm_data (heatmapData_D ds)) = map (read_cell (heatmap_D ds)) heat_keys"
proof -
  have "hm_data (heatmapData_D ds) =
        concat (map (\<lambda>dayIndex. map (\<lambda>h.
               \<lparr>cell_day = dayIndex, cell_hour = h, dayName = day_names ! nat dayIndex,
                cell_value = read_cell (heatmap_D ds) (Some dayIndex, Some h),
                intensity = (if ngt (Math_max (map snd (heatmap_D ds))) (Some 0)
                             then nmul (ndiv (read_cell (heatmap_D ds) (Some dayIndex, Some h))
                                    (Math_max (map snd (heatmap_D ds)))) (Some 100)
                             else Some 0)\<rparr>) [0..23]) [0..6])"
    using assms by (simp only: heatmapData_D_def Let_def if_False heatmap_result.simps)
  then show ?thesis
    by (simp only: grid_map heat_cell.simps heat_keys_def)
qed

lemma heat_keys_length: "length heat_keys = 168"
  unfolding heat_keys_def grid_length by simp

lemma wide_conservation:
  assumes "ds \<noteq> []" and "\<forall>d\<in>set ds. (dayOfWeek d, hour d) \<in> set heat_keys"
  shows "length (hm_data (heatmapData_D ds)) = 168"
    and "sum_numbers (map cell_value (hm_data (heatmapData_D ds))) = totalRuntime ds"
proof -
  have "length (map cell_value (hm_data (heatmapData_D ds))) = 168"
    unfolding cells_D [OF assms(1)] length_map by (rule heat_keys_length)
  then show "length (hm_data (heatmapData_D ds)) = 168" by simp
  have d: "distinct (map fst (heatmap_D ds))"
    unfolding heatmap_D_sum(1) [OF assms(2)] by (rule heat_keys_distinct)
  have "map (read_cell (heatmap_D ds)) heat_keys = map snd (heatmap_D ds)"
    using read_cells [OF d] unfolding heatmap_D_sum(1) [OF assms(2)] .
  then show "sum_numbers (map cell_value (hm_data (heatmapData_D ds))) = totalRuntime ds"
    unfolding cells_D [OF assms(1)] using heatmap_D_sum(2) [OF assms(2)] by simp
qed

lemma mk_cycle_in_grid:
  assumes "date (mk_cycle env r) \<noteq> None"
  shows "(dayOfWeek (mk_cycle env r), hour (mk_cycle env r)) \<in> set heat_keys"
proof -
  from assms obtain t where t: "new_Date env (get r ''cycle_started_at'') = Some t"
    by (auto simp: mk_cycle_def)
  have "dayOfWeek (mk_cycle env r) = Some (((t + LocalTZA env t) div 86400000 + 4) mod 7)"
    by (simp add: mk_cycle_def getDay_def t)
  moreover have "hour (mk_cycle env r) = Some (((t + LocalTZA env t) div 3600000) mod 24)"
    by (simp add: mk_cycle_def getHours_def t)
  moreover have "((t + LocalTZA env t) div 86400000 + 4) mod 7 \<le> 6"
    using pos_mod_bound [of 7 "(t + LocalTZA env t) div 86400000 + 4"] by simp
  moreover have "((t + LocalTZA env t) div 3600000) mod 24 \<le> 23"
    using pos_mod_bound [of 24 "(t + LocalTZA env t) div 3600000"] by simp
  ultimately show ?thesis
    by (simp only: heat_keys_mem) simp
qed

lemma processed_in_grid:
  assumes "processRows_D env rows = Inr original" and "d \<in> set original"
  shows "(dayOfWeek d, hour d) \<in> set heat_keys"
proof -
  from assms(1) have "original = filter (\<lambda>c. date c \<noteq> None) (map (mk_cycle env) rows)"
    by (simp add: processRows_D_def split: if_splits)
  with assms(2) obtain r where "d = mk_cycle env r" "date (mk_cycle env r) \<noteq> None"
    by auto
  then show ?thesis using mk_cycle_in_grid by simp
qed

lemma update_sum_list:
  assumes "k \<in> set (map fst hm)"
  shows "sum_list (map snd (AList.update k (or0 (map_of hm k) + 1) hm)) = sum_list (map snd hm) + (1 :: rat)"
  using assms
proof (induction hm)
  case Nil
  then show ?case by simp
next
  case (Cons p hm)
  obtain k' x where p: "p = (k', x)" by (cases p)
  show ?case
  proof (cases "k' = k")
    case True
    then show ?thesis by (simp add: p or0_def)
  next
    case False
    with Cons.prems have "k \<in> set (map fst hm)" by (simp add: p)
    then have "sum_list (map snd (AList.update k (or0 (map_of hm k) + 1) hm)) = sum_list (map snd hm) + 1"
      by (rule Cons.IH)
    then show ?thesis using False by (simp add: p)
  qed
qed

lemma count_active_step:
  assumes "sample_key env r \<in> set (map fst hm)"
  shows "map fst (count_active env hm r) = map fst hm"
    and "sum_list (map snd (count_active env hm r)) =
         sum_list (map snd hm) + (if fld r ''DI1_KM'' = Some 1 then 1 else 0)"
proof -
  have k: "(getDay env (time r), getHours env (time r)) \<in> set (map fst hm)"
    using assms by (simp add: sample_key_def)
  show "map fst (count_active env hm r) = map fst hm"
    unfolding count_active_def using update_keys_mem [OF k] by simp
  show "sum_list (map snd (count_active env hm r)) =
         sum_list (map snd hm) + (if fld r ''DI1_KM'' = Some 1 then 1 else 0)"
    unfolding count_active_def using update_sum_list [OF k] by simp
qed

lemma active_fold:
  assumes "\<forall>r\<in>set rt. sample_key env r \<in> set (map fst hm)"
  shows "map fst (foldl (count_active env) hm rt) = map fst hm \<and>
         sum_list (map snd (foldl (count_active env) hm rt)) =
           sum_list (map snd hm) + of_nat (active_samples rt)"
  using assms
proof (induction rt arbitrary: hm)
  case Nil
  then show ?case by (simp add: active_samples_def count_def)
next
  case (Cons r rt)
  have k: "sample_key env r \<in> set (map fst hm)" using Cons.prems by simp
  note st = count_active_step [OF k]
  have "\<forall>c\<in>set rt. sample_key env c \<in> set (map fst (count_active env hm r))"
    unfolding st(1) using Cons.prems by simp
  from Cons.IH [OF this] show ?case
    unfolding st by (simp add: active_samples_def count_def)
qed

lemma zeros_sum_list: "sum_list (map (\<lambda>k. 0 :: rat) ks) = 0"
  by (induction ks) simp_all

lemma active_heatmap_sum:
  assumes "\<forall>r\<in>set rt. sample_key env r \<in> set heat_keys"
  shows "map fst (active_heatmap env rt) = heat_keys"
    and "sum_list (map snd (active_heatmap env rt)) = of_nat (active_samples rt)"
proof -
  let ?init = "map (\<lambda>key. (key, 0 :: rat)) heat_keys"
  have "\<forall>r\<in>set rt. sample_key env r \<in> set (map fst ?init)"
    unfolding init_keys by (rule assms)
  from active_fold [OF this]
  have k: "map fst (foldl (count_active env) ?init rt) = map fst ?init"
    and s: "sum_list (map snd (foldl (count_active env) ?init rt)) =
            sum_list (map snd ?init) + of_nat (active_samples rt)"
    by blast+
  show "map fst (active_heatmap env rt) = heat_keys"
    unfolding active_heatmap_def k init_keys ..
  show "sum_list (map snd (active_heatmap env rt)) = of_nat (active_samples rt)"
    unfolding active_heatmap_def s init_values zeros_sum_list by simp
qed

lemma read_counts:
  "distinct (map fst hm) \<Longrightarrow> map (\<lambda>k. or0 (map_of hm k)) (map fst hm) = map snd hm"
proof (induction hm)
  case Nil
  then show ?case by simp
next
  case (Cons p hm)
  obtain k' x where p: "p = (k', x)" by (cases p)
  have "or0 (map_of (p # hm) k) = or0 (map_of hm k)" if "k \<in> set (map fst hm)" for k
  proof -
    from Cons.prems that have "k \<noteq> k'" by (auto simp: p)
    then show ?thesis by (simp add: p)
  qed
  then have "map (\<lambda>k. or0 (map_of (p # hm) k)) (map fst hm) = map (\<lambda>k. or0 (map_of hm k)) (map fst hm)"
    by (intro map_cong refl)
  moreover have "or0 (map_of (p # hm) (fst p)) = snd p"
    by (simp add: or0_def p)
  ultimately show ?case using Cons by simp
qed

lemma sum_numbers_Some: "sum_numbers (map Some xs) = Some (sum_list xs)"
proof -
  have "foldl nadd (Some a) (map Some xs) = Some (a + sum_list xs)" for a
    by (induction xs arbitrary: a) (simp_all add: add.assoc)
  from this [of 0] show ?thesis by (simp add: sum_numbers_def)
qed

lemma cells_long:
  assumes "rt \<noteq> []"
  shows "map cell_value (hm_data (calculateUtilizationHeatmap env rt)) =
         map (\<lambda>key. Some (or0 (map_of (active_heatmap env rt) key))) heat_keys"
proof -
  have "hm_data (calculateUtilizationHeatmap env rt) =
        concat (map (\<lambda>dayIndex. map (\<lambda>h.
               \<lparr>cell_day = dayIndex, cell_hour = h, dayName = day_names ! nat dayIndex,
                cell_value = Some (or0 (map_of (active_heatmap env rt) (Some dayIndex, Some h))),
                intensity = Some (or0 (map_of (active_heatmap env rt) (Some dayIndex, Some h)) /
                                  fold max (map snd (active_heatmap env rt)) 1 * 100)\<rparr>)
               [0..23]) [0..6])"
    using assms by (simp only: calculateUtilizationHeatmap_def Let_def if_False heatmap_result.simps)
  then show ?thesis
    by (simp only: grid_map heat_cell.simps heat_keys_def)
qed

lemma long_conservation:
  assumes "rt \<noteq> []" and "\<forall>r\<in>set rt. sample_key env r \<in> set heat_keys"
  shows "length (hm_data (calculateUtilizationHeatmap env rt)) = 168"
    and "sum_numbers (map cell_value (hm_data (calculateUtilizationHeatmap env rt))) =
         Some (of_nat (active_samples rt))"
proof -
  have "length (map cell_value (hm_data (calculateUtilizationHeatmap env rt))) = 168"
    unfolding cells_long [OF assms(1)] length_map by (rule heat_keys_length)
  then show "length (hm_data (calculateUtilizationHeatmap env rt)) = 168" by simp
  have d: "distinct (map fst (active_heatmap env rt))"
    unfolding active_heatmap_sum(1) [OF assms(2)] by (rule heat_keys_distinct)
  have "map (\<lambda>k. or0 (map_of (active_heatmap env rt) k)) heat_keys = map snd (active_heatmap env rt)"
    using read_counts [OF d] unfolding active_heatmap_sum(1) [OF assms(2)] .
  then have "map Some (map (\<lambda>k. or0 (map_of (active_heatmap env rt) k)) heat_keys) =
             map Some (map snd (active_heatmap env rt))"
    by (rule arg_cong)
  then have "map (\<lambda>key. Some (or0 (map_of (active_heatmap env rt) key))) heat_keys =
             map Some (map snd (active_heatmap env rt))"
    by (simp only: map_map comp_def)
  then have "sum_numbers (map cell_value (hm_data (calculateUtilizationHeatmap env rt))) =
             sum_numbers (map Some (map snd (active_heatmap env rt)))"
    unfolding cells_long [OF assms(1)] by (rule arg_cong)
  also have "\<dots> = Some (sum_list (map snd (active_heatmap env rt)))"
    by (rule sum_numbers_Some)
  also have "\<dots> = Some (of_nat (active_samples rt))"
    unfolding active_heatmap_sum(2) [OF assms(2)] ..
  finally show "sum_numbers (map cell_value (hm_data (calculateUtilizationHeatmap env rt))) =
         Some (of_nat (active_samples rt))" .
qed

lemma sample_in_grid:
  assumes "time r \<noteq> None"
  shows "sample_key env r \<in> set heat_keys"
proof -
  from assms obtain t where t: "time r = Some t" by auto
  have "((t + LocalTZA env t) div 86400000 + 4) mod 7 \<le> 6"
    using pos_mod_bound [of 7 "(t + LocalTZA env t) div 86400000 + 4"] by simp
  moreover have "((t + LocalTZA env t) div 3600000) mod 24 \<le> 23"
    using pos_mod_bound [of 24 "(t + LocalTZA env t) div 3600000"] by simp
  ultimately show ?thesis
    unfolding sample_key_def t getDay_def getHours_def option.map
    by (simp only: heat_keys_mem) simp
qed


section \<open>The claims\<close>

text \<open>
  C1, as amended. Filtering is idempotent, applying a filter to its own result gives
  that result again, for \<open>DataProcessor.applyFilters\<close> on every list of points, date range
  and time range, and for \<open>applyFilters\<close> of both wide dashboards on every dataset none of
  whose cycles starts within 30 days of the earliest instant a Date can hold, with
  every device, location and time range.
\<close>

theorem filter_idempotent:
  assumes "clear_of_limit env ds"
  shows "filtered_view env (filtered_view env ds dev loc rng) dev loc rng = filtered_view env ds dev loc rng \<and>
   filtered_view_D env (filtered_view_D env ds dev rng) dev rng = filtered_view_D env ds dev rng \<and>
   DataProcessor_applyFilters env (DataProcessor_applyFilters env ps dr tr) dr tr =
     DataProcessor_applyFilters env ps dr tr"
  using applyFilters_idempotent [OF assms] applyFilters_D_idempotent [OF assms]
    DataProcessor_applyFilters_idempotent
  by (intro conjI)

text \<open>
  The amended C1 at a dataset of three cycles over a week, filtered by device \<open>M1\<close> and
  7 days, and at three points filtered by one hour.
\<close>

theorem filter_idempotent_witness:
  "clear_of_limit utc week_cycles \<and>
   filtered_view utc (filtered_view utc week_cycles ''M1'' ''all'' ''7d'') ''M1'' ''all'' ''7d'' =
     filtered_view utc week_cycles ''M1'' ''all'' ''7d'' \<and>
   filtered_view_D utc (filtered_view_D utc week_cycles ''M1'' ''7d'') ''M1'' ''7d'' =
     filtered_view_D utc week_cycles ''M1'' ''7d'' \<and>
   DataProcessor_applyFilters utc (DataProcessor_applyFilters utc day_points no_dateRange ''1h'') no_dateRange ''1h'' =
     DataProcessor_applyFilters utc day_points no_dateRange ''1h''"
  using week_clear filter_idempotent [OF week_clear] by (rule conjI)

text \<open>
  C1 as stated fails for the wide dashboards at the edge of the Date range: of two
  cycles one day after the earliest instant, the selection of device \<open>M2\<close> and 24 hours
  keeps the cycle of \<open>M2\<close>; filtered again, the window start lies before the earliest
  instant, is an invalid Date, and no cycle is left.
\<close>

theorem filter_idempotent_counterexample:
  "filtered_view utc limit_cycles ''M2'' ''all'' ''24h'' = drop 1 limit_cycles \<and>
   length (drop 1 limit_cycles) = 1 \<and>
   filtered_view utc (filtered_view utc limit_cycles ''M2'' ''all'' ''24h'') ''M2'' ''all'' ''24h'' = [] \<and>
   filtered_view_D utc limit_cycles ''M2'' ''24h'' = drop 1 limit_cycles \<and>
   filtered_view_D utc (filtered_view_D utc limit_cycles ''M2'' ''24h'') ''M2'' ''24h'' = []"
proof (intro conjI)
  show "filtered_view utc limit_cycles ''M2'' ''all'' ''24h'' = drop 1 limit_cycles"
    by (rule limit_first)
  show "length (drop 1 limit_cycles) = 1"
    by (simp add: limit_cycles_def limit_rows_def)
  show "filtered_view utc (filtered_view utc limit_cycles ''M2'' ''all'' ''24h'') ''M2'' ''all'' ''24h'' = []"
    unfolding limit_first by (rule limit_second)
  show "filtered_view_D utc limit_cycles ''M2'' ''24h'' = drop 1 limit_cycles"
    by (rule limit_first_D)
  show "filtered_view_D utc (filtered_view_D utc limit_cycles ''M2'' ''24h'') ''M2'' ''24h'' = []"
    unfolding limit_first_D by (rule limit_second_D)
qed

text \<open>
  C2, as amended. In the wide dashboards, for a non-empty original dataset whose
  cycles have valid starts, none within 30 days of the earliest instant a Date can
  hold, \<open>applyFilters\<close> keeps exactly the records of the device- and location-filtered
  working set whose timestamp is not before the window start, where the reference
  instant is the latest timestamp of the original dataset and the window starts 24
  hours, 7 days or 30 days before it, or at the epoch for any other selection.
  \<open>DataProcessor.applyFilters\<close> of the long-shape dashboard is different. On points with
  valid timestamps, the selection \<open>all\<close> keeps the whole working set that the date range
  leaves, and the selections \<open>1h\<close>, \<open>3h\<close>, \<open>6h\<close> and \<open>12h\<close> keep the points of that working
  set whose timestamp is not more than 1, 3, 6 and 12 hours before the latest
  timestamp of that working set.
\<close>

theorem time_window_reference:
  assumes "ds \<noteq> []" and "\<forall>d\<in>set ds. started env d \<noteq> None" and "clear_of_limit env ds"
    and "\<forall>p\<in>set ps. timestamp p \<noteq> None"
  shows "filtered_view env ds dev loc rng =
           spec_timeWindow (started env) ds (filter (device_location_pass dev loc) ds) rng \<and>
         filtered_view_D env ds dev rng =
           spec_timeWindow (started env) ds (filter (device_location_pass dev ''all'') ds) rng \<and>
         DataProcessor_applyFilters env ps dr ''all'' = filter (in_dateRange env dr) ps \<and>
         DataProcessor_applyFilters env ps dr ''1h'' =
           kept_since timestamp (latest timestamp (filter (in_dateRange env dr) ps) - 60 * 60 * 1000)
             (filter (in_dateRange env dr) ps) \<and>
         DataProcessor_applyFilters env ps dr ''3h'' =
           kept_since timestamp (latest timestamp (filter (in_dateRange env dr) ps) - 3 * 60 * 60 * 1000)
             (filter (in_dateRange env dr) ps) \<and>
         DataProcessor_applyFilters env ps dr ''6h'' =
           kept_since timestamp (latest timestamp (filter (in_dateRange env dr) ps) - 6 * 60 * 60 * 1000)
             (filter (in_dateRange env dr) ps) \<and>
         DataProcessor_applyFilters env ps dr ''12h'' =
           kept_since timestamp (latest timestamp (filter (in_dateRange env dr) ps) - 12 * 60 * 60 * 1000)
             (filter (in_dateRange env dr) ps)"
proof (intro conjI)
  have "filtered_view env ds dev loc rng =
     filter (\<lambda>d. date_ge (started env d) (startDate rng (max_date (map (started env) ds))))
       (filter (device_location_pass dev loc) ds)"
    unfolding device_location_pass_def by (rule filtered_view_eq)
  also have "\<dots> = spec_timeWindow (started env) ds (filter (device_location_pass dev loc) ds) rng"
    using assms(1,2,3) by (rule wide_window_spec)
  finally show "filtered_view env ds dev loc rng =
           spec_timeWindow (started env) ds (filter (device_location_pass dev loc) ds) rng" .
  have "filtered_view_D env ds dev rng =
     filter (\<lambda>d. date_ge (started env d) (startDate rng (max_date (map (started env) ds))))
       (filter (device_location_pass dev ''all'') ds)"
    unfolding device_location_pass_all by (rule filtered_view_D_eq)
  also have "\<dots> = spec_timeWindow (started env) ds (filter (device_location_pass dev ''all'') ds) rng"
    using assms(1,2,3) by (rule wide_window_spec)
  finally show "filtered_view_D env ds dev rng =
           spec_timeWindow (started env) ds (filter (device_location_pass dev ''all'') ds) rng" .
  show "DataProcessor_applyFilters env ps dr ''all'' = filter (in_dateRange env dr) ps"
    by (rule long_all)
  show "DataProcessor_applyFilters env ps dr ''1h'' =
           kept_since timestamp (latest timestamp (filter (in_dateRange env dr) ps) - 60 * 60 * 1000)
             (filter (in_dateRange env dr) ps)"
    using assms(4) by (rule long_window) (simp, rule cutoff_1h)
  show "DataProcessor_applyFilters env ps dr ''3h'' =
           kept_since timestamp (latest timestamp (filter (in_dateRange env dr) ps) - 3 * 60 * 60 * 1000)
             (filter (in_dateRange env dr) ps)"
    using assms(4) by (rule long_window) (simp, rule cutoff_3h)
  show "DataProcessor_applyFilters env ps dr ''6h'' =
           kept_since timestamp (latest timestamp (filter (in_dateRange env dr) ps) - 6 * 60 * 60 * 1000)
             (filter (in_dateRange env dr) ps)"
    using assms(4) by (rule long_window) (simp, rule cutoff_6h)
  show "DataProcessor_applyFilters env ps dr ''12h'' =
           kept_since timestamp (latest timestamp (filter (in_dateRange env dr) ps) - 12 * 60 * 60 * 1000)
             (filter (in_dateRange env dr) ps)"
    using assms(4) by (rule long_window) (simp, rule cutoff_12h)
qed

text \<open>
  The amended C2 at three cycles over a week, of which the one of device \<open>M2\<close> is more
  than 24 hours before the latest cycle of the original dataset, and at three points
  over a week with a date range that holds the first two and the selection \<open>12h\<close>.
\<close>

theorem time_window_reference_witness:
  "week_cycles \<noteq> [] \<and> list_all (\<lambda>d. started utc d \<noteq> None) week_cycles \<and>
   clear_of_limit utc week_cycles \<and> list_all (\<lambda>p. timestamp p \<noteq> None) range_points \<and>
   filtered_view utc week_cycles ''M2'' ''all'' ''24h'' =
     spec_timeWindow (started utc) week_cycles (filter (device_location_pass ''M2'' ''all'') week_cycles) ''24h'' \<and>
   filtered_view utc week_cycles ''M2'' ''all'' ''24h'' = [] \<and>
   filtered_view_D utc week_cycles ''M2'' ''24h'' = [] \<and>
   DataProcessor_applyFilters utc range_points first_days ''12h'' =
     kept_since timestamp (latest timestamp (filter (in_dateRange utc first_days) range_points) - 12 * 60 * 60 * 1000)
       (filter (in_dateRange utc first_days) range_points) \<and>
   filter (in_dateRange utc first_days) range_points = take 2 range_points \<and>
   DataProcessor_applyFilters utc range_points first_days ''12h'' = take 1 (drop 1 range_points)"
proof -
  note t = time_window_reference [OF week_cycles_ne week_valid week_clear range_valid,
      where dev = "''M2''" and loc = "''all''" and rng = "''24h''" and dr = first_days]
  show ?thesis
  proof (intro conjI)
    show "week_cycles \<noteq> []" by (rule week_cycles_ne)
    show "list_all (\<lambda>d. started utc d \<noteq> None) week_cycles"
      using week_valid by (simp add: list_all_iff)
    show "clear_of_limit utc week_cycles" by (rule week_clear)
    show "list_all (\<lambda>p. timestamp p \<noteq> None) range_points"
      using range_valid by (simp add: list_all_iff)
    show "filtered_view utc week_cycles ''M2'' ''all'' ''24h'' =
     spec_timeWindow (started utc) week_cycles (filter (device_location_pass ''M2'' ''all'') week_cycles) ''24h''"
      using t by (elim conjE)
    show "filtered_view utc week_cycles ''M2'' ''all'' ''24h'' = []" by (rule week_M2_24h)
    show "filtered_view_D utc week_cycles ''M2'' ''24h'' = []" by (rule week_M2_24h_D)
    show "DataProcessor_applyFilters utc range_points first_days ''12h'' =
     kept_since timestamp (latest timestamp (filter (in_dateRange utc first_days) range_points) - 12 * 60 * 60 * 1000)
       (filter (in_dateRange utc first_days) range_points)"
      using t by (elim conjE)
    show "filter (in_dateRange utc first_days) range_points = take 2 range_points"
      by (rule range_working)
    show "DataProcessor_applyFilters utc range_points first_days ''12h'' = take 1 (drop 1 range_points)"
      by (rule range_12h)
  qed
qed

text \<open>
  C2 as stated fails on \<open>DataProcessor.applyFilters\<close>. With the selection \<open>all\<close> it keeps
  a point of 1969, which is before the epoch that the claim gives as window start.
  With a date range that holds the first two of three points and the selection \<open>12h\<close>
  it keeps the second point, which is within 12 hours of the latest point of the date
  range; no point of the date range is within 12 hours of the latest point of the
  original list.
\<close>

theorem time_window_counterexample:
  "DataProcessor_applyFilters utc old_points no_dateRange ''all'' = old_points \<and>
   spec_timeWindow timestamp old_points old_points ''all'' = drop 1 old_points \<and>
   length old_points = 2 \<and>
   DataProcessor_applyFilters utc range_points first_days ''12h'' = take 1 (drop 1 range_points) \<and>
   kept_since timestamp (latest timestamp range_points - 12 * 60 * 60 * 1000)
     (filter (in_dateRange utc first_days) range_points) = [] \<and>
   length range_points = 3"
proof (intro conjI)
  show "DataProcessor_applyFilters utc old_points no_dateRange ''all'' = old_points" by (rule old_all)
  show "spec_timeWindow timestamp old_points old_points ''all'' = drop 1 old_points" by (rule old_spec)
  show "length old_points = 2" by (simp add: old_points_def)
  show "DataProcessor_applyFilters utc range_points first_days ''12h'' = take 1 (drop 1 range_points)"
    by (rule range_12h)
  show "kept_since timestamp (latest timestamp range_points - 12 * 60 * 60 * 1000)
     (filter (in_dateRange utc first_days) range_points) = []" by (rule range_claim)
  show "length range_points = 3" by (simp add: range_points_def)
qed

text \<open>
  C3. The claim: every \<open>utilizationRate\<close> of the fleet-KPI computations lies in the
  interval from 0 to 100. \<open>calculateFleetKPIs\<close> of the long-shape dashboard does not
  clamp: for two cycles of 10 seconds whose timestamps are 10 seconds apart the rate is
  200, printed as \<open>200.0\<close>. (The wide dashboards clamp with \<open>Math.min(..., 100)\<close>.)
\<close>

theorem fleet_utilization_unclamped:
  "fleet_utilizationRate close_cycles = Some 200 \<and>
   map_option kpi_utilizationRate (calculateFleetKPIs close_cycles [] default_thresholds) = Some ''200.0''"
proof -
  have "close_cycles \<noteq> []" by (simp add: close_cycles_def)
  then show ?thesis
    by (simp add: calculateFleetKPIs_def Let_def close_utilization toFixed_200)
qed


text \<open>
  C4, as amended. Every function of the two \<open>MetricsCalculator\<close> objects returns, for an
  empty list of cycles or of real-time samples (whichever its guard reads), the fixed
  result of that guard, and raises nothing. The fixed results are zeros, empty lists
  and empty objects (\<open>None\<close> below), with these exceptions: \<open>mttr\<close> is 2.5 in
  \<open>calculateLifetimeMetrics\<close>; in \<open>src/src/TimeSeriesDashboard.js\<close>, \<open>mtbf\<close> is 20 in
  \<open>calculateSafetyMetrics\<close>, \<open>remaining\<close> is 100 and \<open>remainingCycles\<close> is 50000 in
  \<open>calculateEOLMetrics\<close>, and \<open>calculateChamberFullness\<close> gives the level \<open>Low\<close> with its
  colour.
\<close>

theorem empty_input_results:
  "calculateFleetKPIs [] realTime th = None \<and>
   calculateCycleMetrics [] = \<lparr>trends = [], distribution = [], driftAnalysis = [], baseline = 0\<rparr> \<and>
   calculateElectricalMetrics [] th = \<lparr>inrush = [], voltage = [], current = [], startDelay = []\<rparr> \<and>
   calculateVoltageMonitoring [] = [] \<and>
   calculateAnomalies [] th = \<lparr>anomalies = [], an_count = 0, recentAnomalies = [], an_severity = None\<rparr> \<and>
   calculateSafetyMetrics [] = \<lparr>events = [], timeline = []\<rparr> \<and>
   calculateEnergyMetrics env [] = \<lparr>efficiency = [], hourly = [], composite = []\<rparr> \<and>
   calculateVoltageSagAnalysis [] = \<lparr>sags = [], sag_severity = None\<rparr> \<and>
   calculateUtilizationHeatmap env [] = \<lparr>hm_days = [], hm_hours = [], hm_data = []\<rparr> \<and>
   calculateIdleActiveAnalysis [] =
     \<lparr>activeHours = JNum 0, idleHours = JNum 0, totalHours = JNum 0, activePercent = JNum 0\<rparr> \<and>
   calculateLifetimeMetrics [] th =
     \<lparr>lifetimeCycles = 0, rul = JNum 0, rulDays = JNum 0, remainingCycles = 0, mtbf = JNum 0, mttr = 5 / 2\<rparr> \<and>
   calculateDIStateTimeline [] = [] \<and>
   calculateUtilization [] = Some 0 \<and>
   calculateCycleMetrics_K env [] = \<lparr>ck_trends = Some [], ck_total = 0, ck_avgPerDay = 0\<rparr> \<and>
   calculateDailyData env [] = [] \<and>
   calculateElectricalMetrics_K env [] = \<lparr>ek_inrush = [], ek_voltage = []\<rparr> \<and>
   calculateIdleActiveTime env [] cycles =
     \<lparr>ik_data = [], ik_activeHours = 0, ik_idleHours = 0, ik_totalHours = None, ik_activePercent = 0\<rparr> \<and>
   calculateIdleActiveTime env realTime [] =
     \<lparr>ik_data = [], ik_activeHours = 0, ik_idleHours = 0, ik_totalHours = None, ik_activePercent = 0\<rparr> \<and>
   calculateUtilizationHeatmap_K env [] = [] \<and>
   calculateEnergyHeatmap env [] = [] \<and>
   calculateChamberFullness [] cycles = \<lparr>cf_percent = 0, cf_color = ''bg-green-600'', cf_level = ''Low''\<rparr> \<and>
   calculateEnergyMetrics_K env [] = [] \<and>
   calculateAnomalyMetrics env [] = \<lparr>ak_score = 0, ak_breakdown = [], ak_recent = []\<rparr> \<and>
   calculateSafetyMetrics_K env [] =
     \<lparr>sk_eStop = 0, sk_door = 0, sk_errors = 0, sk_mtbf = 20, sk_events = []\<rparr> \<and>
   calculateEOLMetrics [] =
     \<lparr>eol_lifetimeCycles = 0, eol_remaining = 100, eol_remainingCycles = 50000, eol_rulDays = Some 0,
      forecast = []\<rparr>"
  by (simp add: calculateFleetKPIs_def calculateCycleMetrics_def calculateElectricalMetrics_def
      calculateVoltageMonitoring_def calculateAnomalies_def calculateSafetyMetrics_def
      calculateEnergyMetrics_def calculateVoltageSagAnalysis_def calculateUtilizationHeatmap_def
      calculateIdleActiveAnalysis_def calculateLifetimeMetrics_def calculateDIStateTimeline_def
      calculateUtilization_def calculateCycleMetrics_K_def calculateDailyData_def
      calculateElectricalMetrics_K_def calculateIdleActiveTime_def calculateUtilizationHeatmap_K_def
      calculateEnergyHeatmap_def calculateChamberFullness_def calculateEnergyMetrics_K_def
      calculateAnomalyMetrics_def calculateSafetyMetrics_K_def calculateEOLMetrics_def)

text \<open>
  C4 as stated fails: four of the numbers returned for empty input are not zero.
\<close>

theorem empty_input_counterexample:
  "mttr (calculateLifetimeMetrics [] default_thresholds) = 5 / 2 \<and>
   sk_mtbf (calculateSafetyMetrics_K utc []) = 20 \<and>
   eol_remaining (calculateEOLMetrics []) = 100 \<and>
   eol_remainingCycles (calculateEOLMetrics []) = 50000"
  by (simp add: calculateLifetimeMetrics_def calculateSafetyMetrics_K_def calculateEOLMetrics_def)

text \<open>
  C5, as amended. In the dashboard that checks the required columns (the one with the
  location filter, \<open>src/unnamed/part_001\<close>), an upload of at least one wide-shape row
  whose header lacks \<open>cycle_duration_ms\<close> fails with the error message
  \<open>Missing required columns:\<close> followed by the missing columns, that column among
  them, and the failed upload replaces the displayed and the original dataset by the
  empty list.
\<close>

theorem missing_column_upload:
  assumes "rows \<noteq> []" and "''cycle_duration_ms'' \<notin> set (Object_keys (hd rows))"
  shows "processCSVData env rows st =
           st\<lparr>errorMessage := ''Missing required columns: '' @
                   join '', '' (filter (\<lambda>col. col \<notin> set (Object_keys (hd rows))) requiredColumns),
              data := [], originalData := [], loading := False\<rparr> \<and>
         ''cycle_duration_ms'' \<in> set (filter (\<lambda>col. col \<notin> set (Object_keys (hd rows))) requiredColumns)"
proof -
  from missing_columns [OF assms, of env]
  have p: "processRows env rows = Inl (Error (''Missing required columns: '' @
          join '', '' (filter (\<lambda>col. col \<notin> set (Object_keys (hd rows))) requiredColumns)))"
    and m: "''cycle_duration_ms'' \<in> set (filter (\<lambda>col. col \<notin> set (Object_keys (hd rows))) requiredColumns)"
    by blast+
  have "processCSVData env rows st =
           st\<lparr>errorMessage := ''Missing required columns: '' @
                   join '', '' (filter (\<lambda>col. col \<notin> set (Object_keys (hd rows))) requiredColumns),
              data := [], originalData := [], loading := False\<rparr>"
    unfolding processCSVData_def p by simp
  then show ?thesis using m by (rule conjI)
qed

text \<open>
  The amended C5 at an upload with the columns \<open>device_id\<close> and \<open>cycle_started_at\<close> only,
  into a dashboard that shows two cycles.
\<close>

theorem missing_column_upload_witness:
  "short_rows \<noteq> [] \<and> ''cycle_duration_ms'' \<notin> set (Object_keys (hd short_rows)) \<and>
   errorMessage (processCSVData utc short_rows (loaded m1_energy_cycles ''all'' ''all'' ''7d'')) =
     ''Missing required columns: cycle_duration_ms'' \<and>
   data (processCSVData utc short_rows (loaded m1_energy_cycles ''all'' ''all'' ''7d'')) = [] \<and>
   originalData (processCSVData utc short_rows (loaded m1_energy_cycles ''all'' ''all'' ''7d'')) = []"
  using missing_column_upload [OF short_hyps, of utc "loaded m1_energy_cycles ''all'' ''all'' ''7d''"]
    short_hyps
  unfolding short_missing by simp

text \<open>
  C5 as stated fails: a dashboard that has loaded two cycles and shows their KPIs
  shows no cycle after the failed upload, and has none left to filter.
\<close>

theorem missing_column_counterexample:
  "processCSVData utc m1_energy_rows (loaded [] ''all'' ''all'' ''7d'') =
     loaded m1_energy_cycles ''all'' ''all'' ''7d'' \<and>
   data (loaded m1_energy_cycles ''all'' ''all'' ''7d'') = m1_energy_cycles \<and>
   length m1_energy_cycles = 2 \<and>
   \<not> isl (kpis utc m1_energy_cycles) \<and>
   data (processCSVData utc short_rows (loaded m1_energy_cycles ''all'' ''all'' ''7d'')) = [] \<and>
   originalData (processCSVData utc short_rows (loaded m1_energy_cycles ''all'' ''all'' ''7d'')) = []"
proof (intro conjI)
  show "processCSVData utc m1_energy_rows (loaded [] ''all'' ''all'' ''7d'') =
     loaded m1_energy_cycles ''all'' ''all'' ''7d''" by (rule m1e_loaded)
  show "data (loaded m1_energy_cycles ''all'' ''all'' ''7d'') = m1_energy_cycles"
    by (simp add: loaded_def)
  show "length m1_energy_cycles = 2"
    by (simp add: m1_energy_cycles_def m1_energy_rows_def m1_rows_def)
  show "\<not> isl (kpis utc m1_energy_cycles)" by (rule m1e_shown)
  have p: "processRows utc short_rows = Inl (Error (''Missing required columns: '' @
          join '', '' (filter (\<lambda>col. col \<notin> set (Object_keys (hd short_rows))) requiredColumns)))"
    using missing_columns [OF short_hyps, of utc] by (rule conjunct1)
  show "data (processCSVData utc short_rows (loaded m1_energy_cycles ''all'' ''all'' ''7d'')) = []"
    unfolding processCSVData_def p by simp
  show "originalData (processCSVData utc short_rows (loaded m1_energy_cycles ''all'' ''all'' ''7d'')) = []"
    unfolding processCSVData_def p by simp
qed

text \<open>
  C6. The claim: the drift baseline is the element at index \<open>floor(n/2)\<close> of the durations
  in ascending numeric order. The code sorts with \<open>sort()\<close> and no comparator, that is
  by the strings the numbers print as: for the durations 9, 10 and 100 the sorted list
  is 10, 100, 9 and the baseline 100, where the claim has 10; the cycles of 9 and 10
  seconds are flagged as drifting and the one of 100 seconds is not, where the claim
  flags only the latter. \<open>healthMetrics\<close> of the wide dashboard sorts the same way. On
  the five durations 10, 10, 10, 10, 20 of the scenario the two orders agree: the
  baseline is 10 and the fifth cycle, at 100 percent, is the one drifting entry.
\<close>

theorem drift_baseline_string_order:
  "baseline_of [9, 10, 100] = 100 \<and> spec_baseline [9, 10, 100] = 10 \<and>
   baseline (calculateCycleMetrics (cycles_of [9, 10, 100])) = 100 \<and>
   map isDrifting (trends (calculateCycleMetrics (cycles_of [9, 10, 100]))) = [True, True, False] \<and>
   map (\<lambda>d. \<bar>(d - spec_baseline [9, 10, 100]) / spec_baseline [9, 10, 100] * 100\<bar> > 10) [9, 10, 100] =
     [False, False, True] \<and>
   baselineCycleTime three_cycles = JNum 100000 \<and>
   baseline (calculateCycleMetrics five_cycles) = 10 \<and>
   map isDrifting (trends (calculateCycleMetrics five_cycles)) = [False, False, False, False, True] \<and>
   map tr_drift (trends (calculateCycleMetrics five_cycles)) = [0, 0, 0, 0, 100]"
  using three_baseline_of three_spec_baseline three_metrics spec_flags three_baseline five_metrics
  by (intro conjI) (elim conjE, assumption)+



text \<open>
  C9. The claim: for the CSV with the header \<open>device_id,cycle_started_at,cycle_duration_ms\<close>
  and two rows of device M1, one hour apart, of 3600000 ms and 7200000 ms, the fleet
  KPIs have a total runtime of 3.0 hours, 2 cycles and a utilization rate of 100. The
  code computes these three numbers, but then builds the KPI object with
  \<open>totalEnergy.toFixed(1)\<close>, where \<open>totalEnergy\<close> is the \<open>_.sumBy\<close> of a column the CSV does
  not have, that is \<open>undefined\<close>: \<open>kpis\<close> and \<open>fleetMetrics\<close> both throw a TypeError and
  no KPI is produced.
\<close>

theorem round_trip_kpis_throw:
  "processRows utc m1_rows = Inr m1_cycles \<and> processRows_D utc m1_rows = Inr m1_cycles \<and>
   totalRuntime m1_cycles = Some 3 \<and> length m1_cycles = 2 \<and>
   Math_min2 (utilizationRate utc m1_cycles) (Some 100) = Some 100 \<and>
   kpis utc m1_cycles = Inl (TypeError ''toFixed'') \<and>
   fleetMetrics utc m1_cycles = Inl (TypeError ''toFixed'')"
  by (simp add: m1_processed m1_processed_D m1_totalRuntime m1_utilization m1_kpis m1_fleetMetrics)
     (simp add: m1_cycles_def m1_rows_def)



end
